theory Spec2Isabelle
  imports Complex_Main "HOL-Library.Word" "HOL-Library.State_Monad"
begin

section \<open>Lengths, colours and enumerations\<close>

text \<open>
  The script \<^verbatim>\<open>create_sophisticated_presentations.py\<close> drives the python-pptx
  library, which is not part of the repository: its operations are modelled here as the
  library behaves, each with a note of what is taken from it.

  Lengths are English Metric Units, Python integers: \<^verbatim>\<open>Inches(x)\<close> is
  \<^verbatim>\<open>int(x * 914400)\<close> and \<^verbatim>\<open>Pt(x)\<close> is \<^verbatim>\<open>int(x * 12700)\<close>, where \<^verbatim>\<open>int\<close>
  truncates towards zero. A Python float is taken as the decimal number written in the
  script and float arithmetic as exact arithmetic on rationals. Binary rounding can move
  a product across an integer, so a length that the script computes through a float can
  be one unit smaller there than here. Of the lengths the script computes, four values
  are: \<^verbatim>\<open>Inches(8.2)\<close> (7498079 in Python, 7498080 here), \<^verbatim>\<open>Inches(8.2 + 0.2)\<close>,
  \<^verbatim>\<open>Inches(3 + 1 * 1.1)\<close> and \<^verbatim>\<open>Inches(0.8 + 1 * 4.1)\<close>, each the left or top edge
  of a card or of its text. The canvas size, every length a statement below names, and
  every comparison with the canvas size are the same in both.
\<close>

type_synonym emu = int

definition py_int :: "rat \<Rightarrow> int" where
  "py_int x = (if 0 \<le> x then \<lfloor>x\<rfloor> else \<lceil>x\<rceil>)"

definition Inches :: "rat \<Rightarrow> emu" where
  "Inches x = py_int (x * 914400)"

definition Pt :: "rat \<Rightarrow> emu" where
  "Pt x = py_int (x * 12700)"

text \<open>
  \<^verbatim>\<open>RGBColor(r, g, b)\<close> holds three channels in 0..255; the library's constructor
  refuses any other value, and the colour setters refuse any object that is not an
  \<^verbatim>\<open>RGBColor\<close>. A colour is therefore three bytes.
\<close>

datatype RGBColor = RGBColor "8 word" "8 word" "8 word"

definition AVEMO_ORANGE :: RGBColor where
  "AVEMO_ORANGE = RGBColor 0xFF 0x79 0x32"

definition AVEMO_BLACK :: RGBColor where
  "AVEMO_BLACK = RGBColor 0x1A 0x1A 0x1A"

definition AVEMO_WHITE :: RGBColor where
  "AVEMO_WHITE = RGBColor 0xFF 0xFF 0xFF"

definition AVEMO_GRAY_DARK :: RGBColor where
  "AVEMO_GRAY_DARK = RGBColor 0x33 0x33 0x33"

definition AVEMO_GRAY_MID :: RGBColor where
  "AVEMO_GRAY_MID = RGBColor 0x66 0x66 0x66"

definition AVEMO_GRAY_LIGHT :: RGBColor where
  "AVEMO_GRAY_LIGHT = RGBColor 0xF5 0xF5 0xF5"

definition SLIDE_WIDTH :: emu where
  "SLIDE_WIDTH = Inches 13.333"

definition SLIDE_HEIGHT :: emu where
  "SLIDE_HEIGHT = Inches 7.5"

datatype MSO_SHAPE = RECTANGLE | OVAL | ROUNDED_RECTANGLE

datatype PP_ALIGN = LEFT | CENTER

text \<open>Decimal and hexadecimal text of numbers, as \<^verbatim>\<open>str\<close> and \<^verbatim>\<open>%02X\<close> print them.\<close>

definition digit_char :: "nat \<Rightarrow> char" where
  "digit_char d = ''0123456789ABCDEF'' ! d"

fun str_nat :: "nat \<Rightarrow> string" where
  "str_nat n = (if n < 10 then [digit_char n] else str_nat (n div 10) @ [digit_char (n mod 10)])"

definition str :: "int \<Rightarrow> string" where
  "str i = (if i < 0 then CHR ''-'' # str_nat (nat (- i)) else str_nat (nat i))"

definition hex2 :: "8 word \<Rightarrow> string" where
  "hex2 b = [digit_char (unat b div 16), digit_char (unat b mod 16)]"

fun str_rgb :: "RGBColor \<Rightarrow> string" where
  "str_rgb (RGBColor r g b) = hex2 r @ hex2 g @ hex2 b"

section \<open>The style description tree\<close>

text \<open>
  A shape's style description is an XML element (\<^verbatim>\<open>p:spPr\<close>). \<^verbatim>\<open>find\<close> returns
  the first direct child with a tag, \<^verbatim>\<open>append\<close> adds a last child. A mutation of a
  node reached through \<^verbatim>\<open>find\<close> is written back at the same position.
\<close>

datatype xml = Elem (tag: string) (attrib: "(string \<times> string) list") (children: "xml list")

definition find_child :: "string \<Rightarrow> xml \<Rightarrow> xml option" where
  "find_child t e = List.find (\<lambda>c. tag c = t) (children e)"

definition append_child :: "xml \<Rightarrow> xml \<Rightarrow> xml" where
  "append_child e c = Elem (tag e) (attrib e) (children e @ [c])"

fun update_first_in :: "string \<Rightarrow> (xml \<Rightarrow> xml) \<Rightarrow> xml list \<Rightarrow> xml list" where
  "update_first_in t f [] = []"
| "update_first_in t f (c # cs) = (if tag c = t then f c # cs else c # update_first_in t f cs)"

definition update_first :: "string \<Rightarrow> (xml \<Rightarrow> xml) \<Rightarrow> xml \<Rightarrow> xml" where
  "update_first t f e = Elem (tag e) (attrib e) (update_first_in t f (children e))"

fun set_attr_in :: "string \<Rightarrow> string \<Rightarrow> (string \<times> string) list \<Rightarrow> (string \<times> string) list" where
  "set_attr_in k v [] = [(k, v)]"
| "set_attr_in k v ((k', v') # kvs) = (if k' = k then (k, v) # kvs else (k', v') # set_attr_in k v kvs)"

definition set_attr :: "string \<Rightarrow> string \<Rightarrow> xml \<Rightarrow> xml" where
  "set_attr k v e = Elem (tag e) (set_attr_in k v (attrib e)) (children e)"

text \<open>
  The opacity workaround, written out inline after eleven shapes of the script
  (first at lines 96 to 102), here on the \<^verbatim>\<open>spPr\<close> element, with the text of the
  \<^verbatim>\<open>val\<close> attribute as parameter (\<^verbatim>\<open>"15000"\<close> is 15 percent):
  \<^verbatim>\<open>
  solidFill = spPr.find(qn('a:solidFill'))
  if solidFill is not None:
      srgbClr = solidFill.find(qn('a:srgbClr'))
      if srgbClr is not None:
          alpha = parse_xml('<a:alpha ... val="15000"/>')
          srgbClr.append(alpha)
  \<close>
\<close>

definition alpha_elem :: "string \<Rightarrow> xml" where
  "alpha_elem v = Elem ''a:alpha'' [(''val'', v)] []"

definition inject_alpha :: "string \<Rightarrow> xml \<Rightarrow> xml" where
  "inject_alpha v spPr =
     (case find_child ''a:solidFill'' spPr of
        None \<Rightarrow> spPr
      | Some solidFill \<Rightarrow>
          (case find_child ''a:srgbClr'' solidFill of
             None \<Rightarrow> spPr
           | Some srgbClr \<Rightarrow>
               update_first ''a:solidFill''
                 (update_first ''a:srgbClr'' (\<lambda>c. append_child c (alpha_elem v))) spPr))"

text \<open>
  What a renderer reads back: the \<^verbatim>\<open>val\<close> texts of the \<^verbatim>\<open>a:alpha\<close> children of
  the fill's colour node, in document order. The empty list is a fully opaque fill.
\<close>

definition attr_of :: "string \<Rightarrow> xml \<Rightarrow> string option" where
  "attr_of k e = map_of (attrib e) k"

definition fill_alphas :: "xml \<Rightarrow> string list" where
  "fill_alphas spPr =
     (case find_child ''a:solidFill'' spPr of
        None \<Rightarrow> []
      | Some solidFill \<Rightarrow>
          (case find_child ''a:srgbClr'' solidFill of
             None \<Rightarrow> []
           | Some srgbClr \<Rightarrow>
               map (\<lambda>a. case attr_of ''val'' a of None \<Rightarrow> [] | Some v \<Rightarrow> v)
                 (filter (\<lambda>c. tag c = ''a:alpha'') (children srgbClr))))"

section \<open>Slides, presentations and the interpreter state\<close>

text \<open>
  An auto shape keeps its geometry, rotation and adjustments as typed fields and its
  fill and line as the children of \<^verbatim>\<open>spPr\<close> (the \<^verbatim>\<open>a:xfrm\<close> and
  \<^verbatim>\<open>a:prstGeom\<close> children are the typed fields). The bounds a shape reports
  (\<^verbatim>\<open>shape.left\<close> and so on) are the four geometry fields. A text box keeps what
  \<^verbatim>\<open>add_text_box\<close> assigns; \<^verbatim>\<open>None\<close> is a property the library leaves unset.
\<close>

record shape =
  auto_shape_type :: MSO_SHAPE
  sh_left :: emu
  sh_top :: emu
  sh_width :: emu
  sh_height :: emu
  rotation :: rat
  adjustments :: "rat list"
  spPr :: xml

record textbox =
  tb_left :: emu
  tb_top :: emu
  tb_width :: emu
  tb_height :: emu
  tb_word_wrap :: "bool option"
  tb_text :: string
  tb_font_size :: "emu option"
  tb_font_color :: "RGBColor option"
  tb_font_bold :: "bool option"
  tb_font_name :: "string option"
  tb_alignment :: "PP_ALIGN option"

datatype element = Shape shape | TextBox textbox

text \<open>A slide is its shape tree in insertion order, which is the z-order.\<close>

type_synonym slide = "element list"

record presentation =
  slide_width :: emu
  slide_height :: emu
  slides :: "slide list"

datatype error = TypeError | IndexError | OSError string

text \<open>
  The state the script runs in: the \<^verbatim>\<open>Presentation\<close> object the running function
  holds in \<^verbatim>\<open>prs\<close>, the files written so far (in order), the lines printed, the
  exception that is propagating (if any), and the paths the file system refuses to
  write. A slide handle is the slide's index in \<^verbatim>\<open>prs.slides\<close>; a shape handle is
  the slide's index and the element's index in the slide. The script obtains a handle
  only from \<^verbatim>\<open>add_slide\<close>, \<^verbatim>\<open>add_shape\<close> and \<^verbatim>\<open>add_textbox\<close>, so the handles it
  uses are in range, a shape setter meets a shape and a text setter a text box; where
  that does not hold the model leaves the state as it is.
\<close>

record world =
  prs :: presentation
  files :: "(string \<times> presentation) list"
  stdout :: "string list"
  raised :: "error option"
  unwritable :: "string list"

type_synonym slide_handle = nat
type_synonym shape_handle = "nat \<times> nat"

text \<open>
  A statement runs only while no exception propagates; after a raise every later
  statement is skipped and returns a dummy value that nothing reads.
\<close>

definition stmt :: "'a \<Rightarrow> (world \<Rightarrow> 'a \<times> world) \<Rightarrow> (world, 'a) state" where
  "stmt dummy f = State (\<lambda>w. if raised w = None then f w else (dummy, w))"

definition throw :: "error \<Rightarrow> 'a \<Rightarrow> world \<Rightarrow> 'a \<times> world" where
  "throw e dummy w = (dummy, w\<lparr>raised := Some e\<rparr>)"

fun for_each :: "'a list \<Rightarrow> ('a \<Rightarrow> (world, unit) state) \<Rightarrow> (world, unit) state" where
  "for_each [] body = State_Monad.return ()"
| "for_each (x # xs) body = do { body x; for_each xs body }"

definition py_enumerate :: "'a list \<Rightarrow> (int \<times> 'a) list" where
  "py_enumerate xs = zip (map int [0..<length xs]) xs"

definition py_range :: "nat \<Rightarrow> int list" where
  "py_range n = map int [0..<n]"

definition py_print :: "string \<Rightarrow> (world, unit) state" where
  "py_print s = stmt () (\<lambda>w. ((), w\<lparr>stdout := stdout w @ [s]\<rparr>))"

subsection \<open>The library's presentation and slide operations\<close>

text \<open>
  \<^verbatim>\<open>Presentation()\<close> opens the library's default template: no slides, a 4:3 canvas
  of 9144000 by 6858000. \<^verbatim>\<open>add_slide\<close> with the blank layout (index 6) appends a
  slide with no shapes. The two canvas setters take the lengths the script gives them,
  which lie inside the range the library accepts. \<^verbatim>\<open>save\<close> writes the whole
  presentation, or raises the operating system's error naming the path.
\<close>

definition Presentation :: "(world, unit) state" where
  "Presentation = stmt () (\<lambda>w.
     ((), w\<lparr>prs := \<lparr>slide_width = 9144000, slide_height = 6858000, slides = []\<rparr>\<rparr>))"

definition set_slide_width :: "emu \<Rightarrow> (world, unit) state" where
  "set_slide_width v = stmt () (\<lambda>w. ((), w\<lparr>prs := (prs w)\<lparr>slide_width := v\<rparr>\<rparr>))"

definition set_slide_height :: "emu \<Rightarrow> (world, unit) state" where
  "set_slide_height v = stmt () (\<lambda>w. ((), w\<lparr>prs := (prs w)\<lparr>slide_height := v\<rparr>\<rparr>))"

definition add_slide :: "(world, slide_handle) state" where
  "add_slide = stmt 0 (\<lambda>w.
     (length (slides (prs w)), w\<lparr>prs := (prs w)\<lparr>slides := slides (prs w) @ [[]]\<rparr>\<rparr>))"

definition save :: "string \<Rightarrow> (world, unit) state" where
  "save path = stmt () (\<lambda>w.
     if path \<in> set (unwritable w) then throw (OSError path) () w
     else ((), w\<lparr>files := files w @ [(path, prs w)]\<rparr>))"

definition append_element :: "slide_handle \<Rightarrow> element \<Rightarrow> (world, shape_handle) state" where
  "append_element s e = stmt (s, 0) (\<lambda>w.
     ((s, length (slides (prs w) ! s)),
      w\<lparr>prs := (prs w)\<lparr>slides := (slides (prs w))[s := slides (prs w) ! s @ [e]]\<rparr>\<rparr>))"

definition element_at :: "shape_handle \<Rightarrow> world \<Rightarrow> element" where
  "element_at h w = slides (prs w) ! fst h ! snd h"

definition put_element :: "shape_handle \<Rightarrow> element \<Rightarrow> world \<Rightarrow> world" where
  "put_element h e w =
     w\<lparr>prs := (prs w)\<lparr>slides := (slides (prs w))[fst h := (slides (prs w) ! fst h)[snd h := e]]\<rparr>\<rparr>"

text \<open>
  A setter of an auto shape, run through its handle: \<open>f\<close> gives the new shape or the
  exception the library raises.
\<close>

definition on_shape :: "shape_handle \<Rightarrow> (shape \<Rightarrow> error + shape) \<Rightarrow> (world, unit) state" where
  "on_shape h f = stmt () (\<lambda>w.
     case element_at h w of
       Shape sh \<Rightarrow> (case f sh of Inl e \<Rightarrow> throw e () w | Inr sh' \<Rightarrow> ((), put_element h (Shape sh') w))
     | TextBox tb \<Rightarrow> ((), w))"

definition on_textbox :: "shape_handle \<Rightarrow> (textbox \<Rightarrow> textbox) \<Rightarrow> (world, unit) state" where
  "on_textbox h f = stmt () (\<lambda>w.
     case element_at h w of
       TextBox tb \<Rightarrow> ((), put_element h (TextBox (f tb)) w)
     | Shape sh \<Rightarrow> ((), w))"

subsection \<open>The library's shape operations\<close>

text \<open>
  \<^verbatim>\<open>add_shape\<close> and \<^verbatim>\<open>add_textbox\<close> write the four integers into the new element
  as they are, without a range check, and append it to the slide's shape tree; a new
  shape has no fill and no line of its own. A rounded rectangle has one adjustment
  (default 0.16667), the other two kinds none.
\<close>

definition default_adjustments :: "MSO_SHAPE \<Rightarrow> rat list" where
  "default_adjustments t = (case t of ROUNDED_RECTANGLE \<Rightarrow> [16667 / 100000] | _ \<Rightarrow> [])"

definition new_shape :: "MSO_SHAPE \<Rightarrow> emu \<Rightarrow> emu \<Rightarrow> emu \<Rightarrow> emu \<Rightarrow> shape" where
  "new_shape t l tp wd ht =
     \<lparr>auto_shape_type = t, sh_left = l, sh_top = tp, sh_width = wd, sh_height = ht,
      rotation = 0, adjustments = default_adjustments t, spPr = Elem ''p:spPr'' [] []\<rparr>"

definition add_shape ::
  "slide_handle \<Rightarrow> MSO_SHAPE \<Rightarrow> emu \<Rightarrow> emu \<Rightarrow> emu \<Rightarrow> emu \<Rightarrow> (world, shape_handle) state" where
  "add_shape s t l tp wd ht = append_element s (Shape (new_shape t l tp wd ht))"

definition new_textbox :: "emu \<Rightarrow> emu \<Rightarrow> emu \<Rightarrow> emu \<Rightarrow> textbox" where
  "new_textbox l tp wd ht =
     \<lparr>tb_left = l, tb_top = tp, tb_width = wd, tb_height = ht, tb_word_wrap = None,
      tb_text = [], tb_font_size = None, tb_font_color = None, tb_font_bold = None,
      tb_font_name = None, tb_alignment = None\<rparr>"

definition add_textbox ::
  "slide_handle \<Rightarrow> emu \<Rightarrow> emu \<Rightarrow> emu \<Rightarrow> emu \<Rightarrow> (world, shape_handle) state" where
  "add_textbox s l tp wd ht = append_element s (TextBox (new_textbox l tp wd ht))"

text \<open>
  Fill and line. \<^verbatim>\<open>fill.solid()\<close> and \<^verbatim>\<open>fill.background()\<close> keep a fill child
  of the wanted kind or replace every fill child by a new empty one, placed before
  \<^verbatim>\<open>a:ln\<close>. \<^verbatim>\<open>fore_color.rgb = c\<close> needs a solid fill (the library raises
  \<^verbatim>\<open>TypeError\<close> otherwise) and sets \<^verbatim>\<open>val\<close> of its \<^verbatim>\<open>a:srgbClr\<close> child, which
  it adds when missing. The \<^verbatim>\<open>line\<close> setters work on the \<^verbatim>\<open>a:ln\<close> child, added
  when missing; \<^verbatim>\<open>line.color\<close> makes the line's fill solid first.
\<close>

definition fill_tags :: "string list" where
  "fill_tags = [''a:noFill'', ''a:solidFill'', ''a:gradFill'', ''a:blipFill'', ''a:pattFill'', ''a:grpFill'']"

definition get_or_change_to :: "string \<Rightarrow> xml \<Rightarrow> xml" where
  "get_or_change_to t e =
     (case find_child t e of
        Some c \<Rightarrow> e
      | None \<Rightarrow>
          (let cs = filter (\<lambda>c. tag c \<notin> set fill_tags) (children e)
           in Elem (tag e) (attrib e)
                (takeWhile (\<lambda>c. tag c \<noteq> ''a:ln'') cs @ [Elem t [] []] @
                 dropWhile (\<lambda>c. tag c \<noteq> ''a:ln'') cs)))"

definition get_or_add_ln :: "xml \<Rightarrow> xml" where
  "get_or_add_ln e = (case find_child ''a:ln'' e of Some c \<Rightarrow> e | None \<Rightarrow> append_child e (Elem ''a:ln'' [] []))"

definition set_srgbClr :: "RGBColor \<Rightarrow> xml \<Rightarrow> xml" where
  "set_srgbClr c solidFill =
     update_first ''a:srgbClr'' (set_attr ''val'' (str_rgb c))
       (case find_child ''a:srgbClr'' solidFill of
          Some x \<Rightarrow> solidFill
        | None \<Rightarrow> Elem (tag solidFill) (attrib solidFill) [Elem ''a:srgbClr'' [] []])"

definition fore_color_rgb :: "RGBColor \<Rightarrow> xml \<Rightarrow> error + xml" where
  "fore_color_rgb c xPr =
     (case find_child ''a:solidFill'' xPr of
        None \<Rightarrow> Inl TypeError
      | Some solidFill \<Rightarrow> Inr (update_first ''a:solidFill'' (set_srgbClr c) xPr))"

definition on_spPr :: "(xml \<Rightarrow> xml) \<Rightarrow> shape \<Rightarrow> error + shape" where
  "on_spPr f sh = Inr (sh\<lparr>spPr := f (spPr sh)\<rparr>)"

definition on_ln :: "(xml \<Rightarrow> xml) \<Rightarrow> shape \<Rightarrow> error + shape" where
  "on_ln f sh = Inr (sh\<lparr>spPr := update_first ''a:ln'' f (get_or_add_ln (spPr sh))\<rparr>)"

definition fill_solid :: "shape_handle \<Rightarrow> (world, unit) state" where
  "fill_solid h = on_shape h (on_spPr (get_or_change_to ''a:solidFill''))"

definition fill_background :: "shape_handle \<Rightarrow> (world, unit) state" where
  "fill_background h = on_shape h (on_spPr (get_or_change_to ''a:noFill''))"

definition fill_fore_color_rgb :: "shape_handle \<Rightarrow> RGBColor \<Rightarrow> (world, unit) state" where
  "fill_fore_color_rgb h c = on_shape h (\<lambda>sh.
     case fore_color_rgb c (spPr sh) of Inl e \<Rightarrow> Inl e | Inr x \<Rightarrow> Inr (sh\<lparr>spPr := x\<rparr>))"

definition line_fill_background :: "shape_handle \<Rightarrow> (world, unit) state" where
  "line_fill_background h = on_shape h (on_ln (get_or_change_to ''a:noFill''))"

definition line_color_rgb :: "shape_handle \<Rightarrow> RGBColor \<Rightarrow> (world, unit) state" where
  "line_color_rgb h c = on_shape h (on_ln (\<lambda>ln.
     update_first ''a:solidFill'' (set_srgbClr c) (get_or_change_to ''a:solidFill'' ln)))"

definition line_width :: "shape_handle \<Rightarrow> emu \<Rightarrow> (world, unit) state" where
  "line_width h v = on_shape h (on_ln (set_attr ''w'' (str v)))"

definition set_rotation :: "shape_handle \<Rightarrow> rat \<Rightarrow> (world, unit) state" where
  "set_rotation h r = on_shape h (\<lambda>sh. Inr (sh\<lparr>rotation := r\<rparr>))"

text \<open>\<^verbatim>\<open>shape.adjustments[i] = v\<close>: an index the shape does not have raises.\<close>

definition set_adjustment :: "shape_handle \<Rightarrow> nat \<Rightarrow> rat \<Rightarrow> (world, unit) state" where
  "set_adjustment h i v = on_shape h (\<lambda>sh.
     if i < length (adjustments sh) then Inr (sh\<lparr>adjustments := (adjustments sh)[i := v]\<rparr>)
     else Inl IndexError)"

text \<open>The inline opacity statements, on the shape a handle names.\<close>

definition set_alpha :: "shape_handle \<Rightarrow> string \<Rightarrow> (world, unit) state" where
  "set_alpha h v = on_shape h (on_spPr (inject_alpha v))"

subsection \<open>The script's two helper functions\<close>

text \<open>
  \<^verbatim>\<open>add_shape_with_opacity\<close> (lines 36 to 46). \<^verbatim>\<open>if line_color:\<close> tests for
  \<^verbatim>\<open>None\<close>: an \<^verbatim>\<open>RGBColor\<close> is a non-empty tuple and so true. The body never reads
  \<^verbatim>\<open>opacity\<close>.
\<close>

definition add_shape_with_opacity ::
  "slide_handle \<Rightarrow> MSO_SHAPE \<Rightarrow> emu \<Rightarrow> emu \<Rightarrow> emu \<Rightarrow> emu \<Rightarrow> RGBColor \<Rightarrow> rat \<Rightarrow> RGBColor option
     \<Rightarrow> (world, shape_handle) state" where
  "add_shape_with_opacity slide shape_type left top' width height fill_color opacity line_color = do {
     shape \<leftarrow> add_shape slide shape_type left top' width height;
     fill_solid shape;
     fill_fore_color_rgb shape fill_color;
     (case line_color of
        Some c \<Rightarrow> do { line_color_rgb shape c; line_width shape (Pt 1) }
      | None \<Rightarrow> line_fill_background shape);
     State_Monad.return shape
   }"

text \<open>
  \<^verbatim>\<open>add_text_box\<close> (lines 49 to 61), with its defaults (\<^verbatim>\<open>bold=False\<close>,
  \<^verbatim>\<open>font_name="Arial"\<close>, \<^verbatim>\<open>align=PP_ALIGN.LEFT\<close>) passed explicitly by the callers.
\<close>

definition add_text_box ::
  "slide_handle \<Rightarrow> emu \<Rightarrow> emu \<Rightarrow> emu \<Rightarrow> emu \<Rightarrow> string \<Rightarrow> emu \<Rightarrow> RGBColor \<Rightarrow> bool \<Rightarrow> string \<Rightarrow> PP_ALIGN
     \<Rightarrow> (world, shape_handle) state" where
  "add_text_box slide left top' width height text font_size font_color bold font_name align = do {
     txBox \<leftarrow> add_textbox slide left top' width height;
     on_textbox txBox (\<lambda>tb. tb\<lparr>tb_word_wrap := Some True\<rparr>);
     on_textbox txBox (\<lambda>tb. tb\<lparr>tb_text := text\<rparr>);
     on_textbox txBox (\<lambda>tb. tb\<lparr>tb_font_size := Some font_size\<rparr>);
     on_textbox txBox (\<lambda>tb. tb\<lparr>tb_font_color := Some font_color\<rparr>);
     on_textbox txBox (\<lambda>tb. tb\<lparr>tb_font_bold := Some bold\<rparr>);
     on_textbox txBox (\<lambda>tb. tb\<lparr>tb_font_name := Some font_name\<rparr>);
     on_textbox txBox (\<lambda>tb. tb\<lparr>tb_alignment := Some align\<rparr>);
     State_Monad.return txBox
   }"

section \<open>The five designs\<close>

text \<open>
  Python strings are kept as their UTF-8 bytes; the six characters of the slide texts
  outside ASCII are named here.
\<close>

definition uuml :: string where
  "uuml = [CHR 0xC3, CHR 0xBC]"

definition auml :: string where
  "auml = [CHR 0xC3, CHR 0xA4]"

definition ouml :: string where
  "ouml = [CHR 0xC3, CHR 0xB6]"

definition Ouml :: string where
  "Ouml = [CHR 0xC3, CHR 0x96]"

definition Uuml :: string where
  "Uuml = [CHR 0xC3, CHR 0x9C]"

definition euro :: string where
  "euro = [CHR 0xE2, CHR 0x82, CHR 0xAC]"

text \<open>
  Each \<^verbatim>\<open>create_presentation_N\<close> is one Python function; its five slides are
  separate definitions here, in the order of the function body, and every argument
  that \<^verbatim>\<open>add_text_box\<close> defaults is written out. A definition of a slide starts
  with the function's \<^verbatim>\<open>prs.slides.add_slide\<close> statement. Each copy of the
  inline opacity statements is one call of \<open>set_alpha\<close> with its \<^verbatim>\<open>val\<close> text. Three things
  of the script have no effect and no counterpart: the import inside
  \<^verbatim>\<open>create_presentation_1\<close> (line 95), the read \<^verbatim>\<open>spPr = border._element.spPr\<close>
  that nothing uses (line 1216), and \<^verbatim>\<open>add_gradient_background\<close> (lines 27 to 33),
  which no function calls. In slide 4 of design 4 the lists \<^verbatim>\<open>features\<close> and
  \<^verbatim>\<open>positions\<close> both have six entries, so \<^verbatim>\<open>positions[i]\<close> is always in range.
\<close>

subsection \<open>Design 1: Cinematic Dark with Orange Glow (lines 64 to 320)\<close>

text \<open>Slide 1 of design 1: lines 77 to 130.\<close>

definition create_presentation_1_slide_1 :: "(world, unit) state" where
  "create_presentation_1_slide_1 = do {
     slide \<leftarrow> add_slide;
     bg \<leftarrow> add_shape slide RECTANGLE 0 0 SLIDE_WIDTH SLIDE_HEIGHT;
     fill_solid bg;
     fill_fore_color_rgb bg (RGBColor 0x0D 0x0D 0x0D);
     line_fill_background bg;
     top_bar \<leftarrow> add_shape slide RECTANGLE 0 0 SLIDE_WIDTH (Inches 0.15);
     fill_solid top_bar;
     fill_fore_color_rgb top_bar AVEMO_ORANGE;
     line_fill_background top_bar;
     glow \<leftarrow> add_shape slide OVAL (Inches 8) (Inches 1) (Inches 6) (Inches 6);
     fill_solid glow;
     fill_fore_color_rgb glow (RGBColor 0xFF 0x79 0x32);
     set_alpha glow ''15000'';
     line_fill_background glow;
     title \<leftarrow> add_text_box slide (Inches 0.8) (Inches 2.2) (Inches 10) (Inches 1.5)
       ''Fahrersoftware'' (Pt 96) AVEMO_WHITE True ''Arial'' LEFT;
     on_textbox title (\<lambda>tb. tb\<lparr>tb_font_name := Some ''Arial Black''\<rparr>);
     subtitle \<leftarrow> add_text_box slide (Inches 0.8) (Inches 4) (Inches 8) (Inches 0.8)
       ''Die Zukunft der Fahrzeugdisposition'' (Pt 32) AVEMO_ORANGE True ''Arial'' LEFT;
     card \<leftarrow> add_shape slide ROUNDED_RECTANGLE (Inches 0.8) (Inches 5.2) (Inches 7) (Inches 1.5);
     fill_solid card;
     fill_fore_color_rgb card (RGBColor 0x1A 0x1A 0x1A);
     line_color_rgb card (RGBColor 0xFF 0x79 0x32);
     line_width card (Pt 2);
     set_alpha card ''70000'';
     card_text \<leftarrow> add_text_box slide (Inches 1) (Inches 5.5) (Inches 6.6) (Inches 1)
       (''Eine Software f'' @ uuml @ ''r alle Standorte'') (Pt 20) AVEMO_WHITE False ''Arial'' LEFT;
     State_Monad.return ()
   }"

text \<open>Slide 2 of design 1: lines 133 to 185.\<close>

definition create_presentation_1_slide_2 :: "(world, unit) state" where
  "create_presentation_1_slide_2 = do {
     slide \<leftarrow> add_slide;
     bg \<leftarrow> add_shape slide RECTANGLE 0 0 SLIDE_WIDTH SLIDE_HEIGHT;
     fill_solid bg;
     fill_fore_color_rgb bg (RGBColor 0x0D 0x0D 0x0D);
     line_fill_background bg;
     left_panel \<leftarrow> add_shape slide RECTANGLE 0 0 (Inches 5) SLIDE_HEIGHT;
     fill_solid left_panel;
     fill_fore_color_rgb left_panel (RGBColor 0x14 0x14 0x14);
     line_fill_background left_panel;
     add_text_box slide (Inches 0.5) (Inches 0.8) (Inches 4) (Inches 0.6)
       ''DAS PROBLEM'' (Pt 14) AVEMO_ORANGE True ''Arial'' LEFT;
     add_text_box slide (Inches 0.5) (Inches 1.5) (Inches 4) (Inches 1)
       ''Aktuelle Herausforderungen'' (Pt 36) AVEMO_WHITE True ''Arial'' LEFT;
     let problems =
       [(''Isolierte Standorte'', ''Keine Vernetzung zwischen den Niederlassungen''),
        (''Manuelle Prozesse'', (''Excel, Outlook & Kalender f'' @ uuml @ ''hren zu Chaos'')),
        (''Fehlende Daten'', (''Keine KPIs, keine Optimierung m'' @ ouml @ ''glich'')),
        (''Hohe Leerlaufzeit'', (''2,5 Stunden t'' @ auml @ ''glich pro Fahrzeug''))];
     for_each (py_enumerate problems) (\<lambda>(i, title, desc). do {
        let y_pos = Inches (of_int (3 + (i * 1)));
        card \<leftarrow> add_shape slide ROUNDED_RECTANGLE (Inches 0.5) y_pos (Inches 4) (Inches 0.85);
        fill_solid card;
        fill_fore_color_rgb card (RGBColor 0x22 0x22 0x22);
        line_color_rgb card (RGBColor 0xFF 0x79 0x32);
        line_width card (Pt 1);
        set_alpha card ''60000'';
        add_text_box slide (Inches 0.7) (y_pos + (Inches 0.15)) (Inches 3.6) (Inches 0.3)
          title (Pt 16) AVEMO_WHITE True ''Arial'' LEFT;
        add_text_box slide (Inches 0.7) (y_pos + (Inches 0.45)) (Inches 3.6) (Inches 0.3)
          desc (Pt 11) (RGBColor 0xAA 0xAA 0xAA) False ''Arial'' LEFT;
        State_Monad.return ()
     });
     add_text_box slide (Inches 5.5) (Inches 3) (Inches 7) (Inches 2)
       ''30 Tage'' (Pt 120) AVEMO_ORANGE True ''Arial'' CENTER;
     add_text_box slide (Inches 5.5) (Inches 5) (Inches 7) (Inches 0.5)
       ''durchschnittliche Wartezeit auf Fahrzeuge'' (Pt 20) AVEMO_WHITE False ''Arial'' CENTER;
     State_Monad.return ()
   }"

text \<open>Slide 3 of design 1: lines 188 to 233.\<close>

definition create_presentation_1_slide_3 :: "(world, unit) state" where
  "create_presentation_1_slide_3 = do {
     slide \<leftarrow> add_slide;
     bg \<leftarrow> add_shape slide RECTANGLE 0 0 SLIDE_WIDTH SLIDE_HEIGHT;
     fill_solid bg;
     fill_fore_color_rgb bg (RGBColor 0x0D 0x0D 0x0D);
     line_fill_background bg;
     diagonal \<leftarrow> add_shape slide RECTANGLE (Inches (- 2)) (Inches 5) (Inches 20) (Inches 4);
     fill_solid diagonal;
     fill_fore_color_rgb diagonal (RGBColor 0xFF 0x79 0x32);
     set_rotation diagonal (- 15);
     line_fill_background diagonal;
     set_alpha diagonal ''20000'';
     add_text_box slide (Inches 0.8) (Inches 0.8) (Inches 5) (Inches 0.6)
       (''DIE L'' @ Ouml @ ''SUNG'') (Pt 14) AVEMO_ORANGE True ''Arial'' LEFT;
     add_text_box slide (Inches 0.8) (Inches 1.5) (Inches 10) (Inches 1)
       (''Eine Software f'' @ uuml @ ''r alle Standorte'') (Pt 44) AVEMO_WHITE True ''Arial'' LEFT;
     let benefits =
       [(''Synergien nutzen'', ''Vernetzung aller Standorte''),
        (''Effizienz steigern'', ''Optimierte Fahrzeugnutzung''),
        (''Automatisierung'', ''Weniger manuelle Arbeit''),
        (''Kosteneinsparung'', (''Potenzial von 260.000 '' @ euro @ '' pro Jahr''))];
     for_each (py_enumerate benefits) (\<lambda>(i, title, desc). do {
        let x_pos = Inches (0.8 + (of_int ((i mod 2) * 6)));
        let y_pos = Inches (3 + ((of_int (i div 2)) * 1.8));
        bar \<leftarrow> add_shape slide RECTANGLE x_pos y_pos (Inches 0.08) (Inches 1.2);
        fill_solid bar;
        fill_fore_color_rgb bar AVEMO_ORANGE;
        line_fill_background bar;
        add_text_box slide (x_pos + (Inches 0.2)) (y_pos + (Inches 0.1)) (Inches 5) (Inches 0.4)
          title (Pt 22) AVEMO_WHITE True ''Arial'' LEFT;
        add_text_box slide (x_pos + (Inches 0.2)) (y_pos + (Inches 0.55)) (Inches 5) (Inches 0.5)
          desc (Pt 14) (RGBColor 0xBB 0xBB 0xBB) False ''Arial'' LEFT;
        State_Monad.return ()
     });
     State_Monad.return ()
   }"

text \<open>Slide 4 of design 1: lines 236 to 282.\<close>

definition create_presentation_1_slide_4 :: "(world, unit) state" where
  "create_presentation_1_slide_4 = do {
     slide \<leftarrow> add_slide;
     bg \<leftarrow> add_shape slide RECTANGLE 0 0 SLIDE_WIDTH SLIDE_HEIGHT;
     fill_solid bg;
     fill_fore_color_rgb bg (RGBColor 0x0D 0x0D 0x0D);
     line_fill_background bg;
     add_text_box slide (Inches 0.8) (Inches 0.6) (Inches 6) (Inches 0.5)
       ''MINIMUM VIABLE PRODUCT'' (Pt 12) AVEMO_ORANGE True ''Arial'' LEFT;
     add_text_box slide (Inches 0.8) (Inches 1.2) (Inches 10) (Inches 0.8)
       ''Die Kernfunktionen'' (Pt 40) AVEMO_WHITE True ''Arial'' LEFT;
     let features =
       [''Optimierter Planungs- algorithmus'',
        ''Intuitive Driver App'',
        ''Modernes Web- Backoffice'',
        ''Integration externer Dienstleister'',
        ''Live-Monitoring Dashboard'',
        ''Automatisiertes Reporting''];
     for_each (py_enumerate features) (\<lambda>(i, feature). do {
        let col = i mod 3;
        let row = i div 3;
        let x_pos = Inches (0.8 + (of_int (col * 4)));
        let y_pos = Inches (2.5 + ((of_int row) * 2.2));
        card \<leftarrow> add_shape slide ROUNDED_RECTANGLE x_pos y_pos (Inches 3.6) (Inches 1.8);
        fill_solid card;
        fill_fore_color_rgb card (RGBColor 0x1A 0x1A 0x1A);
        line_color_rgb card (RGBColor 0xFF 0x79 0x32);
        line_width card (Pt 1.5);
        set_alpha card ''50000'';
        num \<leftarrow> add_text_box slide (x_pos + (Inches 0.2)) (y_pos + (Inches 0.15)) (Inches 0.5) (Inches 0.5)
          (''0'' @ str (i + 1)) (Pt 28) AVEMO_ORANGE True ''Arial'' LEFT;
        add_text_box slide (x_pos + (Inches 0.2)) (y_pos + (Inches 0.7)) (Inches 3.2) (Inches 0.9)
          feature (Pt 18) AVEMO_WHITE True ''Arial'' LEFT;
        State_Monad.return ()
     });
     State_Monad.return ()
   }"

text \<open>Slide 5 of design 1: lines 285 to 317.\<close>

definition create_presentation_1_slide_5 :: "(world, unit) state" where
  "create_presentation_1_slide_5 = do {
     slide \<leftarrow> add_slide;
     bg \<leftarrow> add_shape slide RECTANGLE 0 0 SLIDE_WIDTH SLIDE_HEIGHT;
     fill_solid bg;
     fill_fore_color_rgb bg (RGBColor 0x0D 0x0D 0x0D);
     line_fill_background bg;
     circle \<leftarrow> add_shape slide OVAL (Inches 7) (Inches (- 2)) (Inches 10) (Inches 12);
     fill_solid circle;
     fill_fore_color_rgb circle (RGBColor 0xFF 0x79 0x32);
     line_fill_background circle;
     set_alpha circle ''20000'';
     add_text_box slide (Inches 0.8) (Inches 2.5) (Inches 10) (Inches 1.2)
       (''Bereit f'' @ uuml @ ''r die'') (Pt 48) AVEMO_WHITE True ''Arial'' LEFT;
     add_text_box slide (Inches 0.8) (Inches 3.5) (Inches 10) (Inches 1.5)
       ''Zukunft?'' (Pt 96) AVEMO_ORANGE True ''Arial'' LEFT;
     add_text_box slide (Inches 0.8) (Inches 5.5) (Inches 6) (Inches 1)
       ''Gemeinsam gestalten wir die digitale Transformation Ihrer Fahrzeugdisposition.'' (Pt 18) (RGBColor 0xCC 0xCC 0xCC) False ''Arial'' LEFT;
     line \<leftarrow> add_shape slide RECTANGLE (Inches 0.8) (Inches 6.8) (Inches 2) (Inches 0.06);
     fill_solid line;
     fill_fore_color_rgb line AVEMO_ORANGE;
     line_fill_background line;
     State_Monad.return ()
   }"

definition create_presentation_1 :: "(world, unit) state" where
  "create_presentation_1 = do {
     Presentation;
     set_slide_width SLIDE_WIDTH;
     set_slide_height SLIDE_HEIGHT;
     create_presentation_1_slide_1;
     create_presentation_1_slide_2;
     create_presentation_1_slide_3;
     create_presentation_1_slide_4;
     create_presentation_1_slide_5;
     save ''/root/fahrerplanung/presentations/design-1-cinematic-dark.pptx'';
     py_print ''Created: design-1-cinematic-dark.pptx''
   }"

subsection \<open>Design 2: Clean Minimal with Liquid Glass (lines 323 to 569)\<close>

text \<open>Slide 1 of design 2: lines 336 to 381.\<close>

definition create_presentation_2_slide_1 :: "(world, unit) state" where
  "create_presentation_2_slide_1 = do {
     slide \<leftarrow> add_slide;
     bg \<leftarrow> add_shape slide RECTANGLE 0 0 SLIDE_WIDTH SLIDE_HEIGHT;
     fill_solid bg;
     fill_fore_color_rgb bg AVEMO_WHITE;
     line_fill_background bg;
     shape \<leftarrow> add_shape slide RECTANGLE (Inches (- 1)) (Inches (- 1)) (Inches 8) (Inches 10);
     fill_solid shape;
     fill_fore_color_rgb shape AVEMO_GRAY_LIGHT;
     line_fill_background shape;
     card \<leftarrow> add_shape slide ROUNDED_RECTANGLE (Inches 1) (Inches 2) (Inches 8) (Inches 3.5);
     fill_solid card;
     fill_fore_color_rgb card AVEMO_WHITE;
     line_color_rgb card (RGBColor 0xE0 0xE0 0xE0);
     line_width card (Pt 1);
     set_alpha card ''85000'';
     dot \<leftarrow> add_shape slide OVAL (Inches 1.5) (Inches 2.5) (Inches 0.3) (Inches 0.3);
     fill_solid dot;
     fill_fore_color_rgb dot AVEMO_ORANGE;
     line_fill_background dot;
     add_text_box slide (Inches 2) (Inches 2.4) (Inches 6) (Inches 0.5)
       ''Fahrersoftware'' (Pt 14) AVEMO_GRAY_MID True ''Arial'' LEFT;
     add_text_box slide (Inches 1.5) (Inches 3.2) (Inches 7) (Inches 1.2)
       ''Die Zukunft der Fahrzeugdisposition'' (Pt 48) AVEMO_BLACK True ''Arial'' LEFT;
     add_text_box slide (Inches 1.5) (Inches 4.5) (Inches 6) (Inches 0.6)
       (''Eine Software f'' @ uuml @ ''r alle Standorte'') (Pt 20) AVEMO_GRAY_MID False ''Arial'' LEFT;
     line \<leftarrow> add_shape slide RECTANGLE (Inches 1.5) (Inches 5.3) (Inches 1.5) (Inches 0.05);
     fill_solid line;
     fill_fore_color_rgb line AVEMO_ORANGE;
     line_fill_background line;
     State_Monad.return ()
   }"

text \<open>Slide 2 of design 2: lines 384 to 437.\<close>

definition create_presentation_2_slide_2 :: "(world, unit) state" where
  "create_presentation_2_slide_2 = do {
     slide \<leftarrow> add_slide;
     bg \<leftarrow> add_shape slide RECTANGLE 0 0 SLIDE_WIDTH SLIDE_HEIGHT;
     fill_solid bg;
     fill_fore_color_rgb bg AVEMO_WHITE;
     line_fill_background bg;
     add_text_box slide (Inches 0.8) (Inches 0.6) (Inches 4) (Inches 0.4)
       ''Aktuelle Situation'' (Pt 32) AVEMO_BLACK True ''Arial'' LEFT;
     underline \<leftarrow> add_shape slide RECTANGLE (Inches 0.8) (Inches 1.1) (Inches 1.2) (Inches 0.06);
     fill_solid underline;
     fill_fore_color_rgb underline AVEMO_ORANGE;
     line_fill_background underline;
     let problems =
       [(''Isolierte Standorte'', (''Keine Vernetzung zwischen den Niederlassungen f'' @ uuml @ ''hrt zu Ineffizienz'')),
        (''Manuelle Prozesse'', (''Abh'' @ auml @ ''ngig von Excel, Outlook und Kalendern'')),
        (''Fehlende Transparenz'', (''Keine KPIs f'' @ uuml @ ''r datengesteuerte Entscheidungen'')),
        (''Hohe Leerlaufzeiten'', (''Durchschnittlich 2,5 Stunden pro Fahrzeug t'' @ auml @ ''glich'')),
        (''Lange Wartezeiten'', ''30 Tage durchschnittlich auf Fahrzeuge warten'')];
     for_each (py_enumerate problems) (\<lambda>(i, title, desc). do {
        let y_pos = Inches (1.6 + ((of_int i) * 1.1));
        num_bg \<leftarrow> add_shape slide OVAL (Inches 0.8) y_pos (Inches 0.5) (Inches 0.5);
        fill_solid num_bg;
        fill_fore_color_rgb num_bg (if i = 0 then AVEMO_ORANGE else AVEMO_GRAY_LIGHT);
        line_fill_background num_bg;
        add_text_box slide (Inches 0.95) (y_pos + (Inches 0.08)) (Inches 0.3) (Inches 0.3)
          (str (i + 1)) (Pt 14) (if i = 0 then AVEMO_WHITE else AVEMO_GRAY_MID) True ''Arial'' CENTER;
        card \<leftarrow> add_shape slide ROUNDED_RECTANGLE (Inches 1.5) (y_pos - (Inches 0.1)) (Inches 11) (Inches 0.9);
        fill_solid card;
        fill_fore_color_rgb card AVEMO_WHITE;
        line_color_rgb card (RGBColor 0xE8 0xE8 0xE8);
        line_width card (Pt 1);
        set_alpha card ''90000'';
        add_text_box slide (Inches 1.7) (y_pos + (Inches 0.05)) (Inches 3) (Inches 0.4)
          title (Pt 18) AVEMO_BLACK True ''Arial'' LEFT;
        add_text_box slide (Inches 1.7) (y_pos + (Inches 0.4)) (Inches 10) (Inches 0.4)
          desc (Pt 13) AVEMO_GRAY_MID False ''Arial'' LEFT;
        State_Monad.return ()
     });
     State_Monad.return ()
   }"

text \<open>Slide 3 of design 2: lines 440 to 482.\<close>

definition create_presentation_2_slide_3 :: "(world, unit) state" where
  "create_presentation_2_slide_3 = do {
     slide \<leftarrow> add_slide;
     bg \<leftarrow> add_shape slide RECTANGLE 0 0 SLIDE_WIDTH SLIDE_HEIGHT;
     fill_solid bg;
     fill_fore_color_rgb bg AVEMO_WHITE;
     line_fill_background bg;
     orange_shape \<leftarrow> add_shape slide RECTANGLE (Inches 8) (Inches 0) (Inches 6) SLIDE_HEIGHT;
     fill_solid orange_shape;
     fill_fore_color_rgb orange_shape AVEMO_ORANGE;
     line_fill_background orange_shape;
     add_text_box slide (Inches 0.8) (Inches 0.8) (Inches 6) (Inches 0.5)
       (''Unsere L'' @ ouml @ ''sung'') (Pt 14) AVEMO_ORANGE True ''Arial'' LEFT;
     add_text_box slide (Inches 0.8) (Inches 1.5) (Inches 6) (Inches 1)
       (''Eine Software f'' @ uuml @ ''r alle Standorte'') (Pt 36) AVEMO_BLACK True ''Arial'' LEFT;
     let solutions =
       [(''Synergien'', ''Alle Standorte vernetzt''),
        (''Effizienz'', ''Optimierte Prozesse''),
        (''Automatisierung'', ''Weniger manuelle Arbeit''),
        (''Einsparung'', (''260.000 '' @ euro @ '' j'' @ auml @ ''hrlich''))];
     for_each (py_enumerate solutions) (\<lambda>(i, title, desc). do {
        let y_pos = Inches (3 + ((of_int i) * 1.1));
        icon \<leftarrow> add_shape slide OVAL (Inches 0.8) y_pos (Inches 0.6) (Inches 0.6);
        fill_solid icon;
        fill_fore_color_rgb icon AVEMO_ORANGE;
        line_fill_background icon;
        add_text_box slide (Inches 1.6) (y_pos + (Inches 0.1)) (Inches 2.5) (Inches 0.4)
          title (Pt 22) AVEMO_BLACK True ''Arial'' LEFT;
        add_text_box slide (Inches 1.6) (y_pos + (Inches 0.5)) (Inches 5) (Inches 0.4)
          desc (Pt 14) AVEMO_GRAY_MID False ''Arial'' LEFT;
        State_Monad.return ()
     });
     add_text_box slide (Inches 8.5) (Inches 3) (Inches 4) (Inches 3)
       ''Transformieren Sie Ihre Fahrzeugdisposition mit moderner Technologie'' (Pt 24) AVEMO_WHITE True ''Arial'' LEFT;
     State_Monad.return ()
   }"

text \<open>Slide 4 of design 2: lines 485 to 530.\<close>

definition create_presentation_2_slide_4 :: "(world, unit) state" where
  "create_presentation_2_slide_4 = do {
     slide \<leftarrow> add_slide;
     bg \<leftarrow> add_shape slide RECTANGLE 0 0 SLIDE_WIDTH SLIDE_HEIGHT;
     fill_solid bg;
     fill_fore_color_rgb bg AVEMO_WHITE;
     line_fill_background bg;
     add_text_box slide (Inches 0.8) (Inches 0.6) (Inches 6) (Inches 0.4)
       ''Minimum Viable Product'' (Pt 14) AVEMO_ORANGE True ''Arial'' LEFT;
     add_text_box slide (Inches 0.8) (Inches 1.2) (Inches 10) (Inches 0.8)
       ''Die Kernfunktionen'' (Pt 40) AVEMO_BLACK True ''Arial'' LEFT;
     let features =
       [''Planungsalgorithmus'',
        ''Driver App'',
        ''Web-Backoffice'',
        ''Externe Dienstleister'',
        ''Monitoring'',
        ''Reporting''];
     for_each (py_enumerate features) (\<lambda>(i, feature). do {
        let row = i div 3;
        let col = i mod 3;
        let x = Inches (0.8 + ((of_int col) * 4.1));
        let y = Inches (2.5 + ((of_int row) * 2.2));
        card \<leftarrow> add_shape slide ROUNDED_RECTANGLE x y (Inches 3.8) (Inches 1.9);
        fill_solid card;
        fill_fore_color_rgb card AVEMO_WHITE;
        line_color_rgb card (RGBColor 0xDD 0xDD 0xDD);
        line_width card (Pt 1);
        bar \<leftarrow> add_shape slide RECTANGLE x y (Inches 3.8) (Inches 0.08);
        fill_solid bar;
        fill_fore_color_rgb bar AVEMO_ORANGE;
        line_fill_background bar;
        add_text_box slide (x + (Inches 0.3)) (y + (Inches 0.5)) (Inches 3.2) (Inches 1)
          feature (Pt 20) AVEMO_BLACK True ''Arial'' LEFT;
        add_text_box slide (x + (Inches 0.3)) (y + (Inches 0.25)) (Inches 0.5) (Inches 0.3)
          (''0'' @ str (i + 1)) (Pt 12) AVEMO_ORANGE True ''Arial'' LEFT;
        State_Monad.return ()
     });
     State_Monad.return ()
   }"

text \<open>Slide 5 of design 2: lines 533 to 566.\<close>

definition create_presentation_2_slide_5 :: "(world, unit) state" where
  "create_presentation_2_slide_5 = do {
     slide \<leftarrow> add_slide;
     bg \<leftarrow> add_shape slide RECTANGLE 0 0 SLIDE_WIDTH SLIDE_HEIGHT;
     fill_solid bg;
     fill_fore_color_rgb bg AVEMO_WHITE;
     line_fill_background bg;
     for_each ([(2, 1), (10, 5), (11, 0.5), (1, 6)]) (\<lambda>pos. do {
        circle \<leftarrow> add_shape slide OVAL (Inches (of_int (fst pos))) (Inches (snd pos)) (Inches 0.3) (Inches 0.3);
        fill_solid circle;
        fill_fore_color_rgb circle AVEMO_ORANGE;
        line_fill_background circle;
        set_alpha circle ''30000'';
        State_Monad.return ()
     });
     add_text_box slide (Inches 0.8) (Inches 2.8) (Inches 10) (Inches 1)
       (''Bereit f'' @ uuml @ ''r die'') (Pt 36) AVEMO_GRAY_MID False ''Arial'' LEFT;
     add_text_box slide (Inches 0.8) (Inches 3.5) (Inches 10) (Inches 1.2)
       ''Zukunft?'' (Pt 72) AVEMO_BLACK True ''Arial'' LEFT;
     underline \<leftarrow> add_shape slide RECTANGLE (Inches 0.8) (Inches 4.7) (Inches 3) (Inches 0.08);
     fill_solid underline;
     fill_fore_color_rgb underline AVEMO_ORANGE;
     line_fill_background underline;
     add_text_box slide (Inches 0.8) (Inches 5.2) (Inches 8) (Inches 0.8)
       ''Gemeinsam gestalten wir die digitale Transformation.'' (Pt 18) AVEMO_GRAY_MID False ''Arial'' LEFT;
     State_Monad.return ()
   }"

definition create_presentation_2 :: "(world, unit) state" where
  "create_presentation_2 = do {
     Presentation;
     set_slide_width SLIDE_WIDTH;
     set_slide_height SLIDE_HEIGHT;
     create_presentation_2_slide_1;
     create_presentation_2_slide_2;
     create_presentation_2_slide_3;
     create_presentation_2_slide_4;
     create_presentation_2_slide_5;
     save ''/root/fahrerplanung/presentations/design-2-minimal-glass.pptx'';
     py_print ''Created: design-2-minimal-glass.pptx''
   }"

subsection \<open>Design 3: Bold Typographic with Orange Blocks (lines 572 to 748)\<close>

text \<open>Slide 1 of design 3: lines 585 to 606.\<close>

definition create_presentation_3_slide_1 :: "(world, unit) state" where
  "create_presentation_3_slide_1 = do {
     slide \<leftarrow> add_slide;
     bg \<leftarrow> add_shape slide RECTANGLE 0 0 SLIDE_WIDTH SLIDE_HEIGHT;
     fill_solid bg;
     fill_fore_color_rgb bg AVEMO_BLACK;
     line_fill_background bg;
     add_text_box slide (Inches (- 0.2)) (Inches 1.5) (Inches 14) (Inches 2)
       ''FAHRER'' (Pt 140) AVEMO_WHITE True ''Arial'' LEFT;
     orange_block \<leftarrow> add_shape slide RECTANGLE (Inches 5.5) (Inches 3.3) (Inches 8) (Inches 1.8);
     fill_solid orange_block;
     fill_fore_color_rgb orange_block AVEMO_ORANGE;
     line_fill_background orange_block;
     add_text_box slide (Inches 5.7) (Inches 3.4) (Inches 7) (Inches 1.6)
       ''SOFTWARE'' (Pt 100) AVEMO_BLACK True ''Arial'' LEFT;
     add_text_box slide (Inches 0.8) (Inches 5.8) (Inches 8) (Inches 0.6)
       ''Die Zukunft der Fahrzeugdisposition'' (Pt 24) AVEMO_WHITE False ''Arial'' LEFT;
     State_Monad.return ()
   }"

text \<open>Slide 2 of design 3: lines 609 to 651.\<close>

definition create_presentation_3_slide_2 :: "(world, unit) state" where
  "create_presentation_3_slide_2 = do {
     slide \<leftarrow> add_slide;
     left \<leftarrow> add_shape slide RECTANGLE 0 0 (Inches 4) SLIDE_HEIGHT;
     fill_solid left;
     fill_fore_color_rgb left AVEMO_ORANGE;
     line_fill_background left;
     right \<leftarrow> add_shape slide RECTANGLE (Inches 4) 0 (Inches 9.333) SLIDE_HEIGHT;
     fill_solid right;
     fill_fore_color_rgb right AVEMO_WHITE;
     line_fill_background right;
     add_text_box slide (Inches 0.5) (Inches 2.5) (Inches 3) (Inches 2)
       ''01'' (Pt 120) AVEMO_BLACK True ''Arial'' LEFT;
     add_text_box slide (Inches 0.8) (Inches 5) (Inches 3) (Inches 1)
       ''PROBLEM'' (Pt 18) AVEMO_BLACK True ''Arial'' LEFT;
     add_text_box slide (Inches 4.5) (Inches 0.8) (Inches 8) (Inches 0.6)
       ''Aktuelle Herausforderungen'' (Pt 32) AVEMO_BLACK True ''Arial'' LEFT;
     let problems =
       [''Isolierte Standorte'',
        ''Manuelle Prozesse'',
        ''Fehlende KPIs'',
        ''2,5h Leerlauf'',
        ''30 Tage Wartezeit''];
     for_each (py_enumerate problems) (\<lambda>(i, problem). do {
        let y = Inches (1.8 + (of_int (i * 1)));
        line \<leftarrow> add_shape slide RECTANGLE (Inches 4.5) (y + (Inches 0.15)) (Inches 0.4) (Inches 0.04);
        fill_solid line;
        fill_fore_color_rgb line AVEMO_BLACK;
        line_fill_background line;
        add_text_box slide (Inches 5.1) y (Inches 7) (Inches 0.5)
          problem (Pt 22) AVEMO_BLACK True ''Arial'' LEFT;
        State_Monad.return ()
     });
     State_Monad.return ()
   }"

text \<open>Slide 3 of design 3: lines 654 to 684.\<close>

definition create_presentation_3_slide_3 :: "(world, unit) state" where
  "create_presentation_3_slide_3 = do {
     slide \<leftarrow> add_slide;
     bg \<leftarrow> add_shape slide RECTANGLE 0 0 SLIDE_WIDTH SLIDE_HEIGHT;
     fill_solid bg;
     fill_fore_color_rgb bg AVEMO_BLACK;
     line_fill_background bg;
     white_block \<leftarrow> add_shape slide RECTANGLE (Inches 2) (Inches 1.5) (Inches 9) (Inches 4.5);
     fill_solid white_block;
     fill_fore_color_rgb white_block AVEMO_WHITE;
     line_fill_background white_block;
     add_text_box slide (Inches 2.5) (Inches 1.8) (Inches 8) (Inches 0.5)
       (''DIE L'' @ Ouml @ ''SUNG'') (Pt 14) AVEMO_ORANGE True ''Arial'' LEFT;
     add_text_box slide (Inches 2.5) (Inches 2.4) (Inches 8) (Inches 1)
       (''Eine Software f'' @ uuml @ ''r alle Standorte'') (Pt 36) AVEMO_BLACK True ''Arial'' LEFT;
     let solutions =
       [(''Synergien'', ''Vernetzung aller Standorte''),
        (''Effizienz'', ''Optimierte Fahrzeugnutzung''),
        (''Automatisierung'', ''Reduzierung manueller Arbeit''),
        (''Kosten'', (''260.000 '' @ euro @ '' Einsparung''))];
     for_each (py_enumerate solutions) (\<lambda>(i, title, desc). do {
        let y = Inches (3.6 + ((of_int i) * 0.6));
        add_text_box slide (Inches 2.5) y (Inches 3) (Inches 0.4)
          title (Pt 16) AVEMO_ORANGE True ''Arial'' LEFT;
        add_text_box slide (Inches 5) y (Inches 5) (Inches 0.4)
          desc (Pt 14) AVEMO_GRAY_MID False ''Arial'' LEFT;
        State_Monad.return ()
     });
     State_Monad.return ()
   }"

text \<open>Slide 4 of design 3: lines 687 to 722.\<close>

definition create_presentation_3_slide_4 :: "(world, unit) state" where
  "create_presentation_3_slide_4 = do {
     slide \<leftarrow> add_slide;
     bg \<leftarrow> add_shape slide RECTANGLE 0 0 SLIDE_WIDTH SLIDE_HEIGHT;
     fill_solid bg;
     fill_fore_color_rgb bg AVEMO_WHITE;
     line_fill_background bg;
     add_text_box slide (Inches (- 1)) (Inches 5.5) (Inches 20) (Inches 2)
       ''MVP'' (Pt 200) (RGBColor 0xF0 0xF0 0xF0) True ''Arial'' LEFT;
     add_text_box slide (Inches 0.8) (Inches 0.6) (Inches 6) (Inches 0.5)
       ''MINIMUM VIABLE PRODUCT'' (Pt 14) AVEMO_ORANGE True ''Arial'' LEFT;
     let features =
       [(''Planungs- algorithmus'', ''Optimierte Tourenplanung''),
        (''Driver App'', ''Intuitive Bedienung''),
        (''Web- Backoffice'', (''Moderne Oberfl'' @ auml @ ''che'')),
        (''Monitoring'', (''Echtzeit-'' @ Uuml @ ''bersicht'')),
        (''Reporting'', ''Automatisierte Reports''),
        (''Integration'', ''Externe Dienstleister'')];
     for_each (py_enumerate features) (\<lambda>(i, title, desc). do {
        let col = i mod 3;
        let row = i div 3;
        let x = Inches (0.8 + ((of_int col) * 4.1));
        let y = Inches (1.5 + ((of_int row) * 2.8));
        add_text_box slide x y (Inches 1) (Inches 0.8)
          (''0'' @ str (i + 1)) (Pt 48) AVEMO_ORANGE True ''Arial'' LEFT;
        add_text_box slide x (y + (Inches 0.8)) (Inches 3.8) (Inches 0.6)
          title (Pt 20) AVEMO_BLACK True ''Arial'' LEFT;
        add_text_box slide x (y + (Inches 1.3)) (Inches 3.8) (Inches 0.5)
          desc (Pt 13) AVEMO_GRAY_MID False ''Arial'' LEFT;
        State_Monad.return ()
     });
     State_Monad.return ()
   }"

text \<open>Slide 5 of design 3: lines 725 to 745.\<close>

definition create_presentation_3_slide_5 :: "(world, unit) state" where
  "create_presentation_3_slide_5 = do {
     slide \<leftarrow> add_slide;
     bg \<leftarrow> add_shape slide RECTANGLE 0 0 SLIDE_WIDTH SLIDE_HEIGHT;
     fill_solid bg;
     fill_fore_color_rgb bg AVEMO_BLACK;
     line_fill_background bg;
     diag \<leftarrow> add_shape slide RECTANGLE (Inches 6) (Inches (- 2)) (Inches 4) (Inches 12);
     fill_solid diag;
     fill_fore_color_rgb diag AVEMO_ORANGE;
     set_rotation diag (- 25);
     line_fill_background diag;
     add_text_box slide (Inches 0.8) (Inches 2.5) (Inches 8) (Inches 1)
       (''Bereit f'' @ uuml @ ''r'') (Pt 36) AVEMO_WHITE False ''Arial'' LEFT;
     add_text_box slide (Inches 0.8) (Inches 3.3) (Inches 8) (Inches 1.2)
       ''die Zukunft?'' (Pt 60) AVEMO_ORANGE True ''Arial'' LEFT;
     add_text_box slide (Inches 0.8) (Inches 4.8) (Inches 7) (Inches 1)
       ''Gemeinsam transformieren wir Ihre Fahrzeugdisposition.'' (Pt 16) AVEMO_GRAY_MID False ''Arial'' LEFT;
     State_Monad.return ()
   }"

definition create_presentation_3 :: "(world, unit) state" where
  "create_presentation_3 = do {
     Presentation;
     set_slide_width SLIDE_WIDTH;
     set_slide_height SLIDE_HEIGHT;
     create_presentation_3_slide_1;
     create_presentation_3_slide_2;
     create_presentation_3_slide_3;
     create_presentation_3_slide_4;
     create_presentation_3_slide_5;
     save ''/root/fahrerplanung/presentations/design-3-bold-editorial.pptx'';
     py_print ''Created: design-3-bold-editorial.pptx''
   }"

subsection \<open>Design 4: Modern Asymmetric Editorial (lines 751 to 943)\<close>

text \<open>Slide 1 of design 4: lines 764 to 795.\<close>

definition create_presentation_4_slide_1 :: "(world, unit) state" where
  "create_presentation_4_slide_1 = do {
     slide \<leftarrow> add_slide;
     bg \<leftarrow> add_shape slide RECTANGLE 0 0 SLIDE_WIDTH SLIDE_HEIGHT;
     fill_solid bg;
     fill_fore_color_rgb bg (RGBColor 0xF8 0xF9 0xFA);
     line_fill_background bg;
     shape \<leftarrow> add_shape slide ROUNDED_RECTANGLE (Inches 7) (Inches (- 1)) (Inches 7) (Inches 10);
     fill_solid shape;
     fill_fore_color_rgb shape AVEMO_ORANGE;
     line_fill_background shape;
     set_adjustment shape 0 0.1;
     add_text_box slide (Inches 1) (Inches 2.5) (Inches 5) (Inches 1)
       ''Fahrersoftware'' (Pt 52) AVEMO_BLACK True ''Arial'' LEFT;
     add_text_box slide (Inches 1) (Inches 3.6) (Inches 5) (Inches 0.8)
       ''Die Zukunft der Fahrzeugdisposition'' (Pt 20) AVEMO_GRAY_MID False ''Arial'' LEFT;
     line \<leftarrow> add_shape slide RECTANGLE (Inches 1) (Inches 4.6) (Inches 2) (Inches 0.04);
     fill_solid line;
     fill_fore_color_rgb line AVEMO_ORANGE;
     line_fill_background line;
     add_text_box slide (Inches 7.5) (Inches 3) (Inches 5) (Inches 2)
       (''Eine Software f'' @ uuml @ ''r alle Standorte'') (Pt 28) AVEMO_WHITE True ''Arial'' LEFT;
     State_Monad.return ()
   }"

text \<open>Slide 2 of design 4: lines 798 to 833.\<close>

definition create_presentation_4_slide_2 :: "(world, unit) state" where
  "create_presentation_4_slide_2 = do {
     slide \<leftarrow> add_slide;
     bg \<leftarrow> add_shape slide RECTANGLE 0 0 SLIDE_WIDTH SLIDE_HEIGHT;
     fill_solid bg;
     fill_fore_color_rgb bg AVEMO_WHITE;
     line_fill_background bg;
     header_bg \<leftarrow> add_shape slide RECTANGLE 0 0 SLIDE_WIDTH (Inches 1.5);
     fill_solid header_bg;
     fill_fore_color_rgb header_bg AVEMO_ORANGE;
     line_fill_background header_bg;
     add_text_box slide (Inches 0.8) (Inches 0.5) (Inches 10) (Inches 0.6)
       ''Aktuelle Herausforderungen'' (Pt 32) AVEMO_WHITE True ''Arial'' LEFT;
     let problems =
       [(''Isolierte Standorte'', ''Keine Vernetzung zwischen den Niederlassungen'', 0.8, 1.8),
        (''Manuelle Prozesse'', (''Abh'' @ auml @ ''ngigkeit von Excel und Outlook''), 4.5, 1.8),
        (''Fehlende Daten'', (''Keine KPIs f'' @ uuml @ ''r Entscheidungen''), 8.2, 1.8),
        (''Hohe Leerlaufzeit'', (''2,5 Stunden pro Fahrzeug t'' @ auml @ ''glich''), 2.6, 4.2),
        (''Lange Wartezeiten'', ''30 Tage durchschnittlich'', 6.3, 4.2)];
     for_each problems (\<lambda>(title, desc, x, y). do {
        card \<leftarrow> add_shape slide ROUNDED_RECTANGLE (Inches x) (Inches y) (Inches 3.5) (Inches 2);
        fill_solid card;
        fill_fore_color_rgb card (RGBColor 0xF8 0xF9 0xFA);
        line_fill_background card;
        set_adjustment card 0 0.15;
        add_text_box slide (Inches (x + 0.2)) (Inches (y + 0.3)) (Inches 3.1) (Inches 0.6)
          title (Pt 18) AVEMO_BLACK True ''Arial'' LEFT;
        add_text_box slide (Inches (x + 0.2)) (Inches (y + 1)) (Inches 3.1) (Inches 0.8)
          desc (Pt 13) AVEMO_GRAY_MID False ''Arial'' LEFT;
        State_Monad.return ()
     });
     State_Monad.return ()
   }"

text \<open>Slide 3 of design 4: lines 836 to 874.\<close>

definition create_presentation_4_slide_3 :: "(world, unit) state" where
  "create_presentation_4_slide_3 = do {
     slide \<leftarrow> add_slide;
     bg \<leftarrow> add_shape slide RECTANGLE 0 0 SLIDE_WIDTH SLIDE_HEIGHT;
     fill_solid bg;
     fill_fore_color_rgb bg (RGBColor 0xF8 0xF9 0xFA);
     line_fill_background bg;
     main_card \<leftarrow> add_shape slide ROUNDED_RECTANGLE (Inches 0.8) (Inches 0.8) (Inches 11.7) (Inches 6);
     fill_solid main_card;
     fill_fore_color_rgb main_card AVEMO_WHITE;
     line_fill_background main_card;
     set_adjustment main_card 0 0.05;
     add_text_box slide (Inches 1.3) (Inches 1.3) (Inches 6) (Inches 0.5)
       (''Die L'' @ ouml @ ''sung'') (Pt 14) AVEMO_ORANGE True ''Arial'' LEFT;
     add_text_box slide (Inches 1.3) (Inches 1.9) (Inches 10) (Inches 0.8)
       (''Eine Software f'' @ uuml @ ''r alle Standorte'') (Pt 36) AVEMO_BLACK True ''Arial'' LEFT;
     let solutions =
       [(''Synergien nutzen'', (''Vernetzung aller Standorte f'' @ uuml @ ''r maximale Effizienz'')),
        (''Effizienz steigern'', ''Optimale Nutzung jedes Fahrzeugs''),
        (''Automatisierung'', ''Reduzierung manueller Prozesse''),
        (''Kosteneinsparung'', (''Potenzial von 260.000 '' @ euro @ '' j'' @ auml @ ''hrlich''))];
     for_each (py_enumerate solutions) (\<lambda>(i, title, desc). do {
        let y = Inches (3 + ((of_int i) * 0.9));
        circle \<leftarrow> add_shape slide OVAL (Inches 1.3) y (Inches 0.4) (Inches 0.4);
        fill_solid circle;
        fill_fore_color_rgb circle AVEMO_ORANGE;
        line_fill_background circle;
        add_text_box slide (Inches 2) y (Inches 3) (Inches 0.4)
          title (Pt 18) AVEMO_BLACK True ''Arial'' LEFT;
        add_text_box slide (Inches 5) y (Inches 6) (Inches 0.4)
          desc (Pt 14) AVEMO_GRAY_MID False ''Arial'' LEFT;
        State_Monad.return ()
     });
     State_Monad.return ()
   }"

text \<open>Slide 4 of design 4: lines 877 to 917.\<close>

definition create_presentation_4_slide_4 :: "(world, unit) state" where
  "create_presentation_4_slide_4 = do {
     slide \<leftarrow> add_slide;
     bg \<leftarrow> add_shape slide RECTANGLE 0 0 SLIDE_WIDTH SLIDE_HEIGHT;
     fill_solid bg;
     fill_fore_color_rgb bg AVEMO_WHITE;
     line_fill_background bg;
     add_text_box slide (Inches 0.8) (Inches 0.6) (Inches 8) (Inches 0.5)
       ''Minimum Viable Product'' (Pt 14) AVEMO_ORANGE True ''Arial'' LEFT;
     add_text_box slide (Inches 0.8) (Inches 1.2) (Inches 8) (Inches 0.7)
       ''Die Kernfunktionen'' (Pt 36) AVEMO_BLACK True ''Arial'' LEFT;
     let features =
       [''Planungsalgorithmus'',
        ''Driver App'',
        ''Web-Backoffice'',
        ''Externe Dienstleister'',
        ''Monitoring'',
        ''Reporting''];
     let positions =
       [(0.8, 2.2),
        (4.5, 2.2),
        (0.8, 4),
        (4.5, 4),
        (8.2, 4),
        (4.5, 5.8)];
     for_each (py_enumerate features) (\<lambda>(i, feature). do {
        let (x, y) = positions ! nat i;
        pill \<leftarrow> add_shape slide ROUNDED_RECTANGLE (Inches x) (Inches y) (Inches 3.3) (Inches 1.4);
        fill_solid pill;
        fill_fore_color_rgb pill (if (i mod 2) = 0 then RGBColor 0xF8 0xF9 0xFA else AVEMO_ORANGE);
        line_fill_background pill;
        set_adjustment pill 0 0.5;
        let text_color = (if (i mod 2) = 0 then AVEMO_BLACK else AVEMO_WHITE);
        add_text_box slide (Inches (x + 0.3)) (Inches (y + 0.45)) (Inches 2.7) (Inches 0.6)
          feature (Pt 18) text_color True ''Arial'' LEFT;
        State_Monad.return ()
     });
     State_Monad.return ()
   }"

text \<open>Slide 5 of design 4: lines 920 to 940.\<close>

definition create_presentation_4_slide_5 :: "(world, unit) state" where
  "create_presentation_4_slide_5 = do {
     slide \<leftarrow> add_slide;
     bg1 \<leftarrow> add_shape slide RECTANGLE 0 0 SLIDE_WIDTH (Inches 3.75);
     fill_solid bg1;
     fill_fore_color_rgb bg1 AVEMO_BLACK;
     line_fill_background bg1;
     bg2 \<leftarrow> add_shape slide RECTANGLE 0 (Inches 3.75) SLIDE_WIDTH (Inches 3.75);
     fill_solid bg2;
     fill_fore_color_rgb bg2 AVEMO_ORANGE;
     line_fill_background bg2;
     add_text_box slide (Inches 0.8) (Inches 1.2) (Inches 10) (Inches 1)
       (''Bereit f'' @ uuml @ ''r die'') (Pt 36) AVEMO_WHITE False ''Arial'' LEFT;
     add_text_box slide (Inches 0.8) (Inches 2.1) (Inches 10) (Inches 1)
       ''Zukunft?'' (Pt 72) AVEMO_WHITE True ''Arial'' LEFT;
     add_text_box slide (Inches 0.8) (Inches 4.5) (Inches 10) (Inches 1)
       ''Gemeinsam gestalten wir die digitale Transformation Ihrer Fahrzeugdisposition.'' (Pt 18) AVEMO_BLACK False ''Arial'' LEFT;
     State_Monad.return ()
   }"

definition create_presentation_4 :: "(world, unit) state" where
  "create_presentation_4 = do {
     Presentation;
     set_slide_width SLIDE_WIDTH;
     set_slide_height SLIDE_HEIGHT;
     create_presentation_4_slide_1;
     create_presentation_4_slide_2;
     create_presentation_4_slide_3;
     create_presentation_4_slide_4;
     create_presentation_4_slide_5;
     save ''/root/fahrerplanung/presentations/design-4-asymmetric-modern.pptx'';
     py_print ''Created: design-4-asymmetric-modern.pptx''
   }"

subsection \<open>Design 5: Data-Driven Dashboard Style (lines 946 to 1229)\<close>

text \<open>Slide 1 of design 5: lines 959 to 1018.\<close>

definition create_presentation_5_slide_1 :: "(world, unit) state" where
  "create_presentation_5_slide_1 = do {
     slide \<leftarrow> add_slide;
     bg \<leftarrow> add_shape slide RECTANGLE 0 0 SLIDE_WIDTH SLIDE_HEIGHT;
     fill_solid bg;
     fill_fore_color_rgb bg (RGBColor 0x0A 0x0E 0x17);
     line_fill_background bg;
     for_each (py_range 15) (\<lambda>i. do {
        let x = Inches ((of_int i) * 0.9);
        line \<leftarrow> add_shape slide RECTANGLE x 0 (Inches 0.01) SLIDE_HEIGHT;
        fill_solid line;
        fill_fore_color_rgb line (RGBColor 0x1A 0x1F 0x2E);
        line_fill_background line;
        set_alpha line ''50000'';
        State_Monad.return ()
     });
     card \<leftarrow> add_shape slide ROUNDED_RECTANGLE (Inches 1) (Inches 1.5) (Inches 11) (Inches 4.5);
     fill_solid card;
     fill_fore_color_rgb card (RGBColor 0x11 0x18 0x27);
     line_color_rgb card (RGBColor 0xFF 0x79 0x32);
     line_width card (Pt 2);
     set_alpha card ''80000'';
     bar \<leftarrow> add_shape slide RECTANGLE (Inches 1) (Inches 1.5) (Inches 0.2) (Inches 4.5);
     fill_solid bar;
     fill_fore_color_rgb bar AVEMO_ORANGE;
     line_fill_background bar;
     add_text_box slide (Inches 1.5) (Inches 1.8) (Inches 10) (Inches 1.2)
       ''Fahrersoftware'' (Pt 64) AVEMO_WHITE True ''Arial'' LEFT;
     add_text_box slide (Inches 1.5) (Inches 3.2) (Inches 10) (Inches 0.6)
       ''Die Zukunft der Fahrzeugdisposition'' (Pt 24) (RGBColor 0x8A 0x9A 0xB0) False ''Arial'' LEFT;
     add_text_box slide (Inches 1.5) (Inches 4.2) (Inches 10) (Inches 0.6)
       (''Eine Software f'' @ uuml @ ''r alle Standorte'') (Pt 20) AVEMO_ORANGE True ''Arial'' LEFT;
     let stats =
       [((''260K'' @ euro), ''Einsparung''),
        (''30'', ''Tage gespart''),
        (''2.5h'', ''Weniger Leerlauf'')];
     for_each (py_enumerate stats) (\<lambda>(i, num, label). do {
        let x = Inches (1.5 + ((of_int i) * 3.5));
        add_text_box slide x (Inches 6.2) (Inches 3) (Inches 0.6)
          num (Pt 32) AVEMO_ORANGE True ''Arial'' LEFT;
        add_text_box slide x (Inches 6.8) (Inches 3) (Inches 0.4)
          label (Pt 12) (RGBColor 0x8A 0x9A 0xB0) False ''Arial'' LEFT;
        State_Monad.return ()
     });
     State_Monad.return ()
   }"

text \<open>Slide 2 of design 5: lines 1021 to 1074.\<close>

definition create_presentation_5_slide_2 :: "(world, unit) state" where
  "create_presentation_5_slide_2 = do {
     slide \<leftarrow> add_slide;
     bg \<leftarrow> add_shape slide RECTANGLE 0 0 SLIDE_WIDTH SLIDE_HEIGHT;
     fill_solid bg;
     fill_fore_color_rgb bg (RGBColor 0x0A 0x0E 0x17);
     line_fill_background bg;
     header \<leftarrow> add_shape slide RECTANGLE 0 0 SLIDE_WIDTH (Inches 1.2);
     fill_solid header;
     fill_fore_color_rgb header (RGBColor 0x11 0x18 0x27);
     line_fill_background header;
     add_text_box slide (Inches 0.8) (Inches 0.35) (Inches 10) (Inches 0.6)
       ''SYSTEM STATUS: PROBLEME ERKANNT'' (Pt 18) AVEMO_ORANGE True ''Arial'' LEFT;
     let problems =
       [(''Standorte'', ''5'', ''Isoliert'', ''CRITICAL''),
        (''Prozesse'', ''100%'', ''Manuell'', ''WARNING''),
        (''Leerlauf'', ''2.5h'', ''Pro Tag'', ''WARNING''),
        (''Wartezeit'', ''30'', ''Tage'', ''CRITICAL'')];
     for_each (py_enumerate problems) (\<lambda>(i, title, value, unit, status). do {
        let row = i div 2;
        let col = i mod 2;
        let x = Inches (0.8 + (of_int (col * 6)));
        let y = Inches (1.6 + ((of_int row) * 2.8));
        card \<leftarrow> add_shape slide ROUNDED_RECTANGLE x y (Inches 5.5) (Inches 2.4);
        fill_solid card;
        fill_fore_color_rgb card (RGBColor 0x11 0x18 0x27);
        line_color_rgb card (if status = ''CRITICAL'' then RGBColor 0xFF 0x79 0x32 else RGBColor 0x33 0x44 0x66);
        line_width card (Pt 1.5);
        add_text_box slide (x + (Inches 0.3)) (y + (Inches 0.2)) (Inches 3) (Inches 0.4)
          title (Pt 14) (RGBColor 0x8A 0x9A 0xB0) False ''Arial'' LEFT;
        add_text_box slide (x + (Inches 0.3)) (y + (Inches 0.7)) (Inches 3) (Inches 0.8)
          value (Pt 48) AVEMO_WHITE True ''Arial'' LEFT;
        add_text_box slide (x + (Inches 0.3)) (y + (Inches 1.5)) (Inches 3) (Inches 0.4)
          unit (Pt 14) (RGBColor 0x8A 0x9A 0xB0) False ''Arial'' LEFT;
        let status_color = (if status = ''CRITICAL'' then AVEMO_ORANGE else RGBColor 0xFF 0xC1 0x07);
        indicator \<leftarrow> add_shape slide OVAL (x + (Inches 4.5)) (y + (Inches 0.3)) (Inches 0.5) (Inches 0.5);
        fill_solid indicator;
        fill_fore_color_rgb indicator status_color;
        line_fill_background indicator;
        add_text_box slide (x + (Inches 4.2)) (y + (Inches 0.9)) (Inches 1) (Inches 0.4)
          status (Pt 10) status_color True ''Arial'' LEFT;
        State_Monad.return ()
     });
     State_Monad.return ()
   }"

text \<open>Slide 3 of design 5: lines 1077 to 1143.\<close>

definition create_presentation_5_slide_3 :: "(world, unit) state" where
  "create_presentation_5_slide_3 = do {
     slide \<leftarrow> add_slide;
     bg \<leftarrow> add_shape slide RECTANGLE 0 0 SLIDE_WIDTH SLIDE_HEIGHT;
     fill_solid bg;
     fill_fore_color_rgb bg (RGBColor 0x0A 0x0E 0x17);
     line_fill_background bg;
     header \<leftarrow> add_shape slide RECTANGLE 0 0 SLIDE_WIDTH (Inches 1.2);
     fill_solid header;
     fill_fore_color_rgb header (RGBColor 0x11 0x18 0x27);
     line_fill_background header;
     add_text_box slide (Inches 0.8) (Inches 0.35) (Inches 10) (Inches 0.6)
       (''SYSTEM UPGRADE: L'' @ Ouml @ ''SUNG BEREIT'') (Pt 18) AVEMO_ORANGE True ''Arial'' LEFT;
     main_card \<leftarrow> add_shape slide ROUNDED_RECTANGLE (Inches 0.8) (Inches 1.6) (Inches 7) (Inches 5.4);
     fill_solid main_card;
     fill_fore_color_rgb main_card (RGBColor 0x11 0x18 0x27);
     line_color_rgb main_card AVEMO_ORANGE;
     line_width main_card (Pt 2);
     add_text_box slide (Inches 1.1) (Inches 1.9) (Inches 6) (Inches 0.8)
       (''Eine Software f'' @ uuml @ ''r alle Standorte'') (Pt 28) AVEMO_WHITE True ''Arial'' LEFT;
     let benefits =
       [(''Synergien'', ''Vernetzung aller Standorte''),
        (''Effizienz'', ''Optimale Nutzung''),
        (''Automatisierung'', ''Weniger manuelle Arbeit''),
        (''Einsparung'', (''260.000 '' @ euro @ '' j'' @ auml @ ''hrlich''))];
     for_each (py_enumerate benefits) (\<lambda>(i, title, desc). do {
        let y = Inches (3 + ((of_int i) * 0.9));
        check \<leftarrow> add_shape slide OVAL (Inches 1.1) (y + (Inches 0.05)) (Inches 0.3) (Inches 0.3);
        fill_solid check;
        fill_fore_color_rgb check AVEMO_ORANGE;
        line_fill_background check;
        add_text_box slide (Inches 1.6) y (Inches 2) (Inches 0.4)
          title (Pt 16) AVEMO_ORANGE True ''Arial'' LEFT;
        add_text_box slide (Inches 3.2) y (Inches 4) (Inches 0.4)
          desc (Pt 14) (RGBColor 0x8A 0x9A 0xB0) False ''Arial'' LEFT;
        State_Monad.return ()
     });
     panel \<leftarrow> add_shape slide ROUNDED_RECTANGLE (Inches 8) (Inches 1.6) (Inches 4.5) (Inches 5.4);
     fill_solid panel;
     fill_fore_color_rgb panel (RGBColor 0x11 0x18 0x27);
     line_fill_background panel;
     add_text_box slide (Inches 8.3) (Inches 1.9) (Inches 4) (Inches 0.5)
       ''PROJEKTIERTE METRIKEN'' (Pt 12) AVEMO_ORANGE True ''Arial'' LEFT;
     let metrics =
       [(''ROI'', ''< 12 Monate''),
        (''Effizienz'', ''+ 40%''),
        (''Transparenz'', ''100%''),
        (''Standorte'', ''Verbindung'')];
     for_each (py_enumerate metrics) (\<lambda>(i, label, value). do {
        let y = Inches (2.6 + ((of_int i) * 1.1));
        add_text_box slide (Inches 8.3) y (Inches 2) (Inches 0.4)
          label (Pt 14) (RGBColor 0x8A 0x9A 0xB0) False ''Arial'' LEFT;
        add_text_box slide (Inches 8.3) (y + (Inches 0.4)) (Inches 4) (Inches 0.5)
          value (Pt 24) AVEMO_WHITE True ''Arial'' LEFT;
        State_Monad.return ()
     });
     State_Monad.return ()
   }"

text \<open>Slide 4 of design 5: lines 1146 to 1192.\<close>

definition create_presentation_5_slide_4 :: "(world, unit) state" where
  "create_presentation_5_slide_4 = do {
     slide \<leftarrow> add_slide;
     bg \<leftarrow> add_shape slide RECTANGLE 0 0 SLIDE_WIDTH SLIDE_HEIGHT;
     fill_solid bg;
     fill_fore_color_rgb bg (RGBColor 0x0A 0x0E 0x17);
     line_fill_background bg;
     header \<leftarrow> add_shape slide RECTANGLE 0 0 SLIDE_WIDTH (Inches 1.2);
     fill_solid header;
     fill_fore_color_rgb header (RGBColor 0x11 0x18 0x27);
     line_fill_background header;
     add_text_box slide (Inches 0.8) (Inches 0.35) (Inches 10) (Inches 0.6)
       ''MODULE: MINIMUM VIABLE PRODUCT'' (Pt 18) AVEMO_ORANGE True ''Arial'' LEFT;
     let features =
       [(''ALGORITHM'', ''Planungs-Engine''),
        (''MOBILE'', ''Driver App''),
        (''WEB'', ''Backoffice''),
        (''INTEGRATION'', ''Externe APIs''),
        (''MONITOR'', ''Live-Dashboard''),
        (''ANALYTICS'', ''Reporting'')];
     for_each (py_enumerate features) (\<lambda>(i, code, name). do {
        let col = i mod 3;
        let row = i div 3;
        let x = Inches (0.8 + ((of_int col) * 4.1));
        let y = Inches (1.6 + ((of_int row) * 2.8));
        card \<leftarrow> add_shape slide ROUNDED_RECTANGLE x y (Inches 3.8) (Inches 2.4);
        fill_solid card;
        fill_fore_color_rgb card (RGBColor 0x11 0x18 0x27);
        line_color_rgb card (RGBColor 0x33 0x44 0x66);
        line_width card (Pt 1);
        add_text_box slide (x + (Inches 0.2)) (y + (Inches 0.2)) (Inches 3.4) (Inches 0.35)
          code (Pt 11) AVEMO_ORANGE True ''Arial'' LEFT;
        add_text_box slide (x + (Inches 0.2)) (y + (Inches 0.8)) (Inches 3.4) (Inches 0.8)
          name (Pt 22) AVEMO_WHITE True ''Arial'' LEFT;
        add_text_box slide (x + (Inches 3)) (y + (Inches 1.9)) (Inches 0.6) (Inches 0.4)
          (''M0'' @ str (i + 1)) (Pt 10) (RGBColor 0x8A 0x9A 0xB0) False ''Arial'' LEFT;
        State_Monad.return ()
     });
     State_Monad.return ()
   }"

text \<open>Slide 5 of design 5: lines 1195 to 1226.\<close>

definition create_presentation_5_slide_5 :: "(world, unit) state" where
  "create_presentation_5_slide_5 = do {
     slide \<leftarrow> add_slide;
     bg \<leftarrow> add_shape slide RECTANGLE 0 0 SLIDE_WIDTH SLIDE_HEIGHT;
     fill_solid bg;
     fill_fore_color_rgb bg (RGBColor 0x0A 0x0E 0x17);
     line_fill_background bg;
     card \<leftarrow> add_shape slide ROUNDED_RECTANGLE (Inches 2) (Inches 1.5) (Inches 9.3) (Inches 4.5);
     fill_solid card;
     fill_fore_color_rgb card (RGBColor 0x11 0x18 0x27);
     line_color_rgb card AVEMO_ORANGE;
     line_width card (Pt 3);
     for_each ([0.02, 0.04]) (\<lambda>offset. do {
        border \<leftarrow> add_shape slide ROUNDED_RECTANGLE (Inches (2 - offset)) (Inches (1.5 - offset)) (Inches (9.3 + (offset * 2))) (Inches (4.5 + (offset * 2)));
        fill_background border;
        line_color_rgb border AVEMO_ORANGE;
        line_width border (Pt 1);
        State_Monad.return ()
     });
     add_text_box slide (Inches 2.5) (Inches 2.2) (Inches 8) (Inches 1)
       ''SYSTEM READY'' (Pt 18) AVEMO_ORANGE True ''Arial'' LEFT;
     add_text_box slide (Inches 2.5) (Inches 3) (Inches 8) (Inches 1)
       (''Bereit f'' @ uuml @ ''r die Zukunft?'') (Pt 44) AVEMO_WHITE True ''Arial'' LEFT;
     add_text_box slide (Inches 2.5) (Inches 4.2) (Inches 8) (Inches 0.8)
       ''Gemeinsam transformieren wir Ihre Fahrzeugdisposition.'' (Pt 16) (RGBColor 0x8A 0x9A 0xB0) False ''Arial'' LEFT;
     State_Monad.return ()
   }"

definition create_presentation_5 :: "(world, unit) state" where
  "create_presentation_5 = do {
     Presentation;
     set_slide_width SLIDE_WIDTH;
     set_slide_height SLIDE_HEIGHT;
     create_presentation_5_slide_1;
     create_presentation_5_slide_2;
     create_presentation_5_slide_3;
     create_presentation_5_slide_4;
     create_presentation_5_slide_5;
     save ''/root/fahrerplanung/presentations/design-5-dashboard-tech.pptx'';
     py_print ''Created: design-5-dashboard-tech.pptx''
   }"


section \<open>The script's entry point\<close>

text \<open>Lines 1232 to 1241: the five functions run in order, with no handler around them.\<close>

definition main :: "(world, unit) state" where
  "main = do {
     py_print ''Creating 5 sophisticated AVEMO presentations...'';
     py_print (replicate 60 (CHR ''=''));
     create_presentation_1;
     create_presentation_2;
     create_presentation_3;
     create_presentation_4;
     create_presentation_5;
     py_print (replicate 60 (CHR ''=''));
     py_print ''All presentations created successfully!''
   }"

section \<open>Vocabulary of the statements\<close>

text \<open>
  A state in which no exception propagates is given by its six components. Every
  presentation is a triple of width, height and slides, so every state with
  \<open>raised = None\<close> has this form.
\<close>

definition world_of ::
  "emu \<Rightarrow> emu \<Rightarrow> slide list \<Rightarrow> (string \<times> presentation) list \<Rightarrow> string list \<Rightarrow> string list \<Rightarrow> world" where
  "world_of a b ss f out u =
     \<lparr>prs = \<lparr>slide_width = a, slide_height = b, slides = ss\<rparr>, files = f, stdout = out,
      raised = None, unwritable = u\<rparr>"

text \<open>
  The slide a slide program builds, the presentation a design function builds (both read
  off a run from an empty state), the five output paths and the five artifacts.
\<close>

definition slide_of :: "(world, unit) state \<Rightarrow> slide" where
  "slide_of m = last (slides (prs (snd (run_state m (world_of 0 0 [] [] [] [])))))"

definition artifact_1 :: string where
  "artifact_1 = ''/root/fahrerplanung/presentations/design-1-cinematic-dark.pptx''"

definition artifact_2 :: string where
  "artifact_2 = ''/root/fahrerplanung/presentations/design-2-minimal-glass.pptx''"

definition artifact_3 :: string where
  "artifact_3 = ''/root/fahrerplanung/presentations/design-3-bold-editorial.pptx''"

definition artifact_4 :: string where
  "artifact_4 = ''/root/fahrerplanung/presentations/design-4-asymmetric-modern.pptx''"

definition artifact_5 :: string where
  "artifact_5 = ''/root/fahrerplanung/presentations/design-5-dashboard-tech.pptx''"

definition design_1 :: presentation where
  "design_1 = prs (snd (run_state create_presentation_1 (world_of 0 0 [] [] [] [])))"

definition design_2 :: presentation where
  "design_2 = prs (snd (run_state create_presentation_2 (world_of 0 0 [] [] [] [])))"

definition design_3 :: presentation where
  "design_3 = prs (snd (run_state create_presentation_3 (world_of 0 0 [] [] [] [])))"

definition design_4 :: presentation where
  "design_4 = prs (snd (run_state create_presentation_4 (world_of 0 0 [] [] [] [])))"

definition design_5 :: presentation where
  "design_5 = prs (snd (run_state create_presentation_5 (world_of 0 0 [] [] [] [])))"

definition artifacts :: "(string \<times> presentation) list" where
  "artifacts = [(artifact_1, design_1), (artifact_2, design_2), (artifact_3, design_3),
     (artifact_4, design_4), (artifact_5, design_5)]"

definition slide_programs :: "(world, unit) state list" where
  "slide_programs =
     [create_presentation_1_slide_1, create_presentation_1_slide_2, create_presentation_1_slide_3,
      create_presentation_1_slide_4, create_presentation_1_slide_5,
      create_presentation_2_slide_1, create_presentation_2_slide_2, create_presentation_2_slide_3,
      create_presentation_2_slide_4, create_presentation_2_slide_5,
      create_presentation_3_slide_1, create_presentation_3_slide_2, create_presentation_3_slide_3,
      create_presentation_3_slide_4, create_presentation_3_slide_5,
      create_presentation_4_slide_1, create_presentation_4_slide_2, create_presentation_4_slide_3,
      create_presentation_4_slide_4, create_presentation_4_slide_5,
      create_presentation_5_slide_1, create_presentation_5_slide_2, create_presentation_5_slide_3,
      create_presentation_5_slide_4, create_presentation_5_slide_5]"

text \<open>
  What is read off an element: its bounds, whether it covers the canvas, the node that
  holds the fill colour and the opacity values on it. A slide starts with a background
  when its first element is an opaque, solidly filled rectangle over the whole canvas.
\<close>

definition bounds :: "element \<Rightarrow> emu \<times> emu \<times> emu \<times> emu" where
  "bounds e =
     (case e of
        Shape s \<Rightarrow> (sh_left s, sh_top s, sh_width s, sh_height s)
      | TextBox t \<Rightarrow> (tb_left t, tb_top t, tb_width t, tb_height t))"

definition covers_canvas :: "element \<Rightarrow> bool" where
  "covers_canvas e = (bounds e = (0, 0, SLIDE_WIDTH, SLIDE_HEIGHT))"

definition fill_color_node :: "xml \<Rightarrow> xml option" where
  "fill_color_node sp =
     (case find_child ''a:solidFill'' sp of
        None \<Rightarrow> None
      | Some solidFill \<Rightarrow> find_child ''a:srgbClr'' solidFill)"

definition element_alphas :: "element \<Rightarrow> string list" where
  "element_alphas e = (case e of Shape s \<Rightarrow> fill_alphas (spPr s) | TextBox t \<Rightarrow> [])"

definition is_background :: "element \<Rightarrow> bool" where
  "is_background e =
     (case e of
        Shape s \<Rightarrow> covers_canvas e \<and> auto_shape_type s = RECTANGLE
          \<and> fill_color_node (spPr s) \<noteq> None \<and> fill_alphas (spPr s) = []
      | TextBox t \<Rightarrow> False)"

definition first_is_background :: "slide \<Rightarrow> bool" where
  "first_is_background s = (case s of [] \<Rightarrow> False | e # es \<Rightarrow> is_background e)"

definition canvas :: "world \<Rightarrow> emu \<times> emu" where
  "canvas w = (slide_width (prs w), slide_height (prs w))"

definition keeps_canvas :: "(world, 'a) state \<Rightarrow> bool" where
  "keeps_canvas m = (\<forall>w. canvas (snd (run_state m w)) = canvas w)"


definition adds_slide :: "(world, unit) state \<Rightarrow> slide \<Rightarrow> bool" where
  "adds_slide m es = (\<forall>a b ss f out u.
     run_state m (world_of a b ss f out u) = ((), world_of a b (ss @ [es]) f out u))"

text \<open>
  The elements the two helper functions create, and a state with one more element on
  slide \<open>s\<close>.
\<close>

definition styled_spPr :: "RGBColor \<Rightarrow> RGBColor option \<Rightarrow> xml" where
  "styled_spPr c lc =
     Elem ''p:spPr'' []
       [Elem ''a:solidFill'' [] [Elem ''a:srgbClr'' [(''val'', str_rgb c)] []],
        (case lc of
           None \<Rightarrow> Elem ''a:ln'' [] [Elem ''a:noFill'' [] []]
         | Some x \<Rightarrow> Elem ''a:ln'' [(''w'', ''12700'')]
             [Elem ''a:solidFill'' [] [Elem ''a:srgbClr'' [(''val'', str_rgb x)] []]])]"

definition new_text_box ::
  "emu \<Rightarrow> emu \<Rightarrow> emu \<Rightarrow> emu \<Rightarrow> string \<Rightarrow> emu \<Rightarrow> RGBColor \<Rightarrow> bool \<Rightarrow> string \<Rightarrow> PP_ALIGN \<Rightarrow> textbox" where
  "new_text_box l tp wd ht content sz col bd fn al =
     \<lparr>tb_left = l, tb_top = tp, tb_width = wd, tb_height = ht, tb_word_wrap = Some True,
      tb_text = content, tb_font_size = Some sz, tb_font_color = Some col,
      tb_font_bold = Some bd, tb_font_name = Some fn, tb_alignment = Some al\<rparr>"

definition with_element :: "slide_handle \<Rightarrow> element \<Rightarrow> world \<Rightarrow> world" where
  "with_element s e w =
     w\<lparr>prs := (prs w)\<lparr>slides := (slides (prs w))[s := slides (prs w) ! s @ [e]]\<rparr>\<rparr>"

text \<open>
  Three small states built by the script's own statements: an empty slide; the glow
  circle of design 1 after lines 91 to 93 (created and filled, before the opacity
  statements); one border of design 5 after lines 1210 to 1215 (no fill, an orange
  outline), with the first offset 0.02 of the loop.
\<close>

definition blank_slide_world :: world where
  "blank_slide_world = snd (run_state (do { Presentation; add_slide }) (world_of 0 0 [] [] [] []))"

definition glow_world :: world where
  "glow_world = snd (run_state (do {
     Presentation;
     slide \<leftarrow> add_slide;
     glow \<leftarrow> add_shape slide OVAL (Inches 8) (Inches 1) (Inches 6) (Inches 6);
     fill_solid glow;
     fill_fore_color_rgb glow (RGBColor 0xFF 0x79 0x32)
   }) (world_of 0 0 [] [] [] []))"

definition border_world :: world where
  "border_world = snd (run_state (do {
     Presentation;
     slide \<leftarrow> add_slide;
     border \<leftarrow> add_shape slide ROUNDED_RECTANGLE (Inches (2 - 0.02)) (Inches (1.5 - 0.02))
       (Inches (9.3 + 0.02 * 2)) (Inches (4.5 + 0.02 * 2));
     fill_background border;
     line_color_rgb border AVEMO_ORANGE;
     line_width border (Pt 1)
   }) (world_of 0 0 [] [] [] []))"

text \<open>
  The summary of a slide: the number of its elements, how many of them cover the canvas,
  whether the first one is a background, the opacity values in document order, and
  whether every element carries at most one.
\<close>

definition slide_summary :: "slide \<Rightarrow> nat \<times> nat \<times> bool \<times> string list \<times> bool" where
  "slide_summary s =
     (length s, length (filter covers_canvas s), first_is_background s,
      concat (map element_alphas s), list_all (\<lambda>e. length (element_alphas e) \<le> 1) s)"

section \<open>Running statements\<close>

subsection \<open>Arithmetic and intervals on numerals\<close>

lemma floor_rat_numeral: "\<lfloor>(numeral p :: rat) / numeral q\<rfloor> = numeral p div numeral q"
  using floor_divide_of_int_eq [of "numeral p" "numeral q", where ?'a = rat] by simp

lemma ceiling_neg_rat_numeral:
  "\<lceil>- ((numeral p :: rat) / numeral q)\<rceil> = - (numeral p div numeral q)"
  by (simp add: ceiling_minus floor_rat_numeral)

lemmas upt_0_numeral = upt_rec [of 0 "numeral n"] for n

lemmas upt_Suc_numeral = upt_rec [of "Suc m" "numeral n"] for m n

subsection \<open>One statement on a state without exception\<close>

lemma world_of_sel:
  "raised (world_of a b ss f out u) = None"
  "slides (prs (world_of a b ss f out u)) = ss"
  "slide_width (prs (world_of a b ss f out u)) = a"
  "slide_height (prs (world_of a b ss f out u)) = b"
  "files (world_of a b ss f out u) = f"
  "stdout (world_of a b ss f out u) = out"
  "unwritable (world_of a b ss f out u) = u"
  by (simp_all add: world_of_def)

lemma run_Presentation:
  "run_state Presentation (world_of a b ss f out u) = ((), world_of 9144000 6858000 [] f out u)"
  by (simp add: Presentation_def stmt_def world_of_def)

lemma run_set_slide_width:
  "run_state (set_slide_width v) (world_of a b ss f out u) = ((), world_of v b ss f out u)"
  by (simp add: set_slide_width_def stmt_def world_of_def)

lemma run_set_slide_height:
  "run_state (set_slide_height v) (world_of a b ss f out u) = ((), world_of a v ss f out u)"
  by (simp add: set_slide_height_def stmt_def world_of_def)

lemma run_save:
  "run_state (save path) (world_of a b ss f out u) =
     ((), if path \<in> set u then (world_of a b ss f out u)\<lparr>raised := Some (OSError path)\<rparr>
          else world_of a b ss (f @ [(path, \<lparr>slide_width = a, slide_height = b, slides = ss\<rparr>)]) out u)"
  by (simp add: save_def stmt_def world_of_def throw_def)

lemma run_py_print:
  "run_state (py_print s) (world_of a b ss f out u) = ((), world_of a b ss f (out @ [s]) u)"
  by (simp add: py_print_def stmt_def world_of_def)

lemma run_py_print_raised: "raised w \<noteq> None \<Longrightarrow> run_state (py_print s) w = ((), w)"
  by (auto simp: py_print_def stmt_def)

lemma run_add_slide:
  "run_state add_slide (world_of a b ss f out u) = (length ss, world_of a b (ss @ [[]]) f out u)"
  by (simp add: add_slide_def stmt_def world_of_def)

lemma run_append_element:
  "run_state (append_element (length ss) e) (world_of a b (ss @ cur # rest) f out u) =
     ((length ss, length cur), world_of a b (ss @ (cur @ [e]) # rest) f out u)"
  by (simp add: append_element_def stmt_def world_of_def)

lemma run_add_shape:
  "run_state (add_shape (length ss) t l tp wd ht) (world_of a b (ss @ cur # rest) f out u) =
     ((length ss, length cur),
      world_of a b (ss @ (cur @ [Shape (new_shape t l tp wd ht)]) # rest) f out u)"
  by (simp add: add_shape_def run_append_element)

lemma run_on_shape:
  "i < length cur \<Longrightarrow>
   run_state (on_shape (length ss, i) g) (world_of a b (ss @ cur # rest) f out u) =
     (case cur ! i of
        Shape sh \<Rightarrow>
          (case g sh of
             Inr sh' \<Rightarrow> ((), world_of a b (ss @ cur[i := Shape sh'] # rest) f out u)
           | Inl e \<Rightarrow> ((), (world_of a b (ss @ cur # rest) f out u)\<lparr>raised := Some e\<rparr>))
      | TextBox tb \<Rightarrow> ((), world_of a b (ss @ cur # rest) f out u))"
  by (simp add: on_shape_def stmt_def world_of_def element_at_def put_element_def throw_def
      split: element.splits sum.splits)

lemma run_on_textbox:
  "i < length cur \<Longrightarrow>
   run_state (on_textbox (length ss, i) g) (world_of a b (ss @ cur # rest) f out u) =
     (case cur ! i of
        TextBox tb \<Rightarrow> ((), world_of a b (ss @ cur[i := TextBox (g tb)] # rest) f out u)
      | Shape sh \<Rightarrow> ((), world_of a b (ss @ cur # rest) f out u))"
  by (simp add: on_textbox_def stmt_def world_of_def element_at_def put_element_def
      split: element.splits)

lemma run_add_text_box:
  "run_state (add_text_box (length ss) l tp wd ht content sz col bd fn al)
     (world_of a b (ss @ cur # rest) f out u) =
     ((length ss, length cur),
      world_of a b
        (ss @ (cur @ [TextBox (new_text_box l tp wd ht content sz col bd fn al)]) # rest) f out u)"
  by (simp add: add_text_box_def add_textbox_def run_append_element run_on_textbox
      new_textbox_def new_text_box_def)

lemmas setter_defs = fill_solid_def fill_background_def fill_fore_color_rgb_def
  line_fill_background_def line_color_rgb_def line_width_def set_rotation_def
  set_adjustment_def set_alpha_def

lemmas run_rules = run_add_slide run_add_shape run_on_shape run_on_textbox run_add_text_box

lemmas pure_defs = inject_alpha_def alpha_elem_def on_spPr_def on_ln_def
  get_or_change_to_def get_or_add_ln_def find_child_def fore_color_rgb_def set_srgbClr_def
  update_first_def set_attr_def new_shape_def new_text_box_def default_adjustments_def
  fill_tags_def append_child_def SLIDE_WIDTH_def SLIDE_HEIGHT_def Inches_def Pt_def py_int_def
  AVEMO_ORANGE_def AVEMO_WHITE_def AVEMO_BLACK_def AVEMO_GRAY_MID_def AVEMO_GRAY_LIGHT_def
  hex2_def digit_char_def py_enumerate_def py_range_def str_def
  floor_rat_numeral ceiling_neg_rat_numeral upt_0_numeral upt_Suc_numeral Let_def

lemmas summary_defs = bounds_def covers_canvas_def is_background_def first_is_background_def
  element_alphas_def fill_alphas_def fill_color_node_def attr_of_def

lemmas tiny_defs = stmt_def on_shape_def on_textbox_def append_element_def element_at_def
  put_element_def throw_def world_of_def

lemma adds_slide_slide_of: "adds_slide m es \<Longrightarrow> slide_of m = es"
  by (simp add: adds_slide_def slide_of_def world_of_sel)

subsection \<open>States in which an exception propagates\<close>












subsection \<open>The canvas is out of reach of the slide statements\<close>

lemma keeps_stmt:
  "(\<And>w. canvas (snd (g w)) = canvas w) \<Longrightarrow> keeps_canvas (stmt d g)"
  by (simp add: keeps_canvas_def stmt_def)

lemma keeps_return: "keeps_canvas (State_Monad.return x)"
  by (simp add: keeps_canvas_def)

lemma keeps_bind:
  "keeps_canvas m \<Longrightarrow> (\<And>x. keeps_canvas (k x)) \<Longrightarrow> keeps_canvas (State_Monad.bind m k)"
  by (auto simp: keeps_canvas_def split: prod.splits) (metis snd_conv)

lemma keeps_for_each: "(\<And>x. keeps_canvas (body x)) \<Longrightarrow> keeps_canvas (for_each xs body)"
  by (induction xs) (auto intro: keeps_bind keeps_return)

lemma keeps_Let: "(\<And>x. keeps_canvas (k x)) \<Longrightarrow> keeps_canvas (Let e k)"
  by simp

lemma keeps_case_prod: "(\<And>a b. keeps_canvas (k a b)) \<Longrightarrow> keeps_canvas (case_prod k p)"
  by (cases p) simp

lemma keeps_prims:
  "keeps_canvas add_slide" "keeps_canvas (save path)" "keeps_canvas (py_print s)"
  "keeps_canvas (append_element sl e)" "keeps_canvas (on_shape h g)"
  "keeps_canvas (on_textbox h g')"
  by (auto simp: add_slide_def save_def py_print_def append_element_def on_shape_def
      on_textbox_def canvas_def throw_def put_element_def
      intro!: keeps_stmt split: element.splits sum.splits)

lemma keeps_helpers:
  "keeps_canvas (add_shape sl t l tp wd ht)" "keeps_canvas (add_textbox sl l tp wd ht)"
  "keeps_canvas (fill_solid h)" "keeps_canvas (fill_background h)"
  "keeps_canvas (fill_fore_color_rgb h c)" "keeps_canvas (line_fill_background h)"
  "keeps_canvas (line_color_rgb h c)" "keeps_canvas (line_width h v)"
  "keeps_canvas (set_rotation h r)" "keeps_canvas (set_adjustment h i x)"
  "keeps_canvas (set_alpha h s)"
  by (simp_all add: add_shape_def add_textbox_def setter_defs keeps_prims)

lemma keeps_add_text_box:
  "keeps_canvas (add_text_box sl l tp wd ht content sz col bd fn al)"
  unfolding add_text_box_def
  by (intro keeps_bind keeps_return keeps_prims keeps_helpers)

lemma keeps_add_shape_with_opacity:
  "keeps_canvas (add_shape_with_opacity sl t l tp wd ht c op lc)"
  unfolding add_shape_with_opacity_def
  by (cases lc) (auto intro!: keeps_bind keeps_return keeps_prims keeps_helpers)

lemmas keeps_intros = keeps_bind keeps_return keeps_for_each keeps_Let keeps_case_prod
  keeps_prims keeps_helpers keeps_add_text_box

subsection \<open>Handles\<close>

lemma world_cases:
  assumes "raised w = None" and "s < length (slides (prs w))"
  obtains a b ss cur rest f out u where
    "w = world_of a b (ss @ cur # rest) f out u" and "s = length ss"
    and "cur = slides (prs w) ! s"
proof -
  let ?xs = "slides (prs w)"
  have xs: "?xs = take s ?xs @ ?xs ! s # drop (Suc s) ?xs"
    using assms(2) by (rule id_take_nth_drop)
  have "w = world_of (slide_width (prs w)) (slide_height (prs w))
      (take s ?xs @ ?xs ! s # drop (Suc s) ?xs) (files w) (stdout w) (unwritable w)"
    using assms(1) xs by (simp add: world_of_def)
  moreover have "s = length (take s ?xs)"
    using assms(2) by simp
  ultimately show thesis
    using that by blast
qed

lemma element_at_world_of:
  "element_at (length ss, i) (world_of a b (ss @ cur # rest) f out u) = cur ! i"
  by (simp add: element_at_def world_of_def)

lemma put_element_same: "element_at h w = e \<Longrightarrow> put_element h e w = w"
  by (auto simp: element_at_def put_element_def)

lemma run_on_shape_any:
  "raised w = None \<Longrightarrow> element_at h w = Shape sh \<Longrightarrow> g sh = Inr sh' \<Longrightarrow>
   run_state (on_shape h g) w = ((), put_element h (Shape sh') w)"
  by (simp add: on_shape_def stmt_def)

lemma element_at_put_element:
  "fst h < length (slides (prs w)) \<Longrightarrow> snd h < length (slides (prs w) ! fst h) \<Longrightarrow>
   element_at h (put_element h e w) = e"
  by (simp add: element_at_def put_element_def)

lemma put_element_twice:
  "fst h < length (slides (prs w)) \<Longrightarrow>
   put_element h e (put_element h e' w) = put_element h e w"
  by (simp add: put_element_def)

lemma raised_put_element: "raised (put_element h e w) = raised w"
  by (simp add: put_element_def)

lemma with_element_world_of:
  "with_element (length ss) e (world_of a b (ss @ cur # rest) f out u) =
     world_of a b (ss @ (cur @ [e]) # rest) f out u"
  by (simp add: with_element_def world_of_def)

lemma element_at_with_element:
  "s < length (slides (prs w)) \<Longrightarrow>
   element_at (s, length (slides (prs w) ! s)) (with_element s e w) = e"
  by (simp add: element_at_def with_element_def)

lemma raised_with_element: "raised (with_element s e w) = raised w"
  by (simp add: with_element_def)

subsection \<open>The two helper functions\<close>

lemma run_add_shape_with_opacity:
  "run_state (add_shape_with_opacity (length ss) t l tp wd ht c op lc)
     (world_of a b (ss @ cur # rest) f out u) =
     ((length ss, length cur),
      world_of a b
        (ss @ (cur @ [Shape ((new_shape t l tp wd ht)\<lparr>spPr := styled_spPr c lc\<rparr>)]) # rest)
        f out u)"
  by (cases lc)
    (simp_all add: add_shape_with_opacity_def setter_defs run_rules styled_spPr_def
      on_spPr_def on_ln_def get_or_change_to_def get_or_add_ln_def find_child_def
      fore_color_rgb_def set_srgbClr_def update_first_def set_attr_def new_shape_def
      fill_tags_def append_child_def Pt_def py_int_def str_def digit_char_def)

lemma add_shape_with_opacity_effect:
  assumes "raised w = None" and "s < length (slides (prs w))"
  shows "run_state (add_shape_with_opacity s t l tp wd ht c op lc) w =
     ((s, length (slides (prs w) ! s)),
      with_element s (Shape ((new_shape t l tp wd ht)\<lparr>spPr := styled_spPr c lc\<rparr>)) w)"
proof -
  from assms obtain a b ss cur rest f out u where
    w: "w = world_of a b (ss @ cur # rest) f out u" and s: "s = length ss"
    and cur: "cur = slides (prs w) ! s"
    by (rule world_cases)
  show ?thesis
    unfolding cur [symmetric] unfolding w s
    by (simp add: run_add_shape_with_opacity with_element_world_of)
qed


subsection \<open>The style tree\<close>

lemma find_update_first_in:
  "(\<And>c. tag (g c) = tag c) \<Longrightarrow>
   List.find (\<lambda>c. tag c = t) (update_first_in t g cs) =
     map_option g (List.find (\<lambda>c. tag c = t) cs)"
  by (induction cs) auto

lemma find_child_update_first:
  "(\<And>c. tag (g c) = tag c) \<Longrightarrow>
   find_child t (update_first t g e) = map_option g (find_child t e)"
  by (simp add: find_child_def update_first_def find_update_first_in)

lemma tag_update_first [simp]: "tag (update_first t g e) = tag e"
  by (simp add: update_first_def)

lemma tag_append_child [simp]: "tag (append_child e c) = tag e"
  by (simp add: append_child_def)

lemma fill_color_node_inject:
  "fill_color_node (inject_alpha v sp) =
     map_option (\<lambda>c. append_child c (alpha_elem v)) (fill_color_node sp)"
  by (auto simp: fill_color_node_def inject_alpha_def find_child_update_first split: option.splits)

lemma fill_alphas_node:
  "fill_alphas sp =
     (case fill_color_node sp of
        None \<Rightarrow> []
      | Some c \<Rightarrow> map (\<lambda>a. case attr_of ''val'' a of None \<Rightarrow> [] | Some v \<Rightarrow> v)
                  (filter (\<lambda>c. tag c = ''a:alpha'') (children c)))"
  by (simp add: fill_alphas_def fill_color_node_def split: option.splits)

lemma fill_alphas_inject:
  "fill_alphas (inject_alpha v sp) =
     (if fill_color_node sp = None then [] else fill_alphas sp @ [v])"
  by (auto simp: fill_alphas_node fill_color_node_inject append_child_def alpha_elem_def
      attr_of_def split: option.splits)

lemma inject_alpha_no_fill:
  "find_child ''a:solidFill'' sp = None \<Longrightarrow> inject_alpha v sp = sp"
  by (simp add: inject_alpha_def)

subsection \<open>The three small states\<close>

lemma blank_slide_world_eq: "blank_slide_world = world_of 9144000 6858000 [[]] [] [] []"
  using run_add_slide [of 9144000 6858000 "[]" "[]" "[]" "[]"]
  by (simp add: blank_slide_world_def run_Presentation)

lemma glow_world_eq:
  "glow_world = world_of 9144000 6858000
     [[Shape ((new_shape OVAL 7315200 914400 5486400 5486400)
        \<lparr>spPr := Elem ''p:spPr'' []
           [Elem ''a:solidFill'' [] [Elem ''a:srgbClr'' [(''val'', ''FF7932'')] []]]\<rparr>)]] [] [] []"
  using run_add_slide [of 9144000 6858000 "[]" "[]" "[]" "[]"]
    run_add_shape [of "[]" _ _ _ _ _ _ _ "[]" "[]", simplified]
    run_on_shape [of 0 _ "[]" _ _ _ "[]", simplified]
  by (simp add: glow_world_def run_Presentation setter_defs pure_defs)

lemma border_world_eq:
  "border_world = world_of 9144000 6858000
     [[Shape ((new_shape ROUNDED_RECTANGLE 1810512 1353312 8540496 4151376)
        \<lparr>spPr := Elem ''p:spPr'' []
           [Elem ''a:noFill'' [] [],
            Elem ''a:ln'' [(''w'', ''12700'')]
              [Elem ''a:solidFill'' [] [Elem ''a:srgbClr'' [(''val'', ''FF7932'')] []]]]\<rparr>)]] [] [] []"
  using run_add_slide [of 9144000 6858000 "[]" "[]" "[]" "[]"]
    run_add_shape [of "[]" _ _ _ _ _ _ _ "[]" "[]", simplified]
    run_on_shape [of 0 _ "[]" _ _ _ "[]", simplified]
  by (simp add: border_world_def run_Presentation setter_defs pure_defs)

section \<open>The twenty-five slides\<close>

text \<open>
  Each slide program is run once, statement by statement, from an arbitrary state
  without exception: it appends one slide and changes nothing else. The lemma of a
  slide records the run, the number of its elements, how many of them cover the
  canvas, whether the first one is a background, the opacity values in document order
  and that no element carries more than one.
\<close>

lemma about_create_presentation_1_slide_1:
  shows "run_state create_presentation_1_slide_1 (world_of a b ss f out u) =
      ((), world_of a b (ss @ [slide_of create_presentation_1_slide_1]) f out u)"
    and "slide_summary (slide_of create_presentation_1_slide_1) = (7, 1, True, [''15000'', ''70000''], True)"
    and "length (filter covers_canvas (slide_of create_presentation_1_slide_1)) = 1"
    and "first_is_background (slide_of create_presentation_1_slide_1) = True"
    and "list_all (\<lambda>e. length (element_alphas e) \<le> 1) (slide_of create_presentation_1_slide_1)"
proof -
  have "\<exists>es. adds_slide create_presentation_1_slide_1 es \<and>
      slide_summary es = (7, 1, True, [''15000'', ''70000''], True)"
    unfolding adds_slide_def
    apply (rule exI, rule conjI, intro allI)
     apply (simp add: create_presentation_1_slide_1_def setter_defs run_rules pure_defs)
    apply (simp add: slide_summary_def summary_defs pure_defs)
    done
  then obtain es where run: "adds_slide create_presentation_1_slide_1 es"
    and facts: "slide_summary es = (7, 1, True, [''15000'', ''70000''], True)"
    by (elim exE conjE)
  have eq: "slide_of create_presentation_1_slide_1 = es"
    using run by (rule adds_slide_slide_of)
  show "run_state create_presentation_1_slide_1 (world_of a b ss f out u) =
      ((), world_of a b (ss @ [slide_of create_presentation_1_slide_1]) f out u)"
    using run by (simp add: eq adds_slide_def)
  show "slide_summary (slide_of create_presentation_1_slide_1) = (7, 1, True, [''15000'', ''70000''], True)"
    using facts by (simp_all add: eq)
  show "length (filter covers_canvas (slide_of create_presentation_1_slide_1)) = 1"
    and "first_is_background (slide_of create_presentation_1_slide_1) = True"
    and "list_all (\<lambda>e. length (element_alphas e) \<le> 1) (slide_of create_presentation_1_slide_1)"
    using facts(1) by (simp_all add: eq slide_summary_def)
qed

lemma about_create_presentation_1_slide_2:
  shows "run_state create_presentation_1_slide_2 (world_of a b ss f out u) =
      ((), world_of a b (ss @ [slide_of create_presentation_1_slide_2]) f out u)"
    and "slide_summary (slide_of create_presentation_1_slide_2) = (18, 1, True, [''60000'', ''60000'', ''60000'', ''60000''], True)"
    and "length (filter covers_canvas (slide_of create_presentation_1_slide_2)) = 1"
    and "first_is_background (slide_of create_presentation_1_slide_2) = True"
    and "list_all (\<lambda>e. length (element_alphas e) \<le> 1) (slide_of create_presentation_1_slide_2)"
proof -
  have "\<exists>es. adds_slide create_presentation_1_slide_2 es \<and>
      slide_summary es = (18, 1, True, [''60000'', ''60000'', ''60000'', ''60000''], True)"
    unfolding adds_slide_def
    apply (rule exI, rule conjI, intro allI)
     apply (simp add: create_presentation_1_slide_2_def setter_defs run_rules pure_defs)
    apply (simp add: slide_summary_def summary_defs pure_defs)
    done
  then obtain es where run: "adds_slide create_presentation_1_slide_2 es"
    and facts: "slide_summary es = (18, 1, True, [''60000'', ''60000'', ''60000'', ''60000''], True)"
    by (elim exE conjE)
  have eq: "slide_of create_presentation_1_slide_2 = es"
    using run by (rule adds_slide_slide_of)
  show "run_state create_presentation_1_slide_2 (world_of a b ss f out u) =
      ((), world_of a b (ss @ [slide_of create_presentation_1_slide_2]) f out u)"
    using run by (simp add: eq adds_slide_def)
  show "slide_summary (slide_of create_presentation_1_slide_2) = (18, 1, True, [''60000'', ''60000'', ''60000'', ''60000''], True)"
    using facts by (simp_all add: eq)
  show "length (filter covers_canvas (slide_of create_presentation_1_slide_2)) = 1"
    and "first_is_background (slide_of create_presentation_1_slide_2) = True"
    and "list_all (\<lambda>e. length (element_alphas e) \<le> 1) (slide_of create_presentation_1_slide_2)"
    using facts(1) by (simp_all add: eq slide_summary_def)
qed

lemma about_create_presentation_1_slide_3:
  shows "run_state create_presentation_1_slide_3 (world_of a b ss f out u) =
      ((), world_of a b (ss @ [slide_of create_presentation_1_slide_3]) f out u)"
    and "slide_summary (slide_of create_presentation_1_slide_3) = (16, 1, True, [''20000''], True)"
    and "length (filter covers_canvas (slide_of create_presentation_1_slide_3)) = 1"
    and "first_is_background (slide_of create_presentation_1_slide_3) = True"
    and "list_all (\<lambda>e. length (element_alphas e) \<le> 1) (slide_of create_presentation_1_slide_3)"
proof -
  have "\<exists>es. adds_slide create_presentation_1_slide_3 es \<and>
      slide_summary es = (16, 1, True, [''20000''], True)"
    unfolding adds_slide_def
    apply (rule exI, rule conjI, intro allI)
     apply (simp add: create_presentation_1_slide_3_def setter_defs run_rules pure_defs)
    apply (simp add: slide_summary_def summary_defs pure_defs)
    done
  then obtain es where run: "adds_slide create_presentation_1_slide_3 es"
    and facts: "slide_summary es = (16, 1, True, [''20000''], True)"
    by (elim exE conjE)
  have eq: "slide_of create_presentation_1_slide_3 = es"
    using run by (rule adds_slide_slide_of)
  show "run_state create_presentation_1_slide_3 (world_of a b ss f out u) =
      ((), world_of a b (ss @ [slide_of create_presentation_1_slide_3]) f out u)"
    using run by (simp add: eq adds_slide_def)
  show "slide_summary (slide_of create_presentation_1_slide_3) = (16, 1, True, [''20000''], True)"
    using facts by (simp_all add: eq)
  show "length (filter covers_canvas (slide_of create_presentation_1_slide_3)) = 1"
    and "first_is_background (slide_of create_presentation_1_slide_3) = True"
    and "list_all (\<lambda>e. length (element_alphas e) \<le> 1) (slide_of create_presentation_1_slide_3)"
    using facts(1) by (simp_all add: eq slide_summary_def)
qed

lemma about_create_presentation_1_slide_4:
  shows "run_state create_presentation_1_slide_4 (world_of a b ss f out u) =
      ((), world_of a b (ss @ [slide_of create_presentation_1_slide_4]) f out u)"
    and "slide_summary (slide_of create_presentation_1_slide_4) = (21, 1, True, [''50000'', ''50000'', ''50000'', ''50000'', ''50000'', ''50000''], True)"
    and "length (filter covers_canvas (slide_of create_presentation_1_slide_4)) = 1"
    and "first_is_background (slide_of create_presentation_1_slide_4) = True"
    and "list_all (\<lambda>e. length (element_alphas e) \<le> 1) (slide_of create_presentation_1_slide_4)"
proof -
  have "\<exists>es. adds_slide create_presentation_1_slide_4 es \<and>
      slide_summary es = (21, 1, True, [''50000'', ''50000'', ''50000'', ''50000'', ''50000'', ''50000''], True)"
    unfolding adds_slide_def
    apply (rule exI, rule conjI, intro allI)
     apply (simp add: create_presentation_1_slide_4_def setter_defs run_rules pure_defs)
    apply (simp add: slide_summary_def summary_defs pure_defs)
    done
  then obtain es where run: "adds_slide create_presentation_1_slide_4 es"
    and facts: "slide_summary es = (21, 1, True, [''50000'', ''50000'', ''50000'', ''50000'', ''50000'', ''50000''], True)"
    by (elim exE conjE)
  have eq: "slide_of create_presentation_1_slide_4 = es"
    using run by (rule adds_slide_slide_of)
  show "run_state create_presentation_1_slide_4 (world_of a b ss f out u) =
      ((), world_of a b (ss @ [slide_of create_presentation_1_slide_4]) f out u)"
    using run by (simp add: eq adds_slide_def)
  show "slide_summary (slide_of create_presentation_1_slide_4) = (21, 1, True, [''50000'', ''50000'', ''50000'', ''50000'', ''50000'', ''50000''], True)"
    using facts by (simp_all add: eq)
  show "length (filter covers_canvas (slide_of create_presentation_1_slide_4)) = 1"
    and "first_is_background (slide_of create_presentation_1_slide_4) = True"
    and "list_all (\<lambda>e. length (element_alphas e) \<le> 1) (slide_of create_presentation_1_slide_4)"
    using facts(1) by (simp_all add: eq slide_summary_def)
qed

lemma about_create_presentation_1_slide_5:
  shows "run_state create_presentation_1_slide_5 (world_of a b ss f out u) =
      ((), world_of a b (ss @ [slide_of create_presentation_1_slide_5]) f out u)"
    and "slide_summary (slide_of create_presentation_1_slide_5) = (6, 1, True, [''20000''], True)"
    and "length (filter covers_canvas (slide_of create_presentation_1_slide_5)) = 1"
    and "first_is_background (slide_of create_presentation_1_slide_5) = True"
    and "list_all (\<lambda>e. length (element_alphas e) \<le> 1) (slide_of create_presentation_1_slide_5)"
proof -
  have "\<exists>es. adds_slide create_presentation_1_slide_5 es \<and>
      slide_summary es = (6, 1, True, [''20000''], True)"
    unfolding adds_slide_def
    apply (rule exI, rule conjI, intro allI)
     apply (simp add: create_presentation_1_slide_5_def setter_defs run_rules pure_defs)
    apply (simp add: slide_summary_def summary_defs pure_defs)
    done
  then obtain es where run: "adds_slide create_presentation_1_slide_5 es"
    and facts: "slide_summary es = (6, 1, True, [''20000''], True)"
    by (elim exE conjE)
  have eq: "slide_of create_presentation_1_slide_5 = es"
    using run by (rule adds_slide_slide_of)
  show "run_state create_presentation_1_slide_5 (world_of a b ss f out u) =
      ((), world_of a b (ss @ [slide_of create_presentation_1_slide_5]) f out u)"
    using run by (simp add: eq adds_slide_def)
  show "slide_summary (slide_of create_presentation_1_slide_5) = (6, 1, True, [''20000''], True)"
    using facts by (simp_all add: eq)
  show "length (filter covers_canvas (slide_of create_presentation_1_slide_5)) = 1"
    and "first_is_background (slide_of create_presentation_1_slide_5) = True"
    and "list_all (\<lambda>e. length (element_alphas e) \<le> 1) (slide_of create_presentation_1_slide_5)"
    using facts(1) by (simp_all add: eq slide_summary_def)
qed

lemma about_create_presentation_2_slide_1:
  shows "run_state create_presentation_2_slide_1 (world_of a b ss f out u) =
      ((), world_of a b (ss @ [slide_of create_presentation_2_slide_1]) f out u)"
    and "slide_summary (slide_of create_presentation_2_slide_1) = (8, 1, True, [''85000''], True)"
    and "length (filter covers_canvas (slide_of create_presentation_2_slide_1)) = 1"
    and "first_is_background (slide_of create_presentation_2_slide_1) = True"
    and "list_all (\<lambda>e. length (element_alphas e) \<le> 1) (slide_of create_presentation_2_slide_1)"
proof -
  have "\<exists>es. adds_slide create_presentation_2_slide_1 es \<and>
      slide_summary es = (8, 1, True, [''85000''], True)"
    unfolding adds_slide_def
    apply (rule exI, rule conjI, intro allI)
     apply (simp add: create_presentation_2_slide_1_def setter_defs run_rules pure_defs)
    apply (simp add: slide_summary_def summary_defs pure_defs)
    done
  then obtain es where run: "adds_slide create_presentation_2_slide_1 es"
    and facts: "slide_summary es = (8, 1, True, [''85000''], True)"
    by (elim exE conjE)
  have eq: "slide_of create_presentation_2_slide_1 = es"
    using run by (rule adds_slide_slide_of)
  show "run_state create_presentation_2_slide_1 (world_of a b ss f out u) =
      ((), world_of a b (ss @ [slide_of create_presentation_2_slide_1]) f out u)"
    using run by (simp add: eq adds_slide_def)
  show "slide_summary (slide_of create_presentation_2_slide_1) = (8, 1, True, [''85000''], True)"
    using facts by (simp_all add: eq)
  show "length (filter covers_canvas (slide_of create_presentation_2_slide_1)) = 1"
    and "first_is_background (slide_of create_presentation_2_slide_1) = True"
    and "list_all (\<lambda>e. length (element_alphas e) \<le> 1) (slide_of create_presentation_2_slide_1)"
    using facts(1) by (simp_all add: eq slide_summary_def)
qed

lemma about_create_presentation_2_slide_2:
  shows "run_state create_presentation_2_slide_2 (world_of a b ss f out u) =
      ((), world_of a b (ss @ [slide_of create_presentation_2_slide_2]) f out u)"
    and "slide_summary (slide_of create_presentation_2_slide_2) = (28, 1, True, [''90000'', ''90000'', ''90000'', ''90000'', ''90000''], True)"
    and "length (filter covers_canvas (slide_of create_presentation_2_slide_2)) = 1"
    and "first_is_background (slide_of create_presentation_2_slide_2) = True"
    and "list_all (\<lambda>e. length (element_alphas e) \<le> 1) (slide_of create_presentation_2_slide_2)"
proof -
  have "\<exists>es. adds_slide create_presentation_2_slide_2 es \<and>
      slide_summary es = (28, 1, True, [''90000'', ''90000'', ''90000'', ''90000'', ''90000''], True)"
    unfolding adds_slide_def
    apply (rule exI, rule conjI, intro allI)
     apply (simp add: create_presentation_2_slide_2_def setter_defs run_rules pure_defs)
    apply (simp add: slide_summary_def summary_defs pure_defs)
    done
  then obtain es where run: "adds_slide create_presentation_2_slide_2 es"
    and facts: "slide_summary es = (28, 1, True, [''90000'', ''90000'', ''90000'', ''90000'', ''90000''], True)"
    by (elim exE conjE)
  have eq: "slide_of create_presentation_2_slide_2 = es"
    using run by (rule adds_slide_slide_of)
  show "run_state create_presentation_2_slide_2 (world_of a b ss f out u) =
      ((), world_of a b (ss @ [slide_of create_presentation_2_slide_2]) f out u)"
    using run by (simp add: eq adds_slide_def)
  show "slide_summary (slide_of create_presentation_2_slide_2) = (28, 1, True, [''90000'', ''90000'', ''90000'', ''90000'', ''90000''], True)"
    using facts by (simp_all add: eq)
  show "length (filter covers_canvas (slide_of create_presentation_2_slide_2)) = 1"
    and "first_is_background (slide_of create_presentation_2_slide_2) = True"
    and "list_all (\<lambda>e. length (element_alphas e) \<le> 1) (slide_of create_presentation_2_slide_2)"
    using facts(1) by (simp_all add: eq slide_summary_def)
qed

lemma about_create_presentation_2_slide_3:
  shows "run_state create_presentation_2_slide_3 (world_of a b ss f out u) =
      ((), world_of a b (ss @ [slide_of create_presentation_2_slide_3]) f out u)"
    and "slide_summary (slide_of create_presentation_2_slide_3) = (17, 1, True, [], True)"
    and "length (filter covers_canvas (slide_of create_presentation_2_slide_3)) = 1"
    and "first_is_background (slide_of create_presentation_2_slide_3) = True"
    and "list_all (\<lambda>e. length (element_alphas e) \<le> 1) (slide_of create_presentation_2_slide_3)"
proof -
  have "\<exists>es. adds_slide create_presentation_2_slide_3 es \<and>
      slide_summary es = (17, 1, True, [], True)"
    unfolding adds_slide_def
    apply (rule exI, rule conjI, intro allI)
     apply (simp add: create_presentation_2_slide_3_def setter_defs run_rules pure_defs)
    apply (simp add: slide_summary_def summary_defs pure_defs)
    done
  then obtain es where run: "adds_slide create_presentation_2_slide_3 es"
    and facts: "slide_summary es = (17, 1, True, [], True)"
    by (elim exE conjE)
  have eq: "slide_of create_presentation_2_slide_3 = es"
    using run by (rule adds_slide_slide_of)
  show "run_state create_presentation_2_slide_3 (world_of a b ss f out u) =
      ((), world_of a b (ss @ [slide_of create_presentation_2_slide_3]) f out u)"
    using run by (simp add: eq adds_slide_def)
  show "slide_summary (slide_of create_presentation_2_slide_3) = (17, 1, True, [], True)"
    using facts by (simp_all add: eq)
  show "length (filter covers_canvas (slide_of create_presentation_2_slide_3)) = 1"
    and "first_is_background (slide_of create_presentation_2_slide_3) = True"
    and "list_all (\<lambda>e. length (element_alphas e) \<le> 1) (slide_of create_presentation_2_slide_3)"
    using facts(1) by (simp_all add: eq slide_summary_def)
qed

lemma about_create_presentation_2_slide_4:
  shows "run_state create_presentation_2_slide_4 (world_of a b ss f out u) =
      ((), world_of a b (ss @ [slide_of create_presentation_2_slide_4]) f out u)"
    and "slide_summary (slide_of create_presentation_2_slide_4) = (27, 1, True, [], True)"
    and "length (filter covers_canvas (slide_of create_presentation_2_slide_4)) = 1"
    and "first_is_background (slide_of create_presentation_2_slide_4) = True"
    and "list_all (\<lambda>e. length (element_alphas e) \<le> 1) (slide_of create_presentation_2_slide_4)"
proof -
  have "\<exists>es. adds_slide create_presentation_2_slide_4 es \<and>
      slide_summary es = (27, 1, True, [], True)"
    unfolding adds_slide_def
    apply (rule exI, rule conjI, intro allI)
     apply (simp add: create_presentation_2_slide_4_def setter_defs run_rules pure_defs)
    apply (simp add: slide_summary_def summary_defs pure_defs)
    done
  then obtain es where run: "adds_slide create_presentation_2_slide_4 es"
    and facts: "slide_summary es = (27, 1, True, [], True)"
    by (elim exE conjE)
  have eq: "slide_of create_presentation_2_slide_4 = es"
    using run by (rule adds_slide_slide_of)
  show "run_state create_presentation_2_slide_4 (world_of a b ss f out u) =
      ((), world_of a b (ss @ [slide_of create_presentation_2_slide_4]) f out u)"
    using run by (simp add: eq adds_slide_def)
  show "slide_summary (slide_of create_presentation_2_slide_4) = (27, 1, True, [], True)"
    using facts by (simp_all add: eq)
  show "length (filter covers_canvas (slide_of create_presentation_2_slide_4)) = 1"
    and "first_is_background (slide_of create_presentation_2_slide_4) = True"
    and "list_all (\<lambda>e. length (element_alphas e) \<le> 1) (slide_of create_presentation_2_slide_4)"
    using facts(1) by (simp_all add: eq slide_summary_def)
qed

lemma about_create_presentation_2_slide_5:
  shows "run_state create_presentation_2_slide_5 (world_of a b ss f out u) =
      ((), world_of a b (ss @ [slide_of create_presentation_2_slide_5]) f out u)"
    and "slide_summary (slide_of create_presentation_2_slide_5) = (9, 1, True, [''30000'', ''30000'', ''30000'', ''30000''], True)"
    and "length (filter covers_canvas (slide_of create_presentation_2_slide_5)) = 1"
    and "first_is_background (slide_of create_presentation_2_slide_5) = True"
    and "list_all (\<lambda>e. length (element_alphas e) \<le> 1) (slide_of create_presentation_2_slide_5)"
proof -
  have "\<exists>es. adds_slide create_presentation_2_slide_5 es \<and>
      slide_summary es = (9, 1, True, [''30000'', ''30000'', ''30000'', ''30000''], True)"
    unfolding adds_slide_def
    apply (rule exI, rule conjI, intro allI)
     apply (simp add: create_presentation_2_slide_5_def setter_defs run_rules pure_defs)
    apply (simp add: slide_summary_def summary_defs pure_defs)
    done
  then obtain es where run: "adds_slide create_presentation_2_slide_5 es"
    and facts: "slide_summary es = (9, 1, True, [''30000'', ''30000'', ''30000'', ''30000''], True)"
    by (elim exE conjE)
  have eq: "slide_of create_presentation_2_slide_5 = es"
    using run by (rule adds_slide_slide_of)
  show "run_state create_presentation_2_slide_5 (world_of a b ss f out u) =
      ((), world_of a b (ss @ [slide_of create_presentation_2_slide_5]) f out u)"
    using run by (simp add: eq adds_slide_def)
  show "slide_summary (slide_of create_presentation_2_slide_5) = (9, 1, True, [''30000'', ''30000'', ''30000'', ''30000''], True)"
    using facts by (simp_all add: eq)
  show "length (filter covers_canvas (slide_of create_presentation_2_slide_5)) = 1"
    and "first_is_background (slide_of create_presentation_2_slide_5) = True"
    and "list_all (\<lambda>e. length (element_alphas e) \<le> 1) (slide_of create_presentation_2_slide_5)"
    using facts(1) by (simp_all add: eq slide_summary_def)
qed

lemma about_create_presentation_3_slide_1:
  shows "run_state create_presentation_3_slide_1 (world_of a b ss f out u) =
      ((), world_of a b (ss @ [slide_of create_presentation_3_slide_1]) f out u)"
    and "slide_summary (slide_of create_presentation_3_slide_1) = (5, 1, True, [], True)"
    and "length (filter covers_canvas (slide_of create_presentation_3_slide_1)) = 1"
    and "first_is_background (slide_of create_presentation_3_slide_1) = True"
    and "list_all (\<lambda>e. length (element_alphas e) \<le> 1) (slide_of create_presentation_3_slide_1)"
proof -
  have "\<exists>es. adds_slide create_presentation_3_slide_1 es \<and>
      slide_summary es = (5, 1, True, [], True)"
    unfolding adds_slide_def
    apply (rule exI, rule conjI, intro allI)
     apply (simp add: create_presentation_3_slide_1_def setter_defs run_rules pure_defs)
    apply (simp add: slide_summary_def summary_defs pure_defs)
    done
  then obtain es where run: "adds_slide create_presentation_3_slide_1 es"
    and facts: "slide_summary es = (5, 1, True, [], True)"
    by (elim exE conjE)
  have eq: "slide_of create_presentation_3_slide_1 = es"
    using run by (rule adds_slide_slide_of)
  show "run_state create_presentation_3_slide_1 (world_of a b ss f out u) =
      ((), world_of a b (ss @ [slide_of create_presentation_3_slide_1]) f out u)"
    using run by (simp add: eq adds_slide_def)
  show "slide_summary (slide_of create_presentation_3_slide_1) = (5, 1, True, [], True)"
    using facts by (simp_all add: eq)
  show "length (filter covers_canvas (slide_of create_presentation_3_slide_1)) = 1"
    and "first_is_background (slide_of create_presentation_3_slide_1) = True"
    and "list_all (\<lambda>e. length (element_alphas e) \<le> 1) (slide_of create_presentation_3_slide_1)"
    using facts(1) by (simp_all add: eq slide_summary_def)
qed

lemma about_create_presentation_3_slide_2:
  shows "run_state create_presentation_3_slide_2 (world_of a b ss f out u) =
      ((), world_of a b (ss @ [slide_of create_presentation_3_slide_2]) f out u)"
    and "slide_summary (slide_of create_presentation_3_slide_2) = (15, 0, False, [], True)"
    and "map bounds (take 2 (slide_of create_presentation_3_slide_2)) = [(0, 0, 3657600, 6858000), (3657600, 0, 8534095, 6858000)]"
    and "length (filter covers_canvas (slide_of create_presentation_3_slide_2)) = 0"
    and "first_is_background (slide_of create_presentation_3_slide_2) = False"
    and "list_all (\<lambda>e. length (element_alphas e) \<le> 1) (slide_of create_presentation_3_slide_2)"
proof -
  have "\<exists>es. adds_slide create_presentation_3_slide_2 es \<and>
      slide_summary es = (15, 0, False, [], True) \<and>
      map bounds (take 2 es) = [(0, 0, 3657600, 6858000), (3657600, 0, 8534095, 6858000)]"
    unfolding adds_slide_def
    apply (rule exI, rule conjI, intro allI)
     apply (simp add: create_presentation_3_slide_2_def setter_defs run_rules pure_defs)
    apply (simp add: slide_summary_def summary_defs pure_defs)
    done
  then obtain es where run: "adds_slide create_presentation_3_slide_2 es"
    and facts: "slide_summary es = (15, 0, False, [], True)" "map bounds (take 2 es) = [(0, 0, 3657600, 6858000), (3657600, 0, 8534095, 6858000)]"
    by (elim exE conjE)
  have eq: "slide_of create_presentation_3_slide_2 = es"
    using run by (rule adds_slide_slide_of)
  show "run_state create_presentation_3_slide_2 (world_of a b ss f out u) =
      ((), world_of a b (ss @ [slide_of create_presentation_3_slide_2]) f out u)"
    using run by (simp add: eq adds_slide_def)
  show "slide_summary (slide_of create_presentation_3_slide_2) = (15, 0, False, [], True)"
    and "map bounds (take 2 (slide_of create_presentation_3_slide_2)) = [(0, 0, 3657600, 6858000), (3657600, 0, 8534095, 6858000)]"
    using facts by (simp_all add: eq)
  show "length (filter covers_canvas (slide_of create_presentation_3_slide_2)) = 0"
    and "first_is_background (slide_of create_presentation_3_slide_2) = False"
    and "list_all (\<lambda>e. length (element_alphas e) \<le> 1) (slide_of create_presentation_3_slide_2)"
    using facts(1) by (simp_all add: eq slide_summary_def)
qed

lemma about_create_presentation_3_slide_3:
  shows "run_state create_presentation_3_slide_3 (world_of a b ss f out u) =
      ((), world_of a b (ss @ [slide_of create_presentation_3_slide_3]) f out u)"
    and "slide_summary (slide_of create_presentation_3_slide_3) = (12, 1, True, [], True)"
    and "length (filter covers_canvas (slide_of create_presentation_3_slide_3)) = 1"
    and "first_is_background (slide_of create_presentation_3_slide_3) = True"
    and "list_all (\<lambda>e. length (element_alphas e) \<le> 1) (slide_of create_presentation_3_slide_3)"
proof -
  have "\<exists>es. adds_slide create_presentation_3_slide_3 es \<and>
      slide_summary es = (12, 1, True, [], True)"
    unfolding adds_slide_def
    apply (rule exI, rule conjI, intro allI)
     apply (simp add: create_presentation_3_slide_3_def setter_defs run_rules pure_defs)
    apply (simp add: slide_summary_def summary_defs pure_defs)
    done
  then obtain es where run: "adds_slide create_presentation_3_slide_3 es"
    and facts: "slide_summary es = (12, 1, True, [], True)"
    by (elim exE conjE)
  have eq: "slide_of create_presentation_3_slide_3 = es"
    using run by (rule adds_slide_slide_of)
  show "run_state create_presentation_3_slide_3 (world_of a b ss f out u) =
      ((), world_of a b (ss @ [slide_of create_presentation_3_slide_3]) f out u)"
    using run by (simp add: eq adds_slide_def)
  show "slide_summary (slide_of create_presentation_3_slide_3) = (12, 1, True, [], True)"
    using facts by (simp_all add: eq)
  show "length (filter covers_canvas (slide_of create_presentation_3_slide_3)) = 1"
    and "first_is_background (slide_of create_presentation_3_slide_3) = True"
    and "list_all (\<lambda>e. length (element_alphas e) \<le> 1) (slide_of create_presentation_3_slide_3)"
    using facts(1) by (simp_all add: eq slide_summary_def)
qed

lemma about_create_presentation_3_slide_4:
  shows "run_state create_presentation_3_slide_4 (world_of a b ss f out u) =
      ((), world_of a b (ss @ [slide_of create_presentation_3_slide_4]) f out u)"
    and "slide_summary (slide_of create_presentation_3_slide_4) = (21, 1, True, [], True)"
    and "length (filter covers_canvas (slide_of create_presentation_3_slide_4)) = 1"
    and "first_is_background (slide_of create_presentation_3_slide_4) = True"
    and "list_all (\<lambda>e. length (element_alphas e) \<le> 1) (slide_of create_presentation_3_slide_4)"
proof -
  have "\<exists>es. adds_slide create_presentation_3_slide_4 es \<and>
      slide_summary es = (21, 1, True, [], True)"
    unfolding adds_slide_def
    apply (rule exI, rule conjI, intro allI)
     apply (simp add: create_presentation_3_slide_4_def setter_defs run_rules pure_defs)
    apply (simp add: slide_summary_def summary_defs pure_defs)
    done
  then obtain es where run: "adds_slide create_presentation_3_slide_4 es"
    and facts: "slide_summary es = (21, 1, True, [], True)"
    by (elim exE conjE)
  have eq: "slide_of create_presentation_3_slide_4 = es"
    using run by (rule adds_slide_slide_of)
  show "run_state create_presentation_3_slide_4 (world_of a b ss f out u) =
      ((), world_of a b (ss @ [slide_of create_presentation_3_slide_4]) f out u)"
    using run by (simp add: eq adds_slide_def)
  show "slide_summary (slide_of create_presentation_3_slide_4) = (21, 1, True, [], True)"
    using facts by (simp_all add: eq)
  show "length (filter covers_canvas (slide_of create_presentation_3_slide_4)) = 1"
    and "first_is_background (slide_of create_presentation_3_slide_4) = True"
    and "list_all (\<lambda>e. length (element_alphas e) \<le> 1) (slide_of create_presentation_3_slide_4)"
    using facts(1) by (simp_all add: eq slide_summary_def)
qed

lemma about_create_presentation_3_slide_5:
  shows "run_state create_presentation_3_slide_5 (world_of a b ss f out u) =
      ((), world_of a b (ss @ [slide_of create_presentation_3_slide_5]) f out u)"
    and "slide_summary (slide_of create_presentation_3_slide_5) = (5, 1, True, [], True)"
    and "length (filter covers_canvas (slide_of create_presentation_3_slide_5)) = 1"
    and "first_is_background (slide_of create_presentation_3_slide_5) = True"
    and "list_all (\<lambda>e. length (element_alphas e) \<le> 1) (slide_of create_presentation_3_slide_5)"
proof -
  have "\<exists>es. adds_slide create_presentation_3_slide_5 es \<and>
      slide_summary es = (5, 1, True, [], True)"
    unfolding adds_slide_def
    apply (rule exI, rule conjI, intro allI)
     apply (simp add: create_presentation_3_slide_5_def setter_defs run_rules pure_defs)
    apply (simp add: slide_summary_def summary_defs pure_defs)
    done
  then obtain es where run: "adds_slide create_presentation_3_slide_5 es"
    and facts: "slide_summary es = (5, 1, True, [], True)"
    by (elim exE conjE)
  have eq: "slide_of create_presentation_3_slide_5 = es"
    using run by (rule adds_slide_slide_of)
  show "run_state create_presentation_3_slide_5 (world_of a b ss f out u) =
      ((), world_of a b (ss @ [slide_of create_presentation_3_slide_5]) f out u)"
    using run by (simp add: eq adds_slide_def)
  show "slide_summary (slide_of create_presentation_3_slide_5) = (5, 1, True, [], True)"
    using facts by (simp_all add: eq)
  show "length (filter covers_canvas (slide_of create_presentation_3_slide_5)) = 1"
    and "first_is_background (slide_of create_presentation_3_slide_5) = True"
    and "list_all (\<lambda>e. length (element_alphas e) \<le> 1) (slide_of create_presentation_3_slide_5)"
    using facts(1) by (simp_all add: eq slide_summary_def)
qed

lemma about_create_presentation_4_slide_1:
  shows "run_state create_presentation_4_slide_1 (world_of a b ss f out u) =
      ((), world_of a b (ss @ [slide_of create_presentation_4_slide_1]) f out u)"
    and "slide_summary (slide_of create_presentation_4_slide_1) = (6, 1, True, [], True)"
    and "length (filter covers_canvas (slide_of create_presentation_4_slide_1)) = 1"
    and "first_is_background (slide_of create_presentation_4_slide_1) = True"
    and "list_all (\<lambda>e. length (element_alphas e) \<le> 1) (slide_of create_presentation_4_slide_1)"
proof -
  have "\<exists>es. adds_slide create_presentation_4_slide_1 es \<and>
      slide_summary es = (6, 1, True, [], True)"
    unfolding adds_slide_def
    apply (rule exI, rule conjI, intro allI)
     apply (simp add: create_presentation_4_slide_1_def setter_defs run_rules pure_defs)
    apply (simp add: slide_summary_def summary_defs pure_defs)
    done
  then obtain es where run: "adds_slide create_presentation_4_slide_1 es"
    and facts: "slide_summary es = (6, 1, True, [], True)"
    by (elim exE conjE)
  have eq: "slide_of create_presentation_4_slide_1 = es"
    using run by (rule adds_slide_slide_of)
  show "run_state create_presentation_4_slide_1 (world_of a b ss f out u) =
      ((), world_of a b (ss @ [slide_of create_presentation_4_slide_1]) f out u)"
    using run by (simp add: eq adds_slide_def)
  show "slide_summary (slide_of create_presentation_4_slide_1) = (6, 1, True, [], True)"
    using facts by (simp_all add: eq)
  show "length (filter covers_canvas (slide_of create_presentation_4_slide_1)) = 1"
    and "first_is_background (slide_of create_presentation_4_slide_1) = True"
    and "list_all (\<lambda>e. length (element_alphas e) \<le> 1) (slide_of create_presentation_4_slide_1)"
    using facts(1) by (simp_all add: eq slide_summary_def)
qed

lemma about_create_presentation_4_slide_2:
  shows "run_state create_presentation_4_slide_2 (world_of a b ss f out u) =
      ((), world_of a b (ss @ [slide_of create_presentation_4_slide_2]) f out u)"
    and "slide_summary (slide_of create_presentation_4_slide_2) = (18, 1, True, [], True)"
    and "length (filter covers_canvas (slide_of create_presentation_4_slide_2)) = 1"
    and "first_is_background (slide_of create_presentation_4_slide_2) = True"
    and "list_all (\<lambda>e. length (element_alphas e) \<le> 1) (slide_of create_presentation_4_slide_2)"
proof -
  have "\<exists>es. adds_slide create_presentation_4_slide_2 es \<and>
      slide_summary es = (18, 1, True, [], True)"
    unfolding adds_slide_def
    apply (rule exI, rule conjI, intro allI)
     apply (simp add: create_presentation_4_slide_2_def setter_defs run_rules pure_defs)
    apply (simp add: slide_summary_def summary_defs pure_defs)
    done
  then obtain es where run: "adds_slide create_presentation_4_slide_2 es"
    and facts: "slide_summary es = (18, 1, True, [], True)"
    by (elim exE conjE)
  have eq: "slide_of create_presentation_4_slide_2 = es"
    using run by (rule adds_slide_slide_of)
  show "run_state create_presentation_4_slide_2 (world_of a b ss f out u) =
      ((), world_of a b (ss @ [slide_of create_presentation_4_slide_2]) f out u)"
    using run by (simp add: eq adds_slide_def)
  show "slide_summary (slide_of create_presentation_4_slide_2) = (18, 1, True, [], True)"
    using facts by (simp_all add: eq)
  show "length (filter covers_canvas (slide_of create_presentation_4_slide_2)) = 1"
    and "first_is_background (slide_of create_presentation_4_slide_2) = True"
    and "list_all (\<lambda>e. length (element_alphas e) \<le> 1) (slide_of create_presentation_4_slide_2)"
    using facts(1) by (simp_all add: eq slide_summary_def)
qed

lemma about_create_presentation_4_slide_3:
  shows "run_state create_presentation_4_slide_3 (world_of a b ss f out u) =
      ((), world_of a b (ss @ [slide_of create_presentation_4_slide_3]) f out u)"
    and "slide_summary (slide_of create_presentation_4_slide_3) = (16, 1, True, [], True)"
    and "length (filter covers_canvas (slide_of create_presentation_4_slide_3)) = 1"
    and "first_is_background (slide_of create_presentation_4_slide_3) = True"
    and "list_all (\<lambda>e. length (element_alphas e) \<le> 1) (slide_of create_presentation_4_slide_3)"
proof -
  have "\<exists>es. adds_slide create_presentation_4_slide_3 es \<and>
      slide_summary es = (16, 1, True, [], True)"
    unfolding adds_slide_def
    apply (rule exI, rule conjI, intro allI)
     apply (simp add: create_presentation_4_slide_3_def setter_defs run_rules pure_defs)
    apply (simp add: slide_summary_def summary_defs pure_defs)
    done
  then obtain es where run: "adds_slide create_presentation_4_slide_3 es"
    and facts: "slide_summary es = (16, 1, True, [], True)"
    by (elim exE conjE)
  have eq: "slide_of create_presentation_4_slide_3 = es"
    using run by (rule adds_slide_slide_of)
  show "run_state create_presentation_4_slide_3 (world_of a b ss f out u) =
      ((), world_of a b (ss @ [slide_of create_presentation_4_slide_3]) f out u)"
    using run by (simp add: eq adds_slide_def)
  show "slide_summary (slide_of create_presentation_4_slide_3) = (16, 1, True, [], True)"
    using facts by (simp_all add: eq)
  show "length (filter covers_canvas (slide_of create_presentation_4_slide_3)) = 1"
    and "first_is_background (slide_of create_presentation_4_slide_3) = True"
    and "list_all (\<lambda>e. length (element_alphas e) \<le> 1) (slide_of create_presentation_4_slide_3)"
    using facts(1) by (simp_all add: eq slide_summary_def)
qed

lemma about_create_presentation_4_slide_4:
  shows "run_state create_presentation_4_slide_4 (world_of a b ss f out u) =
      ((), world_of a b (ss @ [slide_of create_presentation_4_slide_4]) f out u)"
    and "slide_summary (slide_of create_presentation_4_slide_4) = (15, 1, True, [], True)"
    and "length (filter covers_canvas (slide_of create_presentation_4_slide_4)) = 1"
    and "first_is_background (slide_of create_presentation_4_slide_4) = True"
    and "list_all (\<lambda>e. length (element_alphas e) \<le> 1) (slide_of create_presentation_4_slide_4)"
proof -
  have "\<exists>es. adds_slide create_presentation_4_slide_4 es \<and>
      slide_summary es = (15, 1, True, [], True)"
    unfolding adds_slide_def
    apply (rule exI, rule conjI, intro allI)
     apply (simp add: create_presentation_4_slide_4_def setter_defs run_rules pure_defs)
    apply (simp add: slide_summary_def summary_defs pure_defs)
    done
  then obtain es where run: "adds_slide create_presentation_4_slide_4 es"
    and facts: "slide_summary es = (15, 1, True, [], True)"
    by (elim exE conjE)
  have eq: "slide_of create_presentation_4_slide_4 = es"
    using run by (rule adds_slide_slide_of)
  show "run_state create_presentation_4_slide_4 (world_of a b ss f out u) =
      ((), world_of a b (ss @ [slide_of create_presentation_4_slide_4]) f out u)"
    using run by (simp add: eq adds_slide_def)
  show "slide_summary (slide_of create_presentation_4_slide_4) = (15, 1, True, [], True)"
    using facts by (simp_all add: eq)
  show "length (filter covers_canvas (slide_of create_presentation_4_slide_4)) = 1"
    and "first_is_background (slide_of create_presentation_4_slide_4) = True"
    and "list_all (\<lambda>e. length (element_alphas e) \<le> 1) (slide_of create_presentation_4_slide_4)"
    using facts(1) by (simp_all add: eq slide_summary_def)
qed

lemma about_create_presentation_4_slide_5:
  shows "run_state create_presentation_4_slide_5 (world_of a b ss f out u) =
      ((), world_of a b (ss @ [slide_of create_presentation_4_slide_5]) f out u)"
    and "slide_summary (slide_of create_presentation_4_slide_5) = (5, 0, False, [], True)"
    and "map bounds (take 2 (slide_of create_presentation_4_slide_5)) = [(0, 0, 12191695, 3429000), (0, 3429000, 12191695, 3429000)]"
    and "length (filter covers_canvas (slide_of create_presentation_4_slide_5)) = 0"
    and "first_is_background (slide_of create_presentation_4_slide_5) = False"
    and "list_all (\<lambda>e. length (element_alphas e) \<le> 1) (slide_of create_presentation_4_slide_5)"
proof -
  have "\<exists>es. adds_slide create_presentation_4_slide_5 es \<and>
      slide_summary es = (5, 0, False, [], True) \<and>
      map bounds (take 2 es) = [(0, 0, 12191695, 3429000), (0, 3429000, 12191695, 3429000)]"
    unfolding adds_slide_def
    apply (rule exI, rule conjI, intro allI)
     apply (simp add: create_presentation_4_slide_5_def setter_defs run_rules pure_defs)
    apply (simp add: slide_summary_def summary_defs pure_defs)
    done
  then obtain es where run: "adds_slide create_presentation_4_slide_5 es"
    and facts: "slide_summary es = (5, 0, False, [], True)" "map bounds (take 2 es) = [(0, 0, 12191695, 3429000), (0, 3429000, 12191695, 3429000)]"
    by (elim exE conjE)
  have eq: "slide_of create_presentation_4_slide_5 = es"
    using run by (rule adds_slide_slide_of)
  show "run_state create_presentation_4_slide_5 (world_of a b ss f out u) =
      ((), world_of a b (ss @ [slide_of create_presentation_4_slide_5]) f out u)"
    using run by (simp add: eq adds_slide_def)
  show "slide_summary (slide_of create_presentation_4_slide_5) = (5, 0, False, [], True)"
    and "map bounds (take 2 (slide_of create_presentation_4_slide_5)) = [(0, 0, 12191695, 3429000), (0, 3429000, 12191695, 3429000)]"
    using facts by (simp_all add: eq)
  show "length (filter covers_canvas (slide_of create_presentation_4_slide_5)) = 0"
    and "first_is_background (slide_of create_presentation_4_slide_5) = False"
    and "list_all (\<lambda>e. length (element_alphas e) \<le> 1) (slide_of create_presentation_4_slide_5)"
    using facts(1) by (simp_all add: eq slide_summary_def)
qed

lemma about_create_presentation_5_slide_1:
  shows "run_state create_presentation_5_slide_1 (world_of a b ss f out u) =
      ((), world_of a b (ss @ [slide_of create_presentation_5_slide_1]) f out u)"
    and "slide_summary (slide_of create_presentation_5_slide_1) = (27, 1, True, [''50000'', ''50000'', ''50000'', ''50000'', ''50000'', ''50000'', ''50000'', ''50000'', ''50000'', ''50000'', ''50000'', ''50000'', ''50000'', ''50000'', ''50000'', ''80000''], True)"
    and "length (filter covers_canvas (slide_of create_presentation_5_slide_1)) = 1"
    and "first_is_background (slide_of create_presentation_5_slide_1) = True"
    and "list_all (\<lambda>e. length (element_alphas e) \<le> 1) (slide_of create_presentation_5_slide_1)"
proof -
  have "\<exists>es. adds_slide create_presentation_5_slide_1 es \<and>
      slide_summary es = (27, 1, True, [''50000'', ''50000'', ''50000'', ''50000'', ''50000'', ''50000'', ''50000'', ''50000'', ''50000'', ''50000'', ''50000'', ''50000'', ''50000'', ''50000'', ''50000'', ''80000''], True)"
    unfolding adds_slide_def
    apply (rule exI, rule conjI, intro allI)
     apply (simp add: create_presentation_5_slide_1_def setter_defs run_rules pure_defs)
    apply (simp add: slide_summary_def summary_defs pure_defs)
    done
  then obtain es where run: "adds_slide create_presentation_5_slide_1 es"
    and facts: "slide_summary es = (27, 1, True, [''50000'', ''50000'', ''50000'', ''50000'', ''50000'', ''50000'', ''50000'', ''50000'', ''50000'', ''50000'', ''50000'', ''50000'', ''50000'', ''50000'', ''50000'', ''80000''], True)"
    by (elim exE conjE)
  have eq: "slide_of create_presentation_5_slide_1 = es"
    using run by (rule adds_slide_slide_of)
  show "run_state create_presentation_5_slide_1 (world_of a b ss f out u) =
      ((), world_of a b (ss @ [slide_of create_presentation_5_slide_1]) f out u)"
    using run by (simp add: eq adds_slide_def)
  show "slide_summary (slide_of create_presentation_5_slide_1) = (27, 1, True, [''50000'', ''50000'', ''50000'', ''50000'', ''50000'', ''50000'', ''50000'', ''50000'', ''50000'', ''50000'', ''50000'', ''50000'', ''50000'', ''50000'', ''50000'', ''80000''], True)"
    using facts by (simp_all add: eq)
  show "length (filter covers_canvas (slide_of create_presentation_5_slide_1)) = 1"
    and "first_is_background (slide_of create_presentation_5_slide_1) = True"
    and "list_all (\<lambda>e. length (element_alphas e) \<le> 1) (slide_of create_presentation_5_slide_1)"
    using facts(1) by (simp_all add: eq slide_summary_def)
qed

lemma about_create_presentation_5_slide_2:
  shows "run_state create_presentation_5_slide_2 (world_of a b ss f out u) =
      ((), world_of a b (ss @ [slide_of create_presentation_5_slide_2]) f out u)"
    and "slide_summary (slide_of create_presentation_5_slide_2) = (27, 1, True, [], True)"
    and "length (filter covers_canvas (slide_of create_presentation_5_slide_2)) = 1"
    and "first_is_background (slide_of create_presentation_5_slide_2) = True"
    and "list_all (\<lambda>e. length (element_alphas e) \<le> 1) (slide_of create_presentation_5_slide_2)"
proof -
  have "\<exists>es. adds_slide create_presentation_5_slide_2 es \<and>
      slide_summary es = (27, 1, True, [], True)"
    unfolding adds_slide_def
    apply (rule exI, rule conjI, intro allI)
     apply (simp add: create_presentation_5_slide_2_def setter_defs run_rules pure_defs)
    apply (simp add: slide_summary_def summary_defs pure_defs)
    done
  then obtain es where run: "adds_slide create_presentation_5_slide_2 es"
    and facts: "slide_summary es = (27, 1, True, [], True)"
    by (elim exE conjE)
  have eq: "slide_of create_presentation_5_slide_2 = es"
    using run by (rule adds_slide_slide_of)
  show "run_state create_presentation_5_slide_2 (world_of a b ss f out u) =
      ((), world_of a b (ss @ [slide_of create_presentation_5_slide_2]) f out u)"
    using run by (simp add: eq adds_slide_def)
  show "slide_summary (slide_of create_presentation_5_slide_2) = (27, 1, True, [], True)"
    using facts by (simp_all add: eq)
  show "length (filter covers_canvas (slide_of create_presentation_5_slide_2)) = 1"
    and "first_is_background (slide_of create_presentation_5_slide_2) = True"
    and "list_all (\<lambda>e. length (element_alphas e) \<le> 1) (slide_of create_presentation_5_slide_2)"
    using facts(1) by (simp_all add: eq slide_summary_def)
qed

lemma about_create_presentation_5_slide_3:
  shows "run_state create_presentation_5_slide_3 (world_of a b ss f out u) =
      ((), world_of a b (ss @ [slide_of create_presentation_5_slide_3]) f out u)"
    and "slide_summary (slide_of create_presentation_5_slide_3) = (27, 1, True, [], True)"
    and "length (filter covers_canvas (slide_of create_presentation_5_slide_3)) = 1"
    and "first_is_background (slide_of create_presentation_5_slide_3) = True"
    and "list_all (\<lambda>e. length (element_alphas e) \<le> 1) (slide_of create_presentation_5_slide_3)"
proof -
  have "\<exists>es. adds_slide create_presentation_5_slide_3 es \<and>
      slide_summary es = (27, 1, True, [], True)"
    unfolding adds_slide_def
    apply (rule exI, rule conjI, intro allI)
     apply (simp add: create_presentation_5_slide_3_def setter_defs run_rules pure_defs)
    apply (simp add: slide_summary_def summary_defs pure_defs)
    done
  then obtain es where run: "adds_slide create_presentation_5_slide_3 es"
    and facts: "slide_summary es = (27, 1, True, [], True)"
    by (elim exE conjE)
  have eq: "slide_of create_presentation_5_slide_3 = es"
    using run by (rule adds_slide_slide_of)
  show "run_state create_presentation_5_slide_3 (world_of a b ss f out u) =
      ((), world_of a b (ss @ [slide_of create_presentation_5_slide_3]) f out u)"
    using run by (simp add: eq adds_slide_def)
  show "slide_summary (slide_of create_presentation_5_slide_3) = (27, 1, True, [], True)"
    using facts by (simp_all add: eq)
  show "length (filter covers_canvas (slide_of create_presentation_5_slide_3)) = 1"
    and "first_is_background (slide_of create_presentation_5_slide_3) = True"
    and "list_all (\<lambda>e. length (element_alphas e) \<le> 1) (slide_of create_presentation_5_slide_3)"
    using facts(1) by (simp_all add: eq slide_summary_def)
qed

lemma about_create_presentation_5_slide_4:
  shows "run_state create_presentation_5_slide_4 (world_of a b ss f out u) =
      ((), world_of a b (ss @ [slide_of create_presentation_5_slide_4]) f out u)"
    and "slide_summary (slide_of create_presentation_5_slide_4) = (27, 1, True, [], True)"
    and "length (filter covers_canvas (slide_of create_presentation_5_slide_4)) = 1"
    and "first_is_background (slide_of create_presentation_5_slide_4) = True"
    and "list_all (\<lambda>e. length (element_alphas e) \<le> 1) (slide_of create_presentation_5_slide_4)"
proof -
  have "\<exists>es. adds_slide create_presentation_5_slide_4 es \<and>
      slide_summary es = (27, 1, True, [], True)"
    unfolding adds_slide_def
    apply (rule exI, rule conjI, intro allI)
     apply (simp add: create_presentation_5_slide_4_def setter_defs run_rules pure_defs)
    apply (simp add: slide_summary_def summary_defs pure_defs)
    done
  then obtain es where run: "adds_slide create_presentation_5_slide_4 es"
    and facts: "slide_summary es = (27, 1, True, [], True)"
    by (elim exE conjE)
  have eq: "slide_of create_presentation_5_slide_4 = es"
    using run by (rule adds_slide_slide_of)
  show "run_state create_presentation_5_slide_4 (world_of a b ss f out u) =
      ((), world_of a b (ss @ [slide_of create_presentation_5_slide_4]) f out u)"
    using run by (simp add: eq adds_slide_def)
  show "slide_summary (slide_of create_presentation_5_slide_4) = (27, 1, True, [], True)"
    using facts by (simp_all add: eq)
  show "length (filter covers_canvas (slide_of create_presentation_5_slide_4)) = 1"
    and "first_is_background (slide_of create_presentation_5_slide_4) = True"
    and "list_all (\<lambda>e. length (element_alphas e) \<le> 1) (slide_of create_presentation_5_slide_4)"
    using facts(1) by (simp_all add: eq slide_summary_def)
qed

lemma about_create_presentation_5_slide_5:
  shows "run_state create_presentation_5_slide_5 (world_of a b ss f out u) =
      ((), world_of a b (ss @ [slide_of create_presentation_5_slide_5]) f out u)"
    and "slide_summary (slide_of create_presentation_5_slide_5) = (7, 1, True, [], True)"
    and "length (filter covers_canvas (slide_of create_presentation_5_slide_5)) = 1"
    and "first_is_background (slide_of create_presentation_5_slide_5) = True"
    and "list_all (\<lambda>e. length (element_alphas e) \<le> 1) (slide_of create_presentation_5_slide_5)"
proof -
  have "\<exists>es. adds_slide create_presentation_5_slide_5 es \<and>
      slide_summary es = (7, 1, True, [], True)"
    unfolding adds_slide_def
    apply (rule exI, rule conjI, intro allI)
     apply (simp add: create_presentation_5_slide_5_def setter_defs run_rules pure_defs)
    apply (simp add: slide_summary_def summary_defs pure_defs)
    done
  then obtain es where run: "adds_slide create_presentation_5_slide_5 es"
    and facts: "slide_summary es = (7, 1, True, [], True)"
    by (elim exE conjE)
  have eq: "slide_of create_presentation_5_slide_5 = es"
    using run by (rule adds_slide_slide_of)
  show "run_state create_presentation_5_slide_5 (world_of a b ss f out u) =
      ((), world_of a b (ss @ [slide_of create_presentation_5_slide_5]) f out u)"
    using run by (simp add: eq adds_slide_def)
  show "slide_summary (slide_of create_presentation_5_slide_5) = (7, 1, True, [], True)"
    using facts by (simp_all add: eq)
  show "length (filter covers_canvas (slide_of create_presentation_5_slide_5)) = 1"
    and "first_is_background (slide_of create_presentation_5_slide_5) = True"
    and "list_all (\<lambda>e. length (element_alphas e) \<le> 1) (slide_of create_presentation_5_slide_5)"
    using facts(1) by (simp_all add: eq slide_summary_def)
qed

section \<open>The five design functions and the entry point\<close>

text \<open>
  A design function replaces the presentation, sets the canvas, adds its five slides
  and saves; when the path cannot be written the exception is left propagating and the
  line after the save is not printed.
\<close>

lemma run_create_presentation_1_slides:
  "run_state create_presentation_1 (world_of a b ss f out u) =
     ((), if artifact_1 \<in> set u
          then (world_of SLIDE_WIDTH SLIDE_HEIGHT
       [slide_of create_presentation_1_slide_1,
        slide_of create_presentation_1_slide_2,
        slide_of create_presentation_1_slide_3,
        slide_of create_presentation_1_slide_4,
        slide_of create_presentation_1_slide_5] f out u)\<lparr>raised := Some (OSError artifact_1)\<rparr>
          else world_of SLIDE_WIDTH SLIDE_HEIGHT
       [slide_of create_presentation_1_slide_1,
        slide_of create_presentation_1_slide_2,
        slide_of create_presentation_1_slide_3,
        slide_of create_presentation_1_slide_4,
        slide_of create_presentation_1_slide_5]
            (f @ [(artifact_1, \<lparr>slide_width = SLIDE_WIDTH, slide_height = SLIDE_HEIGHT, slides =
       [slide_of create_presentation_1_slide_1,
        slide_of create_presentation_1_slide_2,
        slide_of create_presentation_1_slide_3,
        slide_of create_presentation_1_slide_4,
        slide_of create_presentation_1_slide_5]\<rparr>)])
            (out @ [''Created: design-1-cinematic-dark.pptx'']) u)"
  by (simp add: create_presentation_1_def artifact_1_def run_Presentation run_set_slide_width
      run_set_slide_height run_save run_py_print run_py_print_raised
      about_create_presentation_1_slide_1(1)
      about_create_presentation_1_slide_2(1)
      about_create_presentation_1_slide_3(1)
      about_create_presentation_1_slide_4(1)
      about_create_presentation_1_slide_5(1))

lemma design_1_eq:
  "design_1 = \<lparr>slide_width = SLIDE_WIDTH, slide_height = SLIDE_HEIGHT, slides =
       [slide_of create_presentation_1_slide_1,
        slide_of create_presentation_1_slide_2,
        slide_of create_presentation_1_slide_3,
        slide_of create_presentation_1_slide_4,
        slide_of create_presentation_1_slide_5]\<rparr>"
  by (simp add: design_1_def run_create_presentation_1_slides world_of_sel)

lemma run_create_presentation_1:
  "run_state create_presentation_1 (world_of a b ss f out u) =
     ((), if artifact_1 \<in> set u
          then (world_of (slide_width design_1) (slide_height design_1) (slides design_1) f out u)
                 \<lparr>raised := Some (OSError artifact_1)\<rparr>
          else world_of (slide_width design_1) (slide_height design_1) (slides design_1)
                 (f @ [(artifact_1, design_1)]) (out @ [''Created: design-1-cinematic-dark.pptx'']) u)"
  by (simp add: run_create_presentation_1_slides design_1_eq)

lemma run_create_presentation_2_slides:
  "run_state create_presentation_2 (world_of a b ss f out u) =
     ((), if artifact_2 \<in> set u
          then (world_of SLIDE_WIDTH SLIDE_HEIGHT
       [slide_of create_presentation_2_slide_1,
        slide_of create_presentation_2_slide_2,
        slide_of create_presentation_2_slide_3,
        slide_of create_presentation_2_slide_4,
        slide_of create_presentation_2_slide_5] f out u)\<lparr>raised := Some (OSError artifact_2)\<rparr>
          else world_of SLIDE_WIDTH SLIDE_HEIGHT
       [slide_of create_presentation_2_slide_1,
        slide_of create_presentation_2_slide_2,
        slide_of create_presentation_2_slide_3,
        slide_of create_presentation_2_slide_4,
        slide_of create_presentation_2_slide_5]
            (f @ [(artifact_2, \<lparr>slide_width = SLIDE_WIDTH, slide_height = SLIDE_HEIGHT, slides =
       [slide_of create_presentation_2_slide_1,
        slide_of create_presentation_2_slide_2,
        slide_of create_presentation_2_slide_3,
        slide_of create_presentation_2_slide_4,
        slide_of create_presentation_2_slide_5]\<rparr>)])
            (out @ [''Created: design-2-minimal-glass.pptx'']) u)"
  by (simp add: create_presentation_2_def artifact_2_def run_Presentation run_set_slide_width
      run_set_slide_height run_save run_py_print run_py_print_raised
      about_create_presentation_2_slide_1(1)
      about_create_presentation_2_slide_2(1)
      about_create_presentation_2_slide_3(1)
      about_create_presentation_2_slide_4(1)
      about_create_presentation_2_slide_5(1))

lemma design_2_eq:
  "design_2 = \<lparr>slide_width = SLIDE_WIDTH, slide_height = SLIDE_HEIGHT, slides =
       [slide_of create_presentation_2_slide_1,
        slide_of create_presentation_2_slide_2,
        slide_of create_presentation_2_slide_3,
        slide_of create_presentation_2_slide_4,
        slide_of create_presentation_2_slide_5]\<rparr>"
  by (simp add: design_2_def run_create_presentation_2_slides world_of_sel)

lemma run_create_presentation_2:
  "run_state create_presentation_2 (world_of a b ss f out u) =
     ((), if artifact_2 \<in> set u
          then (world_of (slide_width design_2) (slide_height design_2) (slides design_2) f out u)
                 \<lparr>raised := Some (OSError artifact_2)\<rparr>
          else world_of (slide_width design_2) (slide_height design_2) (slides design_2)
                 (f @ [(artifact_2, design_2)]) (out @ [''Created: design-2-minimal-glass.pptx'']) u)"
  by (simp add: run_create_presentation_2_slides design_2_eq)

lemma run_create_presentation_3_slides:
  "run_state create_presentation_3 (world_of a b ss f out u) =
     ((), if artifact_3 \<in> set u
          then (world_of SLIDE_WIDTH SLIDE_HEIGHT
       [slide_of create_presentation_3_slide_1,
        slide_of create_presentation_3_slide_2,
        slide_of create_presentation_3_slide_3,
        slide_of create_presentation_3_slide_4,
        slide_of create_presentation_3_slide_5] f out u)\<lparr>raised := Some (OSError artifact_3)\<rparr>
          else world_of SLIDE_WIDTH SLIDE_HEIGHT
       [slide_of create_presentation_3_slide_1,
        slide_of create_presentation_3_slide_2,
        slide_of create_presentation_3_slide_3,
        slide_of create_presentation_3_slide_4,
        slide_of create_presentation_3_slide_5]
            (f @ [(artifact_3, \<lparr>slide_width = SLIDE_WIDTH, slide_height = SLIDE_HEIGHT, slides =
       [slide_of create_presentation_3_slide_1,
        slide_of create_presentation_3_slide_2,
        slide_of create_presentation_3_slide_3,
        slide_of create_presentation_3_slide_4,
        slide_of create_presentation_3_slide_5]\<rparr>)])
            (out @ [''Created: design-3-bold-editorial.pptx'']) u)"
  by (simp add: create_presentation_3_def artifact_3_def run_Presentation run_set_slide_width
      run_set_slide_height run_save run_py_print run_py_print_raised
      about_create_presentation_3_slide_1(1)
      about_create_presentation_3_slide_2(1)
      about_create_presentation_3_slide_3(1)
      about_create_presentation_3_slide_4(1)
      about_create_presentation_3_slide_5(1))

lemma design_3_eq:
  "design_3 = \<lparr>slide_width = SLIDE_WIDTH, slide_height = SLIDE_HEIGHT, slides =
       [slide_of create_presentation_3_slide_1,
        slide_of create_presentation_3_slide_2,
        slide_of create_presentation_3_slide_3,
        slide_of create_presentation_3_slide_4,
        slide_of create_presentation_3_slide_5]\<rparr>"
  by (simp add: design_3_def run_create_presentation_3_slides world_of_sel)

lemma run_create_presentation_3:
  "run_state create_presentation_3 (world_of a b ss f out u) =
     ((), if artifact_3 \<in> set u
          then (world_of (slide_width design_3) (slide_height design_3) (slides design_3) f out u)
                 \<lparr>raised := Some (OSError artifact_3)\<rparr>
          else world_of (slide_width design_3) (slide_height design_3) (slides design_3)
                 (f @ [(artifact_3, design_3)]) (out @ [''Created: design-3-bold-editorial.pptx'']) u)"
  by (simp add: run_create_presentation_3_slides design_3_eq)

lemma run_create_presentation_4_slides:
  "run_state create_presentation_4 (world_of a b ss f out u) =
     ((), if artifact_4 \<in> set u
          then (world_of SLIDE_WIDTH SLIDE_HEIGHT
       [slide_of create_presentation_4_slide_1,
        slide_of create_presentation_4_slide_2,
        slide_of create_presentation_4_slide_3,
        slide_of create_presentation_4_slide_4,
        slide_of create_presentation_4_slide_5] f out u)\<lparr>raised := Some (OSError artifact_4)\<rparr>
          else world_of SLIDE_WIDTH SLIDE_HEIGHT
       [slide_of create_presentation_4_slide_1,
        slide_of create_presentation_4_slide_2,
        slide_of create_presentation_4_slide_3,
        slide_of create_presentation_4_slide_4,
        slide_of create_presentation_4_slide_5]
            (f @ [(artifact_4, \<lparr>slide_width = SLIDE_WIDTH, slide_height = SLIDE_HEIGHT, slides =
       [slide_of create_presentation_4_slide_1,
        slide_of create_presentation_4_slide_2,
        slide_of create_presentation_4_slide_3,
        slide_of create_presentation_4_slide_4,
        slide_of create_presentation_4_slide_5]\<rparr>)])
            (out @ [''Created: design-4-asymmetric-modern.pptx'']) u)"
  by (simp add: create_presentation_4_def artifact_4_def run_Presentation run_set_slide_width
      run_set_slide_height run_save run_py_print run_py_print_raised
      about_create_presentation_4_slide_1(1)
      about_create_presentation_4_slide_2(1)
      about_create_presentation_4_slide_3(1)
      about_create_presentation_4_slide_4(1)
      about_create_presentation_4_slide_5(1))

lemma design_4_eq:
  "design_4 = \<lparr>slide_width = SLIDE_WIDTH, slide_height = SLIDE_HEIGHT, slides =
       [slide_of create_presentation_4_slide_1,
        slide_of create_presentation_4_slide_2,
        slide_of create_presentation_4_slide_3,
        slide_of create_presentation_4_slide_4,
        slide_of create_presentation_4_slide_5]\<rparr>"
  by (simp add: design_4_def run_create_presentation_4_slides world_of_sel)

lemma run_create_presentation_4:
  "run_state create_presentation_4 (world_of a b ss f out u) =
     ((), if artifact_4 \<in> set u
          then (world_of (slide_width design_4) (slide_height design_4) (slides design_4) f out u)
                 \<lparr>raised := Some (OSError artifact_4)\<rparr>
          else world_of (slide_width design_4) (slide_height design_4) (slides design_4)
                 (f @ [(artifact_4, design_4)]) (out @ [''Created: design-4-asymmetric-modern.pptx'']) u)"
  by (simp add: run_create_presentation_4_slides design_4_eq)

lemma run_create_presentation_5_slides:
  "run_state create_presentation_5 (world_of a b ss f out u) =
     ((), if artifact_5 \<in> set u
          then (world_of SLIDE_WIDTH SLIDE_HEIGHT
       [slide_of create_presentation_5_slide_1,
        slide_of create_presentation_5_slide_2,
        slide_of create_presentation_5_slide_3,
        slide_of create_presentation_5_slide_4,
        slide_of create_presentation_5_slide_5] f out u)\<lparr>raised := Some (OSError artifact_5)\<rparr>
          else world_of SLIDE_WIDTH SLIDE_HEIGHT
       [slide_of create_presentation_5_slide_1,
        slide_of create_presentation_5_slide_2,
        slide_of create_presentation_5_slide_3,
        slide_of create_presentation_5_slide_4,
        slide_of create_presentation_5_slide_5]
            (f @ [(artifact_5, \<lparr>slide_width = SLIDE_WIDTH, slide_height = SLIDE_HEIGHT, slides =
       [slide_of create_presentation_5_slide_1,
        slide_of create_presentation_5_slide_2,
        slide_of create_presentation_5_slide_3,
        slide_of create_presentation_5_slide_4,
        slide_of create_presentation_5_slide_5]\<rparr>)])
            (out @ [''Created: design-5-dashboard-tech.pptx'']) u)"
  by (simp add: create_presentation_5_def artifact_5_def run_Presentation run_set_slide_width
      run_set_slide_height run_save run_py_print run_py_print_raised
      about_create_presentation_5_slide_1(1)
      about_create_presentation_5_slide_2(1)
      about_create_presentation_5_slide_3(1)
      about_create_presentation_5_slide_4(1)
      about_create_presentation_5_slide_5(1))

lemma design_5_eq:
  "design_5 = \<lparr>slide_width = SLIDE_WIDTH, slide_height = SLIDE_HEIGHT, slides =
       [slide_of create_presentation_5_slide_1,
        slide_of create_presentation_5_slide_2,
        slide_of create_presentation_5_slide_3,
        slide_of create_presentation_5_slide_4,
        slide_of create_presentation_5_slide_5]\<rparr>"
  by (simp add: design_5_def run_create_presentation_5_slides world_of_sel)

lemma run_create_presentation_5:
  "run_state create_presentation_5 (world_of a b ss f out u) =
     ((), if artifact_5 \<in> set u
          then (world_of (slide_width design_5) (slide_height design_5) (slides design_5) f out u)
                 \<lparr>raised := Some (OSError artifact_5)\<rparr>
          else world_of (slide_width design_5) (slide_height design_5) (slides design_5)
                 (f @ [(artifact_5, design_5)]) (out @ [''Created: design-5-dashboard-tech.pptx'']) u)"
  by (simp add: run_create_presentation_5_slides design_5_eq)


lemma keeps_slide_programs: "list_all keeps_canvas slide_programs"
  apply (simp add: slide_programs_def)
  unfolding
    create_presentation_1_slide_1_def create_presentation_1_slide_2_def create_presentation_1_slide_3_def
    create_presentation_1_slide_4_def create_presentation_1_slide_5_def
    create_presentation_2_slide_1_def create_presentation_2_slide_2_def create_presentation_2_slide_3_def
    create_presentation_2_slide_4_def create_presentation_2_slide_5_def
    create_presentation_3_slide_1_def create_presentation_3_slide_2_def create_presentation_3_slide_3_def
    create_presentation_3_slide_4_def create_presentation_3_slide_5_def
    create_presentation_4_slide_1_def create_presentation_4_slide_2_def create_presentation_4_slide_3_def
    create_presentation_4_slide_4_def create_presentation_4_slide_5_def
    create_presentation_5_slide_1_def create_presentation_5_slide_2_def create_presentation_5_slide_3_def
    create_presentation_5_slide_4_def create_presentation_5_slide_5_def
  by (intro conjI TrueI keeps_intros)

lemmas run_decks = run_create_presentation_1 run_create_presentation_2 run_create_presentation_3
  run_create_presentation_4 run_create_presentation_5


lemmas design_eqs = design_1_eq design_2_eq design_3_eq design_4_eq design_5_eq

lemmas artifact_defs = artifact_1_def artifact_2_def artifact_3_def artifact_4_def artifact_5_def


section \<open>Properties\<close>

subsection \<open>The opacity statements\<close>

text \<open>
  C1, as the code has it. The opacity statements append and never overwrite. Run with
  \<open>p\<close> and then with \<open>q\<close> through a handle that names a shape, in a state without
  exception, they leave that shape with \<open>inject_alpha\<close> applied twice to its style
  tree and touch nothing else. When the shape has a solid RGB fill, the opacity values
  on its colour node are the earlier ones followed by \<open>p\<close> and \<open>q\<close> (the last one is
  \<open>q\<close>); otherwise there are none. In the five decks as built, no element carries
  more than one opacity value: the script runs the statements at most once per shape.
\<close>

theorem opacity_twice_appends:
  assumes "raised w = None" and "fst h < length (slides (prs w))"
    and "snd h < length (slides (prs w) ! fst h)" and "element_at h w = Shape sh"
  shows "run_state (do { set_alpha h p; set_alpha h q }) w =
           ((), put_element h (Shape (sh\<lparr>spPr := inject_alpha q (inject_alpha p (spPr sh))\<rparr>)) w)
         \<and> fill_alphas (inject_alpha q (inject_alpha p (spPr sh))) =
           (if fill_color_node (spPr sh) = None then [] else fill_alphas (spPr sh) @ [p, q])
         \<and> list_all (\<lambda>(path, d). list_all (list_all (\<lambda>e. length (element_alphas e) \<le> 1)) (slides d))
             artifacts"
proof (intro conjI)
  let ?w1 = "put_element h (Shape (sh\<lparr>spPr := inject_alpha p (spPr sh)\<rparr>)) w"
  have first: "run_state (set_alpha h p) w = ((), ?w1)"
    using assms(1,4) by (simp add: set_alpha_def run_on_shape_any on_spPr_def)
  have "run_state (set_alpha h q) ?w1 =
      ((), put_element h (Shape (sh\<lparr>spPr := inject_alpha q (inject_alpha p (spPr sh))\<rparr>)) ?w1)"
    using assms(1,2,3)
    by (simp add: set_alpha_def run_on_shape_any on_spPr_def raised_put_element
        element_at_put_element)
  with first assms(2)
  show "run_state (do { set_alpha h p; set_alpha h q }) w =
      ((), put_element h (Shape (sh\<lparr>spPr := inject_alpha q (inject_alpha p (spPr sh))\<rparr>)) w)"
    by (simp add: put_element_twice)
next
  show "fill_alphas (inject_alpha q (inject_alpha p (spPr sh))) =
      (if fill_color_node (spPr sh) = None then [] else fill_alphas (spPr sh) @ [p, q])"
    by (simp add: fill_alphas_inject fill_color_node_inject)
next
  show "list_all (\<lambda>(path, d). list_all (list_all (\<lambda>e. length (element_alphas e) \<le> 1)) (slides d))
      artifacts"
    using
      about_create_presentation_1_slide_1(5) about_create_presentation_1_slide_2(5) about_create_presentation_1_slide_3(5)
      about_create_presentation_1_slide_4(5) about_create_presentation_1_slide_5(5) about_create_presentation_2_slide_1(5)
      about_create_presentation_2_slide_2(5) about_create_presentation_2_slide_3(5) about_create_presentation_2_slide_4(5)
      about_create_presentation_2_slide_5(5) about_create_presentation_3_slide_1(5) about_create_presentation_3_slide_2(6)
      about_create_presentation_3_slide_3(5) about_create_presentation_3_slide_4(5) about_create_presentation_3_slide_5(5)
      about_create_presentation_4_slide_1(5) about_create_presentation_4_slide_2(5) about_create_presentation_4_slide_3(5)
      about_create_presentation_4_slide_4(5) about_create_presentation_4_slide_5(6) about_create_presentation_5_slide_1(5)
      about_create_presentation_5_slide_2(5) about_create_presentation_5_slide_3(5) about_create_presentation_5_slide_4(5)
      about_create_presentation_5_slide_5(5)
    by (simp add: artifacts_def design_eqs)
qed

text \<open>
  The theorem at the glow circle of design 1 (lines 91 to 102), with the values of lines
  101 and 126: a fully opaque shape ends with both values.
\<close>

theorem opacity_twice_appends_witness:
  "raised glow_world = None \<and> fst (0::nat, 0::nat) < length (slides (prs glow_world))
   \<and> snd (0::nat, 0::nat) < length (slides (prs glow_world) ! fst (0::nat, 0::nat))
   \<and> element_alphas (element_at (0, 0) glow_world) = []
   \<and> element_alphas (element_at (0, 0)
        (snd (run_state (do { set_alpha (0, 0) ''15000''; set_alpha (0, 0) ''70000'' }) glow_world)))
       = [''15000'', ''70000'']"
  using opacity_twice_appends [where w = glow_world and h = "(0, 0)" and p = "''15000''"
      and q = "''70000''"]
  by (simp add: glow_world_eq tiny_defs element_alphas_def fill_color_node_def fill_alphas_def
      attr_of_def pure_defs)

text \<open>
  C1 as stated fails: after 70 percent and then 30 percent the colour node of the glow
  circle holds two opacity values, not the single value 30000; and running the
  statements twice with the same value does not give the state that running them once
  gives.
\<close>

theorem opacity_twice_counterexample:
  "element_alphas (element_at (0, 0)
      (snd (run_state (do { set_alpha (0, 0) ''70000''; set_alpha (0, 0) ''30000'' }) glow_world)))
     = [''70000'', ''30000'']
   \<and> snd (run_state (do { set_alpha (0, 0) ''70000''; set_alpha (0, 0) ''70000'' }) glow_world)
     \<noteq> snd (run_state (set_alpha (0, 0) ''70000'') glow_world)"
  by (simp add: glow_world_eq setter_defs pure_defs tiny_defs element_alphas_def fill_alphas_def
      attr_of_def)

text \<open>
  C4. On a shape whose style tree has no solid fill (no fill at all, or an outline only)
  the opacity statements change nothing: the state after them is the state before, no
  exception is raised, and the shape has no opacity value, so it stays fully opaque.
\<close>

theorem opacity_without_solid_fill_is_noop:
  assumes "raised w = None" and "element_at h w = Shape sh"
    and "find_child ''a:solidFill'' (spPr sh) = None"
  shows "run_state (set_alpha h v) w = ((), w) \<and> fill_alphas (spPr sh) = []"
  using assms
  by (simp add: set_alpha_def run_on_shape_any [where sh' = sh] on_spPr_def inject_alpha_no_fill
      put_element_same fill_alphas_def)

text \<open>
  The theorem at a border of design 5: the shape has no fill of its own and a solid
  orange outline, whose \<^verbatim>\<open>a:solidFill\<close> lies below \<^verbatim>\<open>a:ln\<close> and is not found.
\<close>

theorem opacity_without_solid_fill_is_noop_witness:
  "raised border_world = None
   \<and> find_child ''a:solidFill'' (spPr (case element_at (0, 0) border_world of Shape sh \<Rightarrow> sh)) = None
   \<and> find_child ''a:ln'' (spPr (case element_at (0, 0) border_world of Shape sh \<Rightarrow> sh)) =
       Some (Elem ''a:ln'' [(''w'', ''12700'')]
         [Elem ''a:solidFill'' [] [Elem ''a:srgbClr'' [(''val'', ''FF7932'')] []]])
   \<and> run_state (set_alpha (0, 0) ''50000'') border_world = ((), border_world)"
  using opacity_without_solid_fill_is_noop [where w = border_world and h = "(0, 0)"
      and v = "''50000''"]
  by (simp add: border_world_eq world_of_def element_at_def find_child_def)

subsection \<open>The two helper functions\<close>




text \<open>
  C6. For a positive width and a positive height, in a state without exception and for a
  slide handle in range, \<^verbatim>\<open>add_shape_with_opacity\<close> raises nothing, and the element
  its returned handle names has exactly the left, top, width and height that were
  passed: nothing is clamped to the canvas.
\<close>

theorem place_shape_reports_given_bounds:
  assumes "0 < wd" and "0 < ht" and "raised w = None" and "s < length (slides (prs w))"
  shows "raised (snd (run_state (add_shape_with_opacity s t l tp wd ht c op lc) w)) = None
         \<and> bounds (element_at (fst (run_state (add_shape_with_opacity s t l tp wd ht c op lc) w))
             (snd (run_state (add_shape_with_opacity s t l tp wd ht c op lc) w))) = (l, tp, wd, ht)"
  using assms(3,4)
  by (simp add: add_shape_with_opacity_effect raised_with_element element_at_with_element
      bounds_def new_shape_def)

text \<open>
  The theorem at the bounds of the diagonal of design 1 (line 195), which starts left of
  the canvas and is wider than it.
\<close>

theorem place_shape_reports_given_bounds_witness:
  "(0::int) < Inches 20 \<and> (0::int) < Inches 4 \<and> raised blank_slide_world = None
   \<and> 0 < length (slides (prs blank_slide_world))
   \<and> bounds (element_at (0, 0) (snd (run_state
        (add_shape_with_opacity 0 RECTANGLE (Inches (- 2)) (Inches 5) (Inches 20) (Inches 4)
           (RGBColor 0xFF 0x79 0x32) 1 None) blank_slide_world)))
      = (- 1828800, 4572000, 18288000, 3657600)
   \<and> SLIDE_WIDTH < 18288000"
  using place_shape_reports_given_bounds [where wd = "Inches 20" and ht = "Inches 4"
      and w = blank_slide_world and s = 0 and t = RECTANGLE and l = "Inches (- 2)"
      and tp = "Inches 5" and c = "RGBColor 0xFF 0x79 0x32" and op = 1 and lc = None]
  by (simp add: blank_slide_world_eq world_of_sel add_shape_with_opacity_effect
      Inches_def py_int_def SLIDE_WIDTH_def floor_rat_numeral)

text \<open>
  C10. \<^verbatim>\<open>add_shape_with_opacity\<close> ignores its \<^verbatim>\<open>opacity\<close> argument: two calls that
  differ only in it are the same computation, and the shape created (here on any slide
  of any state without exception) has no opacity value, whatever was passed.
\<close>

theorem opacity_parameter_unused:
  "add_shape_with_opacity s t l tp wd ht c op lc = add_shape_with_opacity s t l tp wd ht c op' lc
   \<and> element_alphas (element_at
        (fst (run_state (add_shape_with_opacity (length ss) t l tp wd ht c op lc)
           (world_of a b (ss @ cur # rest) f out u)))
        (snd (run_state (add_shape_with_opacity (length ss) t l tp wd ht c op lc)
           (world_of a b (ss @ cur # rest) f out u)))) = []"
proof (intro conjI)
  show "add_shape_with_opacity s t l tp wd ht c op lc =
      add_shape_with_opacity s t l tp wd ht c op' lc"
    by (simp add: add_shape_with_opacity_def)
next
  show "element_alphas (element_at
        (fst (run_state (add_shape_with_opacity (length ss) t l tp wd ht c op lc)
           (world_of a b (ss @ cur # rest) f out u)))
        (snd (run_state (add_shape_with_opacity (length ss) t l tp wd ht c op lc)
           (world_of a b (ss @ cur # rest) f out u)))) = []"
    by (cases lc)
      (simp_all add: run_add_shape_with_opacity element_at_world_of
        element_alphas_def styled_spPr_def fill_alphas_def find_child_def)
qed

subsection \<open>The decks\<close>

text \<open>
  C5, as the code has it. Every slide is a sequence of shapes and text boxes in
  insertion order. On twenty-three of the twenty-five slides the first element is an
  opaque, solidly filled rectangle over the whole canvas, and it is the only element
  that covers the canvas. Slide 2 of design 3 and slide 5 of design 4 have no element
  that covers the canvas: they start with two rectangles that tile it, side by side in
  design 3 and one above the other in design 4.
\<close>

theorem background_census:
  "map (\<lambda>(path, d). map (\<lambda>s. length (filter covers_canvas s)) (slides d)) artifacts =
     [[1, 1, 1, 1, 1], [1, 1, 1, 1, 1], [1, 0, 1, 1, 1], [1, 1, 1, 1, 0], [1, 1, 1, 1, 1]]
   \<and> map (\<lambda>(path, d). map first_is_background (slides d)) artifacts =
     [[True, True, True, True, True], [True, True, True, True, True],
      [True, False, True, True, True], [True, True, True, True, False],
      [True, True, True, True, True]]
   \<and> map bounds (take 2 (slides design_3 ! 1)) =
     [(0, 0, 3657600, 6858000), (3657600, 0, 8534095, 6858000)]
   \<and> map bounds (take 2 (slides design_4 ! 4)) =
     [(0, 0, 12191695, 3429000), (0, 3429000, 12191695, 3429000)]"
  using
      about_create_presentation_1_slide_1(3) about_create_presentation_1_slide_2(3) about_create_presentation_1_slide_3(3)
      about_create_presentation_1_slide_4(3) about_create_presentation_1_slide_5(3) about_create_presentation_2_slide_1(3)
      about_create_presentation_2_slide_2(3) about_create_presentation_2_slide_3(3) about_create_presentation_2_slide_4(3)
      about_create_presentation_2_slide_5(3) about_create_presentation_3_slide_1(3) about_create_presentation_3_slide_2(4)
      about_create_presentation_3_slide_3(3) about_create_presentation_3_slide_4(3) about_create_presentation_3_slide_5(3)
      about_create_presentation_4_slide_1(3) about_create_presentation_4_slide_2(3) about_create_presentation_4_slide_3(3)
      about_create_presentation_4_slide_4(3) about_create_presentation_4_slide_5(4) about_create_presentation_5_slide_1(3)
      about_create_presentation_5_slide_2(3) about_create_presentation_5_slide_3(3) about_create_presentation_5_slide_4(3)
      about_create_presentation_5_slide_5(3)
      about_create_presentation_1_slide_1(4) about_create_presentation_1_slide_2(4) about_create_presentation_1_slide_3(4)
      about_create_presentation_1_slide_4(4) about_create_presentation_1_slide_5(4) about_create_presentation_2_slide_1(4)
      about_create_presentation_2_slide_2(4) about_create_presentation_2_slide_3(4) about_create_presentation_2_slide_4(4)
      about_create_presentation_2_slide_5(4) about_create_presentation_3_slide_1(4) about_create_presentation_3_slide_2(5)
      about_create_presentation_3_slide_3(4) about_create_presentation_3_slide_4(4) about_create_presentation_3_slide_5(4)
      about_create_presentation_4_slide_1(4) about_create_presentation_4_slide_2(4) about_create_presentation_4_slide_3(4)
      about_create_presentation_4_slide_4(4) about_create_presentation_4_slide_5(5) about_create_presentation_5_slide_1(4)
      about_create_presentation_5_slide_2(4) about_create_presentation_5_slide_3(4) about_create_presentation_5_slide_4(4)
      about_create_presentation_5_slide_5(4)
      about_create_presentation_3_slide_2(3) about_create_presentation_4_slide_5(3)
  by (simp add: artifacts_def design_eqs)

text \<open>
  C5 as stated fails on slide 2 of design 3 (lines 609 to 651): its first element is
  not a background and none of its elements covers the canvas.
\<close>

theorem background_counterexample:
  "\<not> first_is_background (slides design_3 ! 1)
   \<and> filter covers_canvas (slides design_3 ! 1) = []"
  using about_create_presentation_3_slide_2(4,5)
  by (simp add: design_eqs)

text \<open>
  C7. Run where every path can be written, the script writes exactly five files, to five
  different paths, in the order of the designs, each holding a presentation of exactly
  five slides, and ends without exception. No design depends on what was built before
  it: from whatever presentation and files the state holds, each design function writes
  the same presentation to its own path and leaves the earlier files as they are.
\<close>

theorem five_decks_of_five_slides:
  "files (snd (run_state main (world_of a b ss [] [] []))) = artifacts
   \<and> raised (snd (run_state main (world_of a b ss [] [] []))) = None
   \<and> map fst artifacts =
     [''/root/fahrerplanung/presentations/design-1-cinematic-dark.pptx'',
      ''/root/fahrerplanung/presentations/design-2-minimal-glass.pptx'',
      ''/root/fahrerplanung/presentations/design-3-bold-editorial.pptx'',
      ''/root/fahrerplanung/presentations/design-4-asymmetric-modern.pptx'',
      ''/root/fahrerplanung/presentations/design-5-dashboard-tech.pptx'']
   \<and> distinct (map fst artifacts)
   \<and> map (\<lambda>(path, d). length (slides d)) artifacts = [5, 5, 5, 5, 5]
   \<and> files (snd (run_state create_presentation_1 (world_of a b ss f out []))) =
       f @ [(artifact_1, design_1)]
   \<and> files (snd (run_state create_presentation_2 (world_of a b ss f out []))) =
       f @ [(artifact_2, design_2)]
   \<and> files (snd (run_state create_presentation_3 (world_of a b ss f out []))) =
       f @ [(artifact_3, design_3)]
   \<and> files (snd (run_state create_presentation_4 (world_of a b ss f out []))) =
       f @ [(artifact_4, design_4)]
   \<and> files (snd (run_state create_presentation_5 (world_of a b ss f out []))) =
       f @ [(artifact_5, design_5)]"
  by (simp add: main_def artifacts_def run_py_print run_decks world_of_sel artifact_defs
      design_eqs)

text \<open>
  C9. The canvas of every deck is \<^verbatim>\<open>Inches(13.333)\<close> by \<^verbatim>\<open>Inches(7.5)\<close>, that is
  12191695 by 6858000 units. A design function sets it in its first three statements;
  every statement after them (the twenty-five slide programs, the two helper functions,
  the save and the print) leaves the canvas of every state as it is.
\<close>

theorem canvas_fixed_per_deck:
  "SLIDE_WIDTH = Inches 13.333 \<and> SLIDE_HEIGHT = Inches 7.5
   \<and> SLIDE_WIDTH = 12191695 \<and> SLIDE_HEIGHT = 6858000
   \<and> map (\<lambda>(path, d). (slide_width d, slide_height d)) artifacts =
       [(SLIDE_WIDTH, SLIDE_HEIGHT), (SLIDE_WIDTH, SLIDE_HEIGHT), (SLIDE_WIDTH, SLIDE_HEIGHT),
        (SLIDE_WIDTH, SLIDE_HEIGHT), (SLIDE_WIDTH, SLIDE_HEIGHT)]
   \<and> canvas (snd (run_state (do { Presentation; set_slide_width SLIDE_WIDTH;
         set_slide_height SLIDE_HEIGHT }) (world_of a b ss f out u))) = (SLIDE_WIDTH, SLIDE_HEIGHT)
   \<and> list_all keeps_canvas slide_programs
   \<and> keeps_canvas (save path) \<and> keeps_canvas (py_print s)
   \<and> keeps_canvas (add_shape_with_opacity sl t l tp wd ht c op lc)
   \<and> keeps_canvas (add_text_box sl l tp wd ht content sz col bd fn al)"
  by (simp add: keeps_slide_programs keeps_prims keeps_add_shape_with_opacity keeps_add_text_box
      artifacts_def design_eqs canvas_def run_Presentation run_set_slide_width
      run_set_slide_height world_of_sel)
    (simp add: SLIDE_WIDTH_def SLIDE_HEIGHT_def Inches_def py_int_def floor_rat_numeral)

subsection \<open>A save that fails\<close>



end
